theory Spec2Isabelle
  imports Complex_Main
begin

section \<open>GLSL values\<close>

text \<open>
  The solver of \<^verbatim>\<open>sim.js\<close> runs its numerical passes as GLSL fragment shaders over
  half-float textures. The embedding keeps the formulas of the shaders and reads every
  GLSL \<^verbatim>\<open>float\<close> and every JavaScript number as a real number: rounding to 16 or 32
  bits is not modelled, so every equation below is an equation of the exact arithmetic the
  shaders approximate.
\<close>

type_synonym vec2 = "real \<times> real"
type_synonym vec3 = "real \<times> real \<times> real"
type_synonym vec4 = "real \<times> real \<times> real \<times> real"

fun add2 :: "vec2 \<Rightarrow> vec2 \<Rightarrow> vec2" where
  "add2 (p1, p2) (q1, q2) = (p1 + q1, p2 + q2)"

fun sub2 :: "vec2 \<Rightarrow> vec2 \<Rightarrow> vec2" where
  "sub2 (p1, p2) (q1, q2) = (p1 - q1, p2 - q2)"

fun mul2 :: "vec2 \<Rightarrow> vec2 \<Rightarrow> vec2" where
  "mul2 (p1, p2) (q1, q2) = (p1 * q1, p2 * q2)"

fun div2 :: "vec2 \<Rightarrow> vec2 \<Rightarrow> vec2" where
  "div2 (p1, p2) (q1, q2) = (p1 / q1, p2 / q2)"

fun scale2 :: "real \<Rightarrow> vec2 \<Rightarrow> vec2" where
  "scale2 k (p1, p2) = (k * p1, k * p2)"

fun dot2 :: "vec2 \<Rightarrow> vec2 \<Rightarrow> real" where
  "dot2 (p1, p2) (q1, q2) = p1 * q1 + p2 * q2"

fun length2 :: "vec2 \<Rightarrow> real" where
  "length2 (p1, p2) = sqrt (p1 * p1 + p2 * p2)"

fun floor2 :: "vec2 \<Rightarrow> vec2" where
  "floor2 (p1, p2) = (real_of_int \<lfloor>p1\<rfloor>, real_of_int \<lfloor>p2\<rfloor>)"

fun add4 :: "vec4 \<Rightarrow> vec4 \<Rightarrow> vec4" where
  "add4 (p1, p2, p3, p4) (q1, q2, q3, q4) = (p1 + q1, p2 + q2, p3 + q3, p4 + q4)"

fun scale4 :: "vec4 \<Rightarrow> real \<Rightarrow> vec4" where
  "scale4 (p1, p2, p3, p4) k = (p1 * k, p2 * k, p3 * k, p4 * k)"

text \<open>GLSL \<^verbatim>\<open>mix(x, y, a) = x * (1 - a) + y * a\<close>, component-wise.\<close>

fun mix :: "vec4 \<Rightarrow> vec4 \<Rightarrow> real \<Rightarrow> vec4" where
  "mix (p1, p2, p3, p4) (q1, q2, q3, q4) t =
     (p1 * (1 - t) + q1 * t, p2 * (1 - t) + q2 * t, p3 * (1 - t) + q3 * t, p4 * (1 - t) + q4 * t)"

text \<open>Swizzles \<^verbatim>\<open>.x\<close>, \<^verbatim>\<open>.y\<close>, \<^verbatim>\<open>.xy\<close>, \<^verbatim>\<open>.rgb\<close> of a \<^verbatim>\<open>vec4\<close>.\<close>

fun swz_x :: "vec4 \<Rightarrow> real" where
  "swz_x (p1, p2, p3, p4) = p1"

fun swz_y :: "vec4 \<Rightarrow> real" where
  "swz_y (p1, p2, p3, p4) = p2"

fun swz_xy :: "vec4 \<Rightarrow> vec2" where
  "swz_xy (p1, p2, p3, p4) = (p1, p2)"

fun swz_rgb :: "vec4 \<Rightarrow> vec3" where
  "swz_rgb (p1, p2, p3, p4) = (p1, p2, p3)"

fun swz_a :: "vec4 \<Rightarrow> real" where
  "swz_a (p1, p2, p3, p4) = p4"


section \<open>WebGL objects\<close>

text \<open>
  \<^verbatim>\<open>_allocate\<close> uses three sized internal formats. A texture stores only the channels of
  its format; sampling fills the missing ones with \<open>0\<close> and alpha with \<open>1\<close>.
\<close>

datatype internalFormat = R16F | RG16F | RGBA16F

fun expand :: "internalFormat \<Rightarrow> vec4 \<Rightarrow> vec4" where
  "expand R16F (p1, p2, p3, p4) = (p1, 0, 0, 1)"
| "expand RG16F (p1, p2, p3, p4) = (p1, p2, 0, 1)"
| "expand RGBA16F (p1, p2, p3, p4) = (p1, p2, p3, p4)"

record texture =
  tex_w :: int
  tex_h :: int
  tex_format :: internalFormat
  texels :: "int \<Rightarrow> int \<Rightarrow> vec4"

text \<open>
  The context: the extensions the platform offers and the ones enabled so far, the
  message with which \<^verbatim>\<open>_initGL\<close> would fail on this platform (shader compilation,
  linking, vertex array creation, a missing uniform; \<open>None\<close> when all of it succeeds), the
  flag of a lost context (on which \<^verbatim>\<open>getExtension\<close>, \<^verbatim>\<open>createTexture\<close> and
  \<^verbatim>\<open>createFramebuffer\<close> return \<^verbatim>\<open>null\<close>), the size of the drawing buffer, and the store of textures and
  framebuffers by handle. Handles are never reused.
\<close>

record gl_context =
  supported_extensions :: "string list"
  enabled_extensions :: "string list"
  initGL_failure :: "string option"
  context_lost :: bool
  drawingBufferWidth :: int
  drawingBufferHeight :: int
  textures :: "nat \<rightharpoonup> texture"
  framebuffers :: "nat \<rightharpoonup> nat"
  next_name :: nat

datatype error = Error string | TypeError string

definition ebind :: "error + 'a \<Rightarrow> ('a \<Rightarrow> error + 'b) \<Rightarrow> error + 'b" where
  "ebind m f = (case m of Inl e \<Rightarrow> Inl e | Inr x \<Rightarrow> f x)"

definition getExtension :: "gl_context \<Rightarrow> string \<Rightarrow> bool \<times> gl_context" where
  "getExtension g name =
     (if \<not> context_lost g \<and> name \<in> set (supported_extensions g)
      then (True, g\<lparr>enabled_extensions := name # enabled_extensions g\<rparr>)
      else (False, g))"

definition checkFloatSupport :: "gl_context \<Rightarrow> bool \<times> gl_context" where
  "checkFloatSupport g = getExtension g ''EXT_color_buffer_float''"

definition createTexture :: "gl_context \<Rightarrow> nat option \<times> gl_context" where
  "createTexture g =
     (if context_lost g then (None, g)
      else (Some (next_name g), g\<lparr>next_name := Suc (next_name g)\<rparr>))"

definition createFramebuffer :: "gl_context \<Rightarrow> nat option \<times> gl_context" where
  "createFramebuffer g =
     (if context_lost g then (None, g)
      else (Some (next_name g), g\<lparr>next_name := Suc (next_name g)\<rparr>))"

text \<open>\<^verbatim>\<open>texImage2D\<close> with \<^verbatim>\<open>null\<close> data: a zero-filled image.\<close>

definition texImage2D :: "gl_context \<Rightarrow> nat \<Rightarrow> internalFormat \<Rightarrow> int \<Rightarrow> int \<Rightarrow> gl_context" where
  "texImage2D g t fmt wd ht =
     g\<lparr>textures := (textures g)(t \<mapsto>
        \<lparr>tex_w = wd, tex_h = ht, tex_format = fmt, texels = (\<lambda>x y. (0, 0, 0, 0))\<rparr>)\<rparr>"

definition framebufferTexture2D :: "gl_context \<Rightarrow> nat \<Rightarrow> nat \<Rightarrow> gl_context" where
  "framebufferTexture2D g f t = g\<lparr>framebuffers := (framebuffers g)(f \<mapsto> t)\<rparr>"

definition deleteFramebuffer :: "gl_context \<Rightarrow> nat \<Rightarrow> gl_context" where
  "deleteFramebuffer g f = g\<lparr>framebuffers := (framebuffers g)(f := None)\<rparr>"

definition deleteTexture :: "gl_context \<Rightarrow> nat \<Rightarrow> gl_context" where
  "deleteTexture g t = g\<lparr>textures := (textures g)(t := None)\<rparr>"

text \<open>
  A framebuffer with a half-float colour attachment is complete when the attachment
  exists, has a positive size, and rendering to float formats has been enabled.
\<close>

definition framebuffer_complete :: "gl_context \<Rightarrow> nat \<Rightarrow> bool" where
  "framebuffer_complete g f =
     (case framebuffers g f of None \<Rightarrow> False
      | Some t \<Rightarrow> (case textures g t of None \<Rightarrow> False
         | Some tx \<Rightarrow> 0 < tex_w tx \<and> 0 < tex_h tx
             \<and> ''EXT_color_buffer_float'' \<in> set (enabled_extensions g)))"

record fbo =
  tex :: nat
  fb :: nat
  fbo_w :: int
  fbo_h :: int

definition makeFBO :: "gl_context \<Rightarrow> int \<Rightarrow> int \<Rightarrow> internalFormat \<Rightarrow> error + (fbo \<times> gl_context)" where
  "makeFBO g wd ht fmt =
     (let (tex_handle, g1) = createTexture g;
          (fb_handle, g2) = createFramebuffer g1
      in case (tex_handle, fb_handle) of
           (Some t, Some f) \<Rightarrow>
             (let g3 = texImage2D g2 t fmt wd ht;
                  g4 = framebufferTexture2D g3 f t
              in if \<not> framebuffer_complete g4 f
                 then Inl (Error ''Incomplete FBO'')
                 else Inr (\<lparr>tex = t, fb = f, fbo_w = wd, fbo_h = ht\<rparr>, g4))
         | _ \<Rightarrow> Inl (Error ''Failed to create FBO''))"

text \<open>
  \<^verbatim>\<open>makeDoubleFBO\<close> closes over two objects \<^verbatim>\<open>a\<close> (returned by \<^verbatim>\<open>read\<close>) and
  \<^verbatim>\<open>b\<close> (returned by \<^verbatim>\<open>write\<close>); \<^verbatim>\<open>swap\<close> exchanges their four fields.
\<close>

record doubleFBO =
  buf_a :: fbo
  buf_b :: fbo

definition makeDoubleFBO :: "gl_context \<Rightarrow> int \<Rightarrow> int \<Rightarrow> internalFormat \<Rightarrow> error + (doubleFBO \<times> gl_context)" where
  "makeDoubleFBO g wd ht fmt =
     ebind (makeFBO g wd ht fmt) (\<lambda>(a, g1).
     ebind (makeFBO g1 wd ht fmt) (\<lambda>(b, g2).
     Inr (\<lparr>buf_a = a, buf_b = b\<rparr>, g2)))"

definition read_of :: "doubleFBO \<Rightarrow> fbo" where
  "read_of d = buf_a d"

definition write_of :: "doubleFBO \<Rightarrow> fbo" where
  "write_of d = buf_b d"

definition swap :: "doubleFBO \<Rightarrow> doubleFBO" where
  "swap d =
     (let a = buf_a d; b = buf_b d
      in \<lparr>buf_a = a\<lparr>tex := tex b, fb := fb b, fbo_w := fbo_w b, fbo_h := fbo_h b\<rparr>,
          buf_b = b\<lparr>tex := tex a, fb := fb a, fbo_w := fbo_w a, fbo_h := fbo_h a\<rparr>\<rparr>)"

definition dispose :: "gl_context \<Rightarrow> doubleFBO \<Rightarrow> gl_context" where
  "dispose g d =
     deleteTexture (deleteFramebuffer (deleteTexture (deleteFramebuffer g (fb (buf_a d)))
       (tex (buf_a d))) (fb (buf_b d))) (tex (buf_b d))"

text \<open>
  Sampling with \<^verbatim>\<open>NEAREST\<close> filtering and \<^verbatim>\<open>CLAMP_TO_EDGE\<close> wrapping, as \<^verbatim>\<open>makeFBO\<close>
  sets them: the texel whose cell contains the coordinate, clamped to the image. A
  deleted texture samples as opaque black.
\<close>

definition texel_index :: "real \<Rightarrow> int \<Rightarrow> int" where
  "texel_index u n = max 0 (min (n - 1) \<lfloor>u * real_of_int n\<rfloor>)"

definition texture2D :: "gl_context \<Rightarrow> nat \<Rightarrow> vec2 \<Rightarrow> vec4" where
  "texture2D g t uv =
     (case textures g t of None \<Rightarrow> (0, 0, 0, 1)
      | Some tx \<Rightarrow> expand (tex_format tx)
          (texels tx (texel_index (fst uv) (tex_w tx)) (texel_index (snd uv) (tex_h tx))))"

text \<open>
  \<^verbatim>\<open>bindFBO\<close>, \<^verbatim>\<open>setViewport\<close> and \<^verbatim>\<open>drawArrays\<close> of the full-screen triangle: the
  fragment shader runs once for every pixel of the viewport (the target's recorded size)
  that lies in the attached image, and its output replaces that texel. The shader is given
  as a function of the pixel; it samples the store as it is before the draw.
\<close>

definition drawArrays :: "gl_context \<Rightarrow> fbo \<Rightarrow> (int \<Rightarrow> int \<Rightarrow> vec4) \<Rightarrow> gl_context" where
  "drawArrays g target frag =
     (case framebuffers g (fb target) of None \<Rightarrow> g
      | Some t \<Rightarrow> (case textures g t of None \<Rightarrow> g
         | Some tx \<Rightarrow> g\<lparr>textures := (textures g)(t \<mapsto> tx\<lparr>texels :=
             (\<lambda>x y. if 0 \<le> x \<and> x < min (fbo_w target) (tex_w tx)
                       \<and> 0 \<le> y \<and> y < min (fbo_h target) (tex_h tx)
                     then frag x y else texels tx x y)\<rparr>)\<rparr>))"

text \<open>\<^verbatim>\<open>gl_FragCoord.xy\<close> of pixel \<open>(x, y)\<close> is its centre.\<close>

definition gl_FragCoord :: "int \<Rightarrow> int \<Rightarrow> vec2" where
  "gl_FragCoord x y = (real_of_int x + 1 / 2, real_of_int y + 1 / 2)"


section \<open>The fragment shaders\<close>

text \<open>
  Each shader is a function of its uniforms (samplers are sampling functions) and of
  \<^verbatim>\<open>gl_FragCoord.xy\<close>, returning \<^verbatim>\<open>frag\<close>.
\<close>

definition bilerp :: "(vec2 \<Rightarrow> vec4) \<Rightarrow> vec2 \<Rightarrow> vec2 \<Rightarrow> vec4" where
  "bilerp tx uv resolution =
     (let xy = sub2 (mul2 uv resolution) (1 / 2, 1 / 2);
          ixy = floor2 xy;
          f = sub2 xy ixy;
          base = div2 (add2 ixy (1 / 2, 1 / 2)) resolution;
          texel = div2 (1, 1) resolution;
          c00 = tx base;
          c10 = tx (add2 base (fst texel, 0));
          c01 = tx (add2 base (0, snd texel));
          c11 = tx (add2 base texel)
      in mix (mix c00 c10 (fst f)) (mix c01 c11 (fst f)) (snd f))"

definition FS_ADVECT :: "(vec2 \<Rightarrow> vec4) \<Rightarrow> (vec2 \<Rightarrow> vec4) \<Rightarrow> vec2 \<Rightarrow> vec2 \<Rightarrow> real \<Rightarrow> real \<Rightarrow> vec2 \<Rightarrow> vec4" where
  "FS_ADVECT u_source u_velocity u_texelSize u_resolution u_dt u_dissipation fragCoord =
     (let uv = mul2 fragCoord u_texelSize;
          vel = swz_xy (u_velocity uv);
          coord = sub2 uv (mul2 (scale2 u_dt vel) (snd u_resolution / fst u_resolution, 1));
          src = bilerp u_source coord u_resolution
      in scale4 src u_dissipation)"

definition FS_DIVERGENCE :: "(vec2 \<Rightarrow> vec4) \<Rightarrow> vec2 \<Rightarrow> vec2 \<Rightarrow> vec4" where
  "FS_DIVERGENCE u_velocity u_texelSize fragCoord =
     (let uv = mul2 fragCoord u_texelSize;
          L = swz_xy (u_velocity (sub2 uv (fst u_texelSize, 0)));
          R = swz_xy (u_velocity (add2 uv (fst u_texelSize, 0)));
          B = swz_xy (u_velocity (sub2 uv (0, snd u_texelSize)));
          T = swz_xy (u_velocity (add2 uv (0, snd u_texelSize)));
          dv = (1 / 2) * ((fst R - fst L) + (snd T - snd B))
      in (dv, 0, 0, 1))"

definition FS_PRESSURE :: "(vec2 \<Rightarrow> vec4) \<Rightarrow> (vec2 \<Rightarrow> vec4) \<Rightarrow> vec2 \<Rightarrow> vec2 \<Rightarrow> vec4" where
  "FS_PRESSURE u_pressure u_divergence u_texelSize fragCoord =
     (let uv = mul2 fragCoord u_texelSize;
          L = swz_x (u_pressure (sub2 uv (fst u_texelSize, 0)));
          R = swz_x (u_pressure (add2 uv (fst u_texelSize, 0)));
          B = swz_x (u_pressure (sub2 uv (0, snd u_texelSize)));
          T = swz_x (u_pressure (add2 uv (0, snd u_texelSize)));
          dv = swz_x (u_divergence uv);
          p = (L + R + B + T - dv) * (1 / 4)
      in (p, 0, 0, 1))"

definition FS_GRADIENT :: "(vec2 \<Rightarrow> vec4) \<Rightarrow> (vec2 \<Rightarrow> vec4) \<Rightarrow> vec2 \<Rightarrow> vec2 \<Rightarrow> vec4" where
  "FS_GRADIENT u_velocity u_pressure u_texelSize fragCoord =
     (let uv = mul2 fragCoord u_texelSize;
          L = swz_x (u_pressure (sub2 uv (fst u_texelSize, 0)));
          R = swz_x (u_pressure (add2 uv (fst u_texelSize, 0)));
          B = swz_x (u_pressure (sub2 uv (0, snd u_texelSize)));
          T = swz_x (u_pressure (add2 uv (0, snd u_texelSize)));
          v = swz_xy (u_velocity uv);
          grad = scale2 (1 / 2) (R - L, T - B);
          r = sub2 v grad
      in (fst r, snd r, 0, 1))"

definition FS_CURL :: "(vec2 \<Rightarrow> vec4) \<Rightarrow> vec2 \<Rightarrow> vec2 \<Rightarrow> vec4" where
  "FS_CURL u_velocity u_texelSize fragCoord =
     (let uv = mul2 fragCoord u_texelSize;
          L = swz_y (u_velocity (sub2 uv (fst u_texelSize, 0)));
          R = swz_y (u_velocity (add2 uv (fst u_texelSize, 0)));
          B = swz_x (u_velocity (sub2 uv (0, snd u_texelSize)));
          T = swz_x (u_velocity (add2 uv (0, snd u_texelSize)));
          curl = R - L - (T - B)
      in (curl, 0, 0, 1))"

definition FS_VORTICITY :: "(vec2 \<Rightarrow> vec4) \<Rightarrow> (vec2 \<Rightarrow> vec4) \<Rightarrow> vec2 \<Rightarrow> real \<Rightarrow> real \<Rightarrow> vec2 \<Rightarrow> vec4" where
  "FS_VORTICITY u_velocity u_curl u_texelSize u_dt u_eps fragCoord =
     (let uv = mul2 fragCoord u_texelSize;
          L = \<bar>swz_x (u_curl (sub2 uv (fst u_texelSize, 0)))\<bar>;
          R = \<bar>swz_x (u_curl (add2 uv (fst u_texelSize, 0)))\<bar>;
          B = \<bar>swz_x (u_curl (sub2 uv (0, snd u_texelSize)))\<bar>;
          T = \<bar>swz_x (u_curl (add2 uv (0, snd u_texelSize)))\<bar>;
          grad = (R - L, T - B);
          mag = length2 grad + 1 / 100000;
          N = (fst grad / mag, snd grad / mag);
          curl = swz_x (u_curl uv);
          force = scale2 curl (scale2 u_eps (snd N, - fst N));
          v = add2 (swz_xy (u_velocity uv)) (scale2 u_dt force)
      in (fst v, snd v, 0, 1))"

text \<open>
  The Gaussian weight of \<^verbatim>\<open>FS_SPLAT\<close> at a sample coordinate. Here \<open>exp\<close> is the real
  exponential, which is positive everywhere; the shader's single-precision \<^verbatim>\<open>exp\<close> rounds
  and, for an argument far below zero, underflows to \<open>0\<close>. That the weight is
  non-negative, at most \<open>1\<close> and even in the radius holds of both; a bound by \<open>exp (-k)\<close>
  is a bound by the real exponential.
\<close>

definition splat_weight :: "vec2 \<Rightarrow> real \<Rightarrow> vec2 \<Rightarrow> real" where
  "splat_weight u_point u_radius uv =
     (let d = sub2 uv u_point;
          r = u_radius
      in exp (- dot2 d d / (r * r + 1 / 1000000)))"

definition FS_SPLAT :: "(vec2 \<Rightarrow> vec4) \<Rightarrow> vec2 \<Rightarrow> vec3 \<Rightarrow> real \<Rightarrow> vec2 \<Rightarrow> vec2 \<Rightarrow> vec4" where
  "FS_SPLAT u_target u_point u_value u_radius u_texelSize fragCoord =
     (let uv = mul2 fragCoord u_texelSize;
          a = splat_weight u_point u_radius uv;
          base = u_target uv
      in add4 base (fst u_value * a, fst (snd u_value) * a, snd (snd u_value) * a, 1))"


section \<open>The simulation object\<close>

text \<open>
  The settings of \<^verbatim>\<open>FluidSim\<close>. \<^verbatim>\<open>pressureIters\<close> bounds the loop
  \<^verbatim>\<open>for (let i = 0; i < s.pressureIters; i++)\<close> and is taken to be an integer; the other
  settings are numbers.
\<close>

record sim_settings =
  dyeDissipation :: real
  velDissipation :: real
  pressureIters :: int
  vorticity :: real
  splatRadius :: real
  qualityScale :: real
  maxDPR :: real

text \<open>The \<^verbatim>\<open>options\<close> argument of the constructor: any subset of the settings.\<close>

record sim_options =
  opt_dyeDissipation :: "real option"
  opt_velDissipation :: "real option"
  opt_pressureIters :: "int option"
  opt_vorticity :: "real option"
  opt_splatRadius :: "real option"
  opt_qualityScale :: "real option"
  opt_maxDPR :: "real option"

definition default_settings :: sim_settings where
  "default_settings =
     \<lparr>dyeDissipation = 995 / 1000, velDissipation = 998 / 1000, pressureIters = 18,
      vorticity = 1, splatRadius = 15 / 1000, qualityScale = 75 / 100, maxDPR = 18 / 10\<rparr>"

definition override :: "'a \<Rightarrow> 'a option \<Rightarrow> 'a" where
  "override d v = (case v of None \<Rightarrow> d | Some x \<Rightarrow> x)"

text \<open>\<^verbatim>\<open>Object.assign(this.settings, options)\<close>.\<close>

definition assign_options :: "sim_settings \<Rightarrow> sim_options \<Rightarrow> sim_settings" where
  "assign_options st opts =
     \<lparr>dyeDissipation = override (dyeDissipation st) (opt_dyeDissipation opts),
      velDissipation = override (velDissipation st) (opt_velDissipation opts),
      pressureIters = override (pressureIters st) (opt_pressureIters opts),
      vorticity = override (vorticity st) (opt_vorticity opts),
      splatRadius = override (splatRadius st) (opt_splatRadius opts),
      qualityScale = override (qualityScale st) (opt_qualityScale opts),
      maxDPR = override (maxDPR st) (opt_maxDPR opts)\<rparr>"

text \<open>
  The canvas element: its layout size, the size of its backing store, and what
  \<^verbatim>\<open>getContext("webgl2", ...)\<close> returns for it.
\<close>

record html_canvas =
  clientWidth :: real
  clientHeight :: real
  canvas_width :: int
  canvas_height :: int
  webgl2_context :: "gl_context option"

definition getGL :: "html_canvas \<Rightarrow> gl_context option" where
  "getGL cv = webgl2_context cv"

record sim_buffers =
  velocity :: doubleFBO
  pressure :: doubleFBO
  divergence :: fbo
  curl :: fbo
  dye :: doubleFBO

text \<open>
  The fields of a \<^verbatim>\<open>FluidSim\<close>. The five buffer fields are undefined until the first
  \<^verbatim>\<open>_allocate\<close>, which sets all of them: \<open>bufs\<close> is \<open>None\<close> until then. \<open>sim_w\<close> and
  \<open>sim_h\<close> are \<^verbatim>\<open>this._w\<close> and \<^verbatim>\<open>this._h\<close>; \<open>devicePixelRatio\<close> is the
  property of \<^verbatim>\<open>window\<close> that \<^verbatim>\<open>_resize\<close> reads.
\<close>

record fluid_sim =
  canvas :: html_canvas
  devicePixelRatio :: real
  gl :: gl_context
  settings :: sim_settings
  bufs :: "sim_buffers option"
  sim_w :: "int option"
  sim_h :: "int option"

definition initGL :: "gl_context \<Rightarrow> error + gl_context" where
  "initGL g = (case initGL_failure g of Some msg \<Rightarrow> Inl (Error msg) | None \<Rightarrow> Inr g)"

definition allocate_buffers :: "gl_context \<Rightarrow> int \<Rightarrow> int \<Rightarrow> error + (sim_buffers \<times> gl_context)" where
  "allocate_buffers g width height =
     ebind (makeDoubleFBO g width height RG16F) (\<lambda>(v, g1).
     ebind (makeDoubleFBO g1 width height R16F) (\<lambda>(p, g2).
     ebind (makeFBO g2 width height R16F) (\<lambda>(d, g3).
     ebind (makeFBO g3 width height R16F) (\<lambda>(c, g4).
     ebind (makeDoubleFBO g4 width height RGBA16F) (\<lambda>(y, g5).
     Inr (\<lparr>velocity = v, pressure = p, divergence = d, curl = c, dye = y\<rparr>, g5))))))"

definition allocate :: "fluid_sim \<Rightarrow> int \<Rightarrow> int \<Rightarrow> error + fluid_sim" where
  "allocate s width height =
     ebind (allocate_buffers (gl s) width height) (\<lambda>(b, g). Inr (s\<lparr>gl := g, bufs := Some b\<rparr>))"

text \<open>\<^verbatim>\<open>_dispose\<close> deletes the GL objects and leaves the fields pointing at them.\<close>

definition dispose_buffers :: "gl_context \<Rightarrow> sim_buffers \<Rightarrow> gl_context" where
  "dispose_buffers g b =
     (let g1 = dispose g (velocity b);
          g2 = dispose g1 (pressure b);
          g3 = deleteTexture (deleteFramebuffer g2 (fb (divergence b))) (tex (divergence b));
          g4 = deleteTexture (deleteFramebuffer g3 (fb (curl b))) (tex (curl b))
      in dispose g4 (dye b))"

definition sim_dispose :: "fluid_sim \<Rightarrow> fluid_sim" where
  "sim_dispose s = (case bufs s of None \<Rightarrow> s | Some b \<Rightarrow> s\<lparr>gl := dispose_buffers (gl s) b\<rparr>)"

definition clamp :: "real \<Rightarrow> real \<Rightarrow> real \<Rightarrow> real" where
  "clamp v lo hi = max lo (min hi v)"

text \<open>Assigning \<^verbatim>\<open>canvas.width\<close> and \<^verbatim>\<open>canvas.height\<close> resizes the drawing buffer.\<close>

definition set_canvas_size :: "fluid_sim \<Rightarrow> int \<Rightarrow> int \<Rightarrow> fluid_sim" where
  "set_canvas_size s cw ch =
     s\<lparr>canvas := (canvas s)\<lparr>canvas_width := cw, canvas_height := ch\<rparr>,
       gl := (gl s)\<lparr>drawingBufferWidth := cw, drawingBufferHeight := ch\<rparr>\<rparr>"

text \<open>
  \<^verbatim>\<open>_resize\<close>. The products under \<^verbatim>\<open>Math.floor\<close> are products of real numbers here;
  JavaScript rounds them to doubles first, which gives a size smaller by one when the exact
  product is an integer and the rounded one falls just below it (a client height of \<open>600\<close>
  at quality \<open>0.69\<close>: \<open>414\<close> here, \<open>413\<close> there). The sizes used in the examples below
  (\<open>800 \<times> 600\<close> and \<open>16 \<times> 16\<close> at quality \<open>0.75\<close>) are exact in both.
\<close>

definition resize :: "fluid_sim \<Rightarrow> error + fluid_sim" where
  "resize s =
     (let dpr = min (if devicePixelRatio s = 0 then 1 else devicePixelRatio s) (maxDPR (settings s));
          scale = clamp (qualityScale (settings s)) (1 / 4) 1;
          width = max 16 \<lfloor>clientWidth (canvas s) * dpr * scale\<rfloor>;
          height = max 16 \<lfloor>clientHeight (canvas s) * dpr * scale\<rfloor>
      in if drawingBufferWidth (gl s) = width \<and> drawingBufferHeight (gl s) = height
            \<and> sim_w s = Some width \<and> sim_h s = Some height
         then Inr s
         else
           (let s1 = set_canvas_size s (max 2 \<lfloor>clientWidth (canvas s) * dpr\<rfloor>)
                       (max 2 \<lfloor>clientHeight (canvas s) * dpr\<rfloor>);
                s2 = sim_dispose s1
            in ebind (allocate s2 width height)
                 (\<lambda>s3. Inr (s3\<lparr>sim_w := Some width, sim_h := Some height\<rparr>))))"

text \<open>
  \<^verbatim>\<open>reset\<close> before the first \<^verbatim>\<open>_resize\<close> would allocate images of undefined size, which
  are incomplete; the constructor always runs \<^verbatim>\<open>_resize\<close> first.
\<close>

definition reset :: "fluid_sim \<Rightarrow> error + fluid_sim" where
  "reset s =
     (case (sim_w s, sim_h s) of
        (Some wd, Some ht) \<Rightarrow> allocate (sim_dispose s) wd ht
      | _ \<Rightarrow> Inl (Error ''Incomplete FBO''))"

definition FluidSim :: "html_canvas \<Rightarrow> real \<Rightarrow> sim_options \<Rightarrow> error + fluid_sim" where
  "FluidSim cv window_dpr opts =
     (case getGL cv of
        None \<Rightarrow> Inl (Error ''WebGL2 not available'')
      | Some g \<Rightarrow>
          (let (ok, g1) = checkFloatSupport g
           in if \<not> ok
              then Inl (Error ''Required float framebuffer support missing (EXT_color_buffer_float)'')
              else ebind (initGL g1) (\<lambda>g2.
                     resize \<lparr>canvas = cv, devicePixelRatio = window_dpr, gl = g2,
                             settings = assign_options default_settings opts,
                             bufs = None, sim_w = None, sim_h = None\<rparr>)))"


section \<open>One simulation step\<close>

text \<open>
  \<^verbatim>\<open>step\<close> issues a fixed sequence of draw calls; no branch of it depends on what the
  shaders compute. A draw call is described by its program and the uniform values
  \<^verbatim>\<open>step\<close> sets for it; the textures it reads and the target it writes are looked up in
  the buffers when the call is executed.
\<close>

datatype field_kind = Velocity | Dye

datatype pass =
    DrawCurl vec2
  | DrawVorticity vec2 real real
  | DrawAdvect field_kind vec2 vec2 real real
  | DrawDivergence vec2
  | DrawPressure vec2
  | DrawGradient vec2

text \<open>The value of \<^verbatim>\<open>u_dt\<close> a draw call runs with, when its program has that uniform.\<close>

fun pass_dt :: "pass \<Rightarrow> real option" where
  "pass_dt (DrawVorticity texel dt eps) = Some dt"
| "pass_dt (DrawAdvect k texel res dt diss) = Some dt"
| "pass_dt p = None"

fun exec_pass :: "pass \<Rightarrow> gl_context \<times> sim_buffers \<Rightarrow> gl_context \<times> sim_buffers" where
  "exec_pass (DrawCurl texel) (g, b) =
     (drawArrays g (curl b)
        (\<lambda>x y. FS_CURL (texture2D g (tex (read_of (velocity b)))) texel (gl_FragCoord x y)),
      b)"
| "exec_pass (DrawVorticity texel dt eps) (g, b) =
     (drawArrays g (write_of (velocity b))
        (\<lambda>x y. FS_VORTICITY (texture2D g (tex (read_of (velocity b)))) (texture2D g (tex (curl b)))
                  texel dt eps (gl_FragCoord x y)),
      b\<lparr>velocity := swap (velocity b)\<rparr>)"
| "exec_pass (DrawAdvect Velocity texel res dt diss) (g, b) =
     (drawArrays g (write_of (velocity b))
        (\<lambda>x y. FS_ADVECT (texture2D g (tex (read_of (velocity b))))
                  (texture2D g (tex (read_of (velocity b)))) texel res dt diss (gl_FragCoord x y)),
      b\<lparr>velocity := swap (velocity b)\<rparr>)"
| "exec_pass (DrawAdvect Dye texel res dt diss) (g, b) =
     (drawArrays g (write_of (dye b))
        (\<lambda>x y. FS_ADVECT (texture2D g (tex (read_of (dye b))))
                  (texture2D g (tex (read_of (velocity b)))) texel res dt diss (gl_FragCoord x y)),
      b\<lparr>dye := swap (dye b)\<rparr>)"
| "exec_pass (DrawDivergence texel) (g, b) =
     (drawArrays g (divergence b)
        (\<lambda>x y. FS_DIVERGENCE (texture2D g (tex (read_of (velocity b)))) texel (gl_FragCoord x y)),
      b)"
| "exec_pass (DrawPressure texel) (g, b) =
     (drawArrays g (write_of (pressure b))
        (\<lambda>x y. FS_PRESSURE (texture2D g (tex (read_of (pressure b))))
                  (texture2D g (tex (divergence b))) texel (gl_FragCoord x y)),
      b\<lparr>pressure := swap (pressure b)\<rparr>)"
| "exec_pass (DrawGradient texel) (g, b) =
     (drawArrays g (write_of (velocity b))
        (\<lambda>x y. FS_GRADIENT (texture2D g (tex (read_of (velocity b))))
                  (texture2D g (tex (read_of (pressure b)))) texel (gl_FragCoord x y)),
      b\<lparr>velocity := swap (velocity b)\<rparr>)"

definition exec_passes :: "pass list \<Rightarrow> gl_context \<times> sim_buffers \<Rightarrow> gl_context \<times> sim_buffers" where
  "exec_passes ps st = foldl (\<lambda>st p. exec_pass p st) st ps"

text \<open>The loop \<^verbatim>\<open>for (let i = 0; i < this.settings.pressureIters; i++)\<close>.\<close>

function pressure_loop :: "int \<Rightarrow> int \<Rightarrow> vec2 \<Rightarrow> pass list" where
  "pressure_loop i n texel = (if i < n then DrawPressure texel # pressure_loop (i + 1) n texel else [])"
  by pat_completeness auto
termination
  by (relation "measure (\<lambda>(i, n, texel). nat (n - i))") auto

definition step_passes :: "sim_settings \<Rightarrow> int \<Rightarrow> int \<Rightarrow> real \<Rightarrow> pass list" where
  "step_passes st wd ht dt =
     (let texel = (1 / real_of_int wd, 1 / real_of_int ht);
          res = (real_of_int wd, real_of_int ht)
      in [DrawCurl texel]
         @ (if vorticity st > 0 then [DrawVorticity texel dt (vorticity st)] else [])
         @ [DrawAdvect Velocity texel res dt (velDissipation st)]
         @ [DrawDivergence texel]
         @ pressure_loop 0 (pressureIters st) texel
         @ [DrawGradient texel]
         @ [DrawAdvect Dye texel res dt (dyeDissipation st)])"

definition step :: "fluid_sim \<Rightarrow> real \<Rightarrow> error + fluid_sim" where
  "step s dt =
     (case bufs s of
        None \<Rightarrow> Inl (TypeError ''Cannot read properties of undefined (reading read)'')
      | Some b \<Rightarrow>
          (let wd = fbo_w (read_of (velocity b));
               ht = fbo_h (read_of (velocity b));
               (g, b1) = exec_passes (step_passes (settings s) wd ht dt) (gl s, b)
           in Inr (s\<lparr>gl := g, bufs := Some b1\<rparr>)))"


section \<open>Injection\<close>

text \<open>
  The \<^verbatim>\<open>target\<close> argument is an arbitrary JavaScript value; \<^verbatim>\<open>===\<close> with a string
  literal holds for that very string only. \<^verbatim>\<open>value3\<close> has two or three components
  (\<^verbatim>\<open>value3[2] ?? 0.0\<close>).
\<close>

datatype js_value = JString string | JNumber real | JBoolean bool | JNull | JUndefined

definition splat :: "fluid_sim \<Rightarrow> vec2 \<Rightarrow> real \<times> real \<times> real option \<Rightarrow> real \<Rightarrow> js_value \<Rightarrow> error + fluid_sim" where
  "splat s point01 value3 radius01 target =
     (case bufs s of
        None \<Rightarrow> Inl (TypeError ''Cannot read properties of undefined (reading write)'')
      | Some b \<Rightarrow>
          (let to_velocity = (target = JString ''velocity'');
               tgt = (if to_velocity then velocity b else dye b);
               u_value = (fst value3, fst (snd value3), override 0 (snd (snd value3)));
               texel = (1 / real_of_int (fbo_w (read_of tgt)), 1 / real_of_int (fbo_h (read_of tgt)));
               g = drawArrays (gl s) (write_of tgt)
                     (\<lambda>x y. FS_SPLAT (texture2D (gl s) (tex (read_of tgt))) point01 u_value radius01
                               texel (gl_FragCoord x y));
               tgt1 = swap tgt
           in Inr (s\<lparr>gl := g,
                     bufs := Some (if to_velocity then b\<lparr>velocity := tgt1\<rparr> else b\<lparr>dye := tgt1\<rparr>)\<rparr>)))"


section \<open>The frame driver\<close>

text \<open>
  \<^verbatim>\<open>tick\<close> of \<^verbatim>\<open>main.js\<close>, without \<^verbatim>\<open>renderToScreen\<close> (which draws the dye texture to
  the screen and changes no field of the simulation) and without the request for the next
  frame.
\<close>

record app =
  sim :: "fluid_sim option"
  running :: bool
  lastT :: real
  emaFrame :: real

definition tick_dt :: "real \<Rightarrow> real \<Rightarrow> real" where
  "tick_dt now lastT0 = min (33 / 1000) (max 0 ((now - lastT0) / 1000))"

definition adjustQuality :: "fluid_sim \<Rightarrow> real \<Rightarrow> error + fluid_sim" where
  "adjustQuality s ms =
     (let q = qualityScale (settings s)
      in if ms > 19 \<and> q > 45 / 100
         then resize (s\<lparr>settings := (settings s)\<lparr>qualityScale := max (45 / 100) (q - 2 / 100)\<rparr>\<rparr>)
         else if ms < 14 \<and> q < 1
         then resize (s\<lparr>settings := (settings s)\<lparr>qualityScale := min 1 (q + 2 / 100)\<rparr>\<rparr>)
         else Inr s)"

definition tick :: "app \<Rightarrow> real \<Rightarrow> error + app" where
  "tick a now =
     (let dt = tick_dt now (lastT a);
          ema = (9 / 10) * emaFrame a + (1 / 10) * (dt * 1000)
      in case sim a of
           None \<Rightarrow> Inr (a\<lparr>lastT := now, emaFrame := ema\<rparr>)
         | Some s \<Rightarrow>
             ebind (if running a then ebind (resize s) (\<lambda>s1. step s1 dt) else Inr s) (\<lambda>s2.
             ebind (adjustQuality s2 ema) (\<lambda>s3.
             Inr (a\<lparr>sim := Some s3, lastT := now, emaFrame := ema\<rparr>))))"


section \<open>Observations, invariants and example inputs\<close>

text \<open>
  The definitions of this section are not code of the repository: they name what the
  theorems below talk about.
\<close>

text \<open>
  Float render targets can be allocated: the context is not lost and the extension has been
  enabled.
\<close>

definition can_render :: "gl_context \<Rightarrow> bool" where
  "can_render g = (\<not> context_lost g \<and> ''EXT_color_buffer_float'' \<in> set (enabled_extensions g))"

text \<open>
  The value a field holds at cell \<open>(x, y)\<close>, as a shader reads it: a cell outside the grid
  reads as the nearest edge cell (clamp-to-edge).
\<close>

definition texel_at :: "gl_context \<Rightarrow> fbo \<Rightarrow> int \<Rightarrow> int \<Rightarrow> vec4" where
  "texel_at g f x y =
     (case textures g (tex f) of None \<Rightarrow> (0, 0, 0, 1)
      | Some tx \<Rightarrow> expand (tex_format tx)
          (texels tx (max 0 (min (tex_w tx - 1) x)) (max 0 (min (tex_h tx - 1) y))))"

text \<open>
  A buffer object is intact: its recorded size is \<open>wd \<times> ht\<close>, its framebuffer has its
  texture attached, and the texture image has that size and the given format.
\<close>

definition fbo_ok :: "gl_context \<Rightarrow> int \<Rightarrow> int \<Rightarrow> internalFormat \<Rightarrow> fbo \<Rightarrow> bool" where
  "fbo_ok g wd ht fmt f =
     (fbo_w f = wd \<and> fbo_h f = ht \<and> framebuffers g (fb f) = Some (tex f)
      \<and> (case textures g (tex f) of None \<Rightarrow> False
         | Some tx \<Rightarrow> tex_w tx = wd \<and> tex_h tx = ht \<and> tex_format tx = fmt))"

definition fbos :: "sim_buffers \<Rightarrow> fbo list" where
  "fbos b = [buf_a (velocity b), buf_b (velocity b), buf_a (pressure b), buf_b (pressure b),
             divergence b, curl b, buf_a (dye b), buf_b (dye b)]"

definition buffers_ok :: "gl_context \<Rightarrow> int \<Rightarrow> int \<Rightarrow> sim_buffers \<Rightarrow> bool" where
  "buffers_ok g wd ht b =
     (fbo_ok g wd ht RG16F (buf_a (velocity b)) \<and> fbo_ok g wd ht RG16F (buf_b (velocity b))
      \<and> fbo_ok g wd ht R16F (buf_a (pressure b)) \<and> fbo_ok g wd ht R16F (buf_b (pressure b))
      \<and> fbo_ok g wd ht R16F (divergence b) \<and> fbo_ok g wd ht R16F (curl b)
      \<and> fbo_ok g wd ht RGBA16F (buf_a (dye b)) \<and> fbo_ok g wd ht RGBA16F (buf_b (dye b))
      \<and> distinct (map tex (fbos b)) \<and> distinct (map fb (fbos b)))"

text \<open>The state of a simulation object between two calls of its methods.\<close>

definition wf :: "fluid_sim \<Rightarrow> bool" where
  "wf s =
     (can_render (gl s)
      \<and> (case bufs s of None \<Rightarrow> False
         | Some b \<Rightarrow> (case sim_w s of None \<Rightarrow> False
            | Some wd \<Rightarrow> (case sim_h s of None \<Rightarrow> False
               | Some ht \<Rightarrow> 0 < wd \<and> 0 < ht \<and> buffers_ok (gl s) wd ht b))))"

definition zero_image :: "int \<Rightarrow> int \<Rightarrow> internalFormat \<Rightarrow> texture" where
  "zero_image wd ht fmt = \<lparr>tex_w = wd, tex_h = ht, tex_format = fmt, texels = (\<lambda>x y. (0, 0, 0, 0))\<rparr>"

definition new_fbo :: "nat \<Rightarrow> int \<Rightarrow> int \<Rightarrow> fbo" where
  "new_fbo n wd ht = \<lparr>tex = n, fb = n + 1, fbo_w = wd, fbo_h = ht\<rparr>"

text \<open>
  The states a simulation object can be in: it is constructed, its methods are called,
  and between calls the page may change the layout size of the canvas, the device pixel
  ratio and the (public, mutable) settings.
\<close>

inductive reachable :: "fluid_sim \<Rightarrow> bool" where
  constructed: "FluidSim cv window_dpr opts = Inr s \<Longrightarrow> reachable s"
| resized: "reachable s \<Longrightarrow> resize s = Inr s' \<Longrightarrow> reachable s'"
| was_reset: "reachable s \<Longrightarrow> reset s = Inr s' \<Longrightarrow> reachable s'"
| stepped: "reachable s \<Longrightarrow> step s dt = Inr s' \<Longrightarrow> reachable s'"
| splatted: "reachable s \<Longrightarrow> splat s point01 value3 radius01 target = Inr s' \<Longrightarrow> reachable s'"
| layout: "reachable s \<Longrightarrow>
     reachable (s\<lparr>canvas := (canvas s)\<lparr>clientWidth := cw, clientHeight := ch\<rparr>, devicePixelRatio := r\<rparr>)"
| configured: "reachable s \<Longrightarrow> reachable (s\<lparr>settings := st\<rparr>)"

text \<open>
  The sizes recorded in the eight buffer objects (velocity read and write, pressure read
  and write, divergence, curl, dye read and write), and the sizes of their texture images.
\<close>

definition field_sizes :: "fluid_sim \<Rightarrow> (int \<times> int) list" where
  "field_sizes s =
     (case bufs s of None \<Rightarrow> []
      | Some b \<Rightarrow> map (\<lambda>f. (fbo_w f, fbo_h f))
          [read_of (velocity b), write_of (velocity b), read_of (pressure b), write_of (pressure b),
           divergence b, curl b, read_of (dye b), write_of (dye b)])"

definition image_sizes :: "fluid_sim \<Rightarrow> (int \<times> int) option list" where
  "image_sizes s =
     (case bufs s of None \<Rightarrow> []
      | Some b \<Rightarrow> map (\<lambda>f. map_option (\<lambda>tx. (tex_w tx, tex_h tx)) (textures (gl s) (tex f)))
          [read_of (velocity b), write_of (velocity b), read_of (pressure b), write_of (pressure b),
           divergence b, curl b, read_of (dye b), write_of (dye b)])"

text \<open>
  Example inputs: a platform with float render targets, one without, an \<open>800 \<times> 600\<close>
  canvas, and the constructor called with no options at device pixel ratio \<open>1\<close>.
\<close>

definition example_context :: gl_context where
  "example_context =
     \<lparr>supported_extensions = [''EXT_color_buffer_float''], enabled_extensions = [],
      initGL_failure = None, context_lost = False,
      drawingBufferWidth = 300, drawingBufferHeight = 150,
      textures = Map.empty, framebuffers = Map.empty, next_name = 0\<rparr>"

definition example_canvas :: html_canvas where
  "example_canvas =
     \<lparr>clientWidth = 800, clientHeight = 600, canvas_width = 300, canvas_height = 150,
      webgl2_context = Some example_context\<rparr>"

definition no_float_canvas :: html_canvas where
  "no_float_canvas =
     \<lparr>clientWidth = 800, clientHeight = 600, canvas_width = 300, canvas_height = 150,
      webgl2_context = Some (example_context\<lparr>supported_extensions := []\<rparr>)\<rparr>"

definition no_options :: sim_options where
  "no_options =
     \<lparr>opt_dyeDissipation = None, opt_velDissipation = None, opt_pressureIters = None,
      opt_vorticity = None, opt_splatRadius = None, opt_qualityScale = None, opt_maxDPR = None\<rparr>"


text \<open>
  The fields as the passes read them: velocity is the \<^verbatim>\<open>.xy\<close> of \<^verbatim>\<open>velocity.read\<close>,
  pressure, divergence and curl the \<^verbatim>\<open>.x\<close> of their textures, dye the texel of
  \<^verbatim>\<open>dye.read\<close>.
\<close>

definition velocity_at :: "gl_context \<Rightarrow> sim_buffers \<Rightarrow> int \<Rightarrow> int \<Rightarrow> vec2" where
  "velocity_at g b x y = swz_xy (texel_at g (read_of (velocity b)) x y)"

definition pressure_at :: "gl_context \<Rightarrow> sim_buffers \<Rightarrow> int \<Rightarrow> int \<Rightarrow> real" where
  "pressure_at g b x y = swz_x (texel_at g (read_of (pressure b)) x y)"

definition divergence_at :: "gl_context \<Rightarrow> sim_buffers \<Rightarrow> int \<Rightarrow> int \<Rightarrow> real" where
  "divergence_at g b x y = swz_x (texel_at g (divergence b) x y)"

definition curl_at :: "gl_context \<Rightarrow> sim_buffers \<Rightarrow> int \<Rightarrow> int \<Rightarrow> real" where
  "curl_at g b x y = swz_x (texel_at g (curl b) x y)"

definition dye_at :: "gl_context \<Rightarrow> sim_buffers \<Rightarrow> int \<Rightarrow> int \<Rightarrow> vec4" where
  "dye_at g b x y = texel_at g (read_of (dye b)) x y"

text \<open>The normalised coordinate of the centre of cell \<open>(x, y)\<close> of a \<open>wd \<times> ht\<close> grid.\<close>

definition cell_uv :: "int \<Rightarrow> int \<Rightarrow> int \<Rightarrow> int \<Rightarrow> vec2" where
  "cell_uv wd ht x y = mul2 (gl_FragCoord x y) (1 / real_of_int wd, 1 / real_of_int ht)"

text \<open>The \<^verbatim>\<open>u_value\<close> that \<^verbatim>\<open>splat\<close> passes for its \<^verbatim>\<open>value3\<close>, and \<^verbatim>\<open>value3\<close> doubled.\<close>

definition splat_value :: "real \<times> real \<times> real option \<Rightarrow> vec3" where
  "splat_value value3 = (fst value3, fst (snd value3), override 0 (snd (snd value3)))"

definition doubled :: "real \<times> real \<times> real option \<Rightarrow> real \<times> real \<times> real option" where
  "doubled value3 = (2 * fst value3, 2 * fst (snd value3), map_option (\<lambda>z. 2 * z) (snd (snd value3)))"

text \<open>
  A state at rest: the buffers are intact, the velocity is zero at every cell, and the
  pressure and the dye are the given fields.
\<close>

definition still :: "int \<Rightarrow> int \<Rightarrow> (int \<Rightarrow> int \<Rightarrow> real) \<Rightarrow> (int \<Rightarrow> int \<Rightarrow> vec4) \<Rightarrow> gl_context \<times> sim_buffers \<Rightarrow> bool" where
  "still wd ht P D st =
     (buffers_ok (fst st) wd ht (snd st)
      \<and> (\<forall>x y. velocity_at (fst st) (snd st) x y = (0, 0))
      \<and> (\<forall>x y. pressure_at (fst st) (snd st) x y = P x y)
      \<and> (\<forall>x y. dye_at (fst st) (snd st) x y = D x y))"

text \<open>One Jacobi sweep of a pressure field when the divergence is zero.\<close>

definition jacobi0 :: "int \<Rightarrow> int \<Rightarrow> (int \<Rightarrow> int \<Rightarrow> real) \<Rightarrow> int \<Rightarrow> int \<Rightarrow> real" where
  "jacobi0 wd ht P x y =
     (P (max 0 (min (wd - 1) x) - 1) (max 0 (min (ht - 1) y))
      + P (max 0 (min (wd - 1) x) + 1) (max 0 (min (ht - 1) y))
      + P (max 0 (min (wd - 1) x)) (max 0 (min (ht - 1) y) - 1)
      + P (max 0 (min (wd - 1) x)) (max 0 (min (ht - 1) y) + 1)) / 4"

text \<open>
  The simulation size and the backing size that \<^verbatim>\<open>_resize\<close> computes (its local
  \<^verbatim>\<open>width\<close>, \<^verbatim>\<open>height\<close> and the values it assigns to the canvas).
\<close>

definition target_size :: "fluid_sim \<Rightarrow> int \<times> int" where
  "target_size s =
     (let dpr = min (if devicePixelRatio s = 0 then 1 else devicePixelRatio s) (maxDPR (settings s));
          scale = clamp (qualityScale (settings s)) (1 / 4) 1
      in (max 16 \<lfloor>clientWidth (canvas s) * dpr * scale\<rfloor>,
          max 16 \<lfloor>clientHeight (canvas s) * dpr * scale\<rfloor>))"

definition backing_size :: "fluid_sim \<Rightarrow> int \<times> int" where
  "backing_size s =
     (let dpr = min (if devicePixelRatio s = 0 then 1 else devicePixelRatio s) (maxDPR (settings s))
      in (max 2 \<lfloor>clientWidth (canvas s) * dpr\<rfloor>, max 2 \<lfloor>clientHeight (canvas s) * dpr\<rfloor>))"

text \<open>
  A \<open>16 \<times> 16\<close> example: a small canvas, options asking for one pressure iteration and no
  vorticity confinement, and a state whose pressure and dye fields hold the ramp
  \<open>(x, y) \<mapsto> x\<close> while the velocity is as it was.
\<close>

definition small_canvas :: html_canvas where
  "small_canvas =
     \<lparr>clientWidth = 16, clientHeight = 16, canvas_width = 300, canvas_height = 150,
      webgl2_context = Some example_context\<rparr>"

definition one_sweep_options :: sim_options where
  "one_sweep_options = no_options\<lparr>opt_pressureIters := Some 1, opt_vorticity := Some 0\<rparr>"

definition ramp :: "int \<Rightarrow> int \<Rightarrow> vec4" where
  "ramp x y = (real_of_int x, 0, 0, 0)"

definition with_ramps :: "fluid_sim \<Rightarrow> fluid_sim" where
  "with_ramps s =
     (case bufs s of None \<Rightarrow> s
      | Some b \<Rightarrow> s\<lparr>gl := drawArrays (drawArrays (gl s) (read_of (pressure b)) ramp) (read_of (dye b)) ramp\<rparr>)"

text \<open>
  A second state of the \<open>16 \<times> 16\<close> example, in motion: the velocity field is
  \<open>(x, y) \<mapsto> (x + 2y, y)\<close> and the pressure field \<open>(x, y) \<mapsto> x + 2y\<close>.
\<close>

definition slope :: "int \<Rightarrow> int \<Rightarrow> vec4" where
  "slope x y = (real_of_int (x + 2 * y), real_of_int y, 0, 0)"

definition with_flow :: "fluid_sim \<Rightarrow> fluid_sim" where
  "with_flow s =
     (case bufs s of None \<Rightarrow> s
      | Some b \<Rightarrow> s\<lparr>gl := drawArrays (drawArrays (gl s) (read_of (pressure b)) slope) (read_of (velocity b)) slope\<rparr>)"




section \<open>Allocation and the invariant\<close>

lemma makeFBO_ok:
  assumes "can_render g" "0 < wd" "0 < ht"
  shows "makeFBO g wd ht fmt =
     Inr (\<lparr>tex = next_name g, fb = next_name g + 1, fbo_w = wd, fbo_h = ht\<rparr>,
          g\<lparr>textures := (textures g)(next_name g \<mapsto>
               \<lparr>tex_w = wd, tex_h = ht, tex_format = fmt, texels = (\<lambda>x y. (0, 0, 0, 0))\<rparr>),
            framebuffers := (framebuffers g)(next_name g + 1 \<mapsto> next_name g),
            next_name := next_name g + 2\<rparr>)"
  using assms
  by (simp add: makeFBO_def createTexture_def createFramebuffer_def texImage2D_def
      framebufferTexture2D_def framebuffer_complete_def can_render_def Let_def)

lemma can_render_upd [simp]:
  "can_render (g\<lparr>textures := t\<rparr>) = can_render g"
  "can_render (g\<lparr>framebuffers := f\<rparr>) = can_render g"
  "can_render (g\<lparr>next_name := n\<rparr>) = can_render g"
  "can_render (g\<lparr>drawingBufferWidth := w1\<rparr>) = can_render g"
  "can_render (g\<lparr>drawingBufferHeight := h1\<rparr>) = can_render g"
  by (simp_all add: can_render_def)

lemma makeFBO_eq:
  assumes "can_render g" "0 < wd" "0 < ht"
  shows "makeFBO g wd ht fmt =
     Inr (new_fbo (next_name g) wd ht,
          g\<lparr>textures := (textures g)(next_name g \<mapsto> zero_image wd ht fmt),
            framebuffers := (framebuffers g)(next_name g + 1 \<mapsto> next_name g),
            next_name := next_name g + 2\<rparr>)"
  using assms by (simp add: makeFBO_ok new_fbo_def zero_image_def)

lemma makeDoubleFBO_eq:
  assumes "can_render g" "0 < wd" "0 < ht"
  shows "makeDoubleFBO g wd ht fmt =
     Inr (\<lparr>buf_a = new_fbo (next_name g) wd ht, buf_b = new_fbo (next_name g + 2) wd ht\<rparr>,
          g\<lparr>textures := (textures g)(next_name g \<mapsto> zero_image wd ht fmt,
                                       next_name g + 2 \<mapsto> zero_image wd ht fmt),
            framebuffers := (framebuffers g)(next_name g + 1 \<mapsto> next_name g,
                                             next_name g + 3 \<mapsto> next_name g + 2),
            next_name := next_name g + 4\<rparr>)"
  using assms by (simp add: makeDoubleFBO_def makeFBO_eq ebind_def eval_nat_numeral)

lemma allocate_buffers_eq:
  assumes "can_render g" "0 < wd" "0 < ht"
  shows "allocate_buffers g wd ht =
     Inr (\<lparr>velocity = \<lparr>buf_a = new_fbo (next_name g) wd ht, buf_b = new_fbo (next_name g + 2) wd ht\<rparr>,
           pressure = \<lparr>buf_a = new_fbo (next_name g + 4) wd ht, buf_b = new_fbo (next_name g + 6) wd ht\<rparr>,
           divergence = new_fbo (next_name g + 8) wd ht,
           curl = new_fbo (next_name g + 10) wd ht,
           dye = \<lparr>buf_a = new_fbo (next_name g + 12) wd ht, buf_b = new_fbo (next_name g + 14) wd ht\<rparr>\<rparr>,
          g\<lparr>textures := (textures g)(next_name g \<mapsto> zero_image wd ht RG16F,
                                       next_name g + 2 \<mapsto> zero_image wd ht RG16F,
                                       next_name g + 4 \<mapsto> zero_image wd ht R16F,
                                       next_name g + 6 \<mapsto> zero_image wd ht R16F,
                                       next_name g + 8 \<mapsto> zero_image wd ht R16F,
                                       next_name g + 10 \<mapsto> zero_image wd ht R16F,
                                       next_name g + 12 \<mapsto> zero_image wd ht RGBA16F,
                                       next_name g + 14 \<mapsto> zero_image wd ht RGBA16F),
            framebuffers := (framebuffers g)(next_name g + 1 \<mapsto> next_name g,
                                             next_name g + 3 \<mapsto> next_name g + 2,
                                             next_name g + 5 \<mapsto> next_name g + 4,
                                             next_name g + 7 \<mapsto> next_name g + 6,
                                             next_name g + 9 \<mapsto> next_name g + 8,
                                             next_name g + 11 \<mapsto> next_name g + 10,
                                             next_name g + 13 \<mapsto> next_name g + 12,
                                             next_name g + 15 \<mapsto> next_name g + 14),
            next_name := next_name g + 16\<rparr>)"
  using assms by (simp add: allocate_buffers_def makeDoubleFBO_eq makeFBO_eq ebind_def eval_nat_numeral)

lemma buffers_ok_allocate:
  assumes "can_render g" "0 < wd" "0 < ht" "allocate_buffers g wd ht = Inr (b, g1)"
  shows "buffers_ok g1 wd ht b"
  using assms(4) unfolding allocate_buffers_eq[OF assms(1-3)]
  by (auto simp: buffers_ok_def fbo_ok_def fbos_def new_fbo_def zero_image_def)

lemma swap_eq: "swap d = \<lparr>buf_a = buf_b d, buf_b = buf_a d\<rparr>"
  by (simp add: swap_def Let_def)

lemma read_swap [simp]: "read_of (swap d) = write_of d" "write_of (swap d) = read_of d"
  by (simp_all add: swap_eq read_of_def write_of_def)

lemma fbo_ok_drawArrays [simp]: "fbo_ok (drawArrays g f k) wd ht fmt f' = fbo_ok g wd ht fmt f'"
  by (auto simp: drawArrays_def fbo_ok_def split: option.splits)

lemma can_render_drawArrays [simp]: "can_render (drawArrays g f k) = can_render g"
  by (simp add: drawArrays_def split: option.splits)

lemma buffers_ok_drawArrays [simp]: "buffers_ok (drawArrays g f k) wd ht b = buffers_ok g wd ht b"
  by (simp add: buffers_ok_def)

lemma buffers_ok_swap_velocity [simp]:
  "buffers_ok g wd ht (b\<lparr>velocity := swap (velocity b)\<rparr>) = buffers_ok g wd ht b"
  by (auto simp: buffers_ok_def fbos_def swap_eq)

lemma buffers_ok_swap_pressure [simp]:
  "buffers_ok g wd ht (b\<lparr>pressure := swap (pressure b)\<rparr>) = buffers_ok g wd ht b"
  by (auto simp: buffers_ok_def fbos_def swap_eq)

lemma buffers_ok_swap_dye [simp]:
  "buffers_ok g wd ht (b\<lparr>dye := swap (dye b)\<rparr>) = buffers_ok g wd ht b"
  by (auto simp: buffers_ok_def fbos_def swap_eq)

lemma exec_pass_ok:
  "buffers_ok (fst (exec_pass p (g, b))) wd ht (snd (exec_pass p (g, b))) = buffers_ok g wd ht b"
proof (cases p)
  case (DrawAdvect k texel res dt diss)
  then show ?thesis by (cases k) simp_all
qed simp_all

lemma exec_pass_float:
  "can_render (fst (exec_pass p (g, b))) = can_render g"
proof (cases p)
  case (DrawAdvect k texel res dt diss)
  then show ?thesis by (cases k) simp_all
qed simp_all

lemma exec_passes_ok:
  "buffers_ok (fst (exec_passes ps st)) wd ht (snd (exec_passes ps st)) = buffers_ok (fst st) wd ht (snd st)
   \<and> can_render (fst (exec_passes ps st)) = can_render (fst st)"
proof (induction ps arbitrary: st)
  case Nil
  show ?case by (simp add: exec_passes_def)
next
  case (Cons p ps)
  obtain g b where st: "st = (g, b)" by (cases st)
  have "exec_passes (p # ps) st = exec_passes ps (exec_pass p st)"
    by (simp add: exec_passes_def)
  then show ?case using Cons[of "exec_pass p st"] exec_pass_ok[of p g b wd ht] exec_pass_float[of p g b] st by simp
qed

lemma can_render_dispose [simp]: "can_render (dispose_buffers g b) = can_render g"
  by (simp add: dispose_buffers_def dispose_def deleteTexture_def deleteFramebuffer_def Let_def)

lemma can_render_sim_dispose [simp]: "can_render (gl (sim_dispose s)) = can_render (gl s)"
  by (simp add: sim_dispose_def split: option.splits)

lemma can_render_set_canvas_size [simp]: "can_render (gl (set_canvas_size s cw ch)) = can_render (gl s)"
  by (simp add: set_canvas_size_def)

lemma allocate_wf:
  assumes "can_render (gl s)" "0 < wd" "0 < ht"
  shows "\<exists>b g. allocate s wd ht = Inr (s\<lparr>gl := g, bufs := Some b\<rparr>)
           \<and> buffers_ok g wd ht b \<and> can_render g
           \<and> drawingBufferWidth g = drawingBufferWidth (gl s)
           \<and> drawingBufferHeight g = drawingBufferHeight (gl s)"
proof -
  obtain b g where bg: "allocate_buffers (gl s) wd ht = Inr (b, g)"
    using allocate_buffers_eq[OF assms] by simp
  have ok: "buffers_ok g wd ht b" using buffers_ok_allocate[OF assms bg] .
  have fe: "can_render g \<and> drawingBufferWidth g = drawingBufferWidth (gl s)
           \<and> drawingBufferHeight g = drawingBufferHeight (gl s)"
    using bg assms(1) unfolding allocate_buffers_eq[OF assms] by auto
  have "allocate s wd ht = Inr (s\<lparr>gl := g, bufs := Some b\<rparr>)"
    by (simp add: allocate_def bg ebind_def)
  with ok fe show ?thesis by blast
qed

lemma reset_wf:
  assumes "wf s"
  shows "\<exists>s'. reset s = Inr s' \<and> wf s' \<and> sim_w s' = sim_w s \<and> sim_h s' = sim_h s
           \<and> settings s' = settings s \<and> canvas s' = canvas s"
proof -
  from assms obtain b wd ht where s: "bufs s = Some b" "sim_w s = Some wd" "sim_h s = Some ht"
    "0 < wd" "0 < ht" "can_render (gl s)"
    by (auto simp: wf_def split: option.splits)
  have fe: "can_render (gl (sim_dispose s))" using s(6) by simp
  from allocate_wf[OF fe s(4,5)] obtain b' g' where
    a: "allocate (sim_dispose s) wd ht = Inr ((sim_dispose s)\<lparr>gl := g', bufs := Some b'\<rparr>)"
       "buffers_ok g' wd ht b'" "can_render g'" by blast
  have "reset s = Inr ((sim_dispose s)\<lparr>gl := g', bufs := Some b'\<rparr>)"
    using a(1) s by (simp add: reset_def)
  moreover have "wf ((sim_dispose s)\<lparr>gl := g', bufs := Some b'\<rparr>)"
    using a(2,3) s by (simp add: wf_def sim_dispose_def)
  ultimately show ?thesis using s by (simp add: sim_dispose_def)
qed

lemma resize_wf:
  assumes "can_render (gl s)" "wf s \<or> sim_w s = None"
  shows "\<exists>s'. resize s = Inr s' \<and> wf s' \<and> settings s' = settings s
           \<and> devicePixelRatio s' = devicePixelRatio s
           \<and> clientWidth (canvas s') = clientWidth (canvas s)
           \<and> clientHeight (canvas s') = clientHeight (canvas s)"
proof -
  let ?dpr = "min (if devicePixelRatio s = 0 then 1 else devicePixelRatio s) (maxDPR (settings s))"
  let ?scale = "clamp (qualityScale (settings s)) (1 / 4) 1"
  let ?width = "max 16 \<lfloor>clientWidth (canvas s) * ?dpr * ?scale\<rfloor>"
  let ?height = "max 16 \<lfloor>clientHeight (canvas s) * ?dpr * ?scale\<rfloor>"
  let ?s2 = "sim_dispose (set_canvas_size s (max 2 \<lfloor>clientWidth (canvas s) * ?dpr\<rfloor>)
                       (max 2 \<lfloor>clientHeight (canvas s) * ?dpr\<rfloor>))"
  let ?guard = "drawingBufferWidth (gl s) = ?width \<and> drawingBufferHeight (gl s) = ?height
            \<and> sim_w s = Some ?width \<and> sim_h s = Some ?height"
  have unfold: "resize s = (if ?guard then Inr s
      else ebind (allocate ?s2 ?width ?height) (\<lambda>s3. Inr (s3\<lparr>sim_w := Some ?width, sim_h := Some ?height\<rparr>)))"
    unfolding resize_def Let_def ..
  have pos: "0 < ?width" "0 < ?height" by simp_all
  show ?thesis
  proof (cases ?guard)
    case True
    have "resize s = Inr s" by (simp only: unfold if_P[OF True])
    moreover from True assms(2) have "wf s" by auto
    ultimately show ?thesis by simp
  next
    case False
    have fe: "can_render (gl ?s2)" using assms(1) by simp
    from allocate_wf[OF fe pos] obtain b' g' where
      a: "allocate ?s2 ?width ?height = Inr (?s2\<lparr>gl := g', bufs := Some b'\<rparr>)"
         "buffers_ok g' ?width ?height b'" "can_render g'" by blast
    have r: "resize s = Inr (?s2\<lparr>gl := g', bufs := Some b', sim_w := Some ?width, sim_h := Some ?height\<rparr>)"
      by (simp only: unfold if_not_P[OF False] a(1) ebind_def sum.case)
    have "wf (?s2\<lparr>gl := g', bufs := Some b', sim_w := Some ?width, sim_h := Some ?height\<rparr>)"
      using a(2,3) pos by (simp add: wf_def)
    with r show ?thesis
      by (simp add: sim_dispose_def set_canvas_size_def split: option.splits)
  qed
qed

lemma constructor_wf:
  assumes "FluidSim cv window_dpr opts = Inr s"
  shows "wf s"
proof -
  from assms obtain g where g: "getGL cv = Some g"
    by (auto simp: FluidSim_def split: option.splits)
  from assms g have sup: "\<not> context_lost g \<and> ''EXT_color_buffer_float'' \<in> set (supported_extensions g)"
    by (auto simp: FluidSim_def checkFloatSupport_def getExtension_def split: if_splits)
  define g1 where "g1 = g\<lparr>enabled_extensions := ''EXT_color_buffer_float'' # enabled_extensions g\<rparr>"
  have cf: "checkFloatSupport g = (True, g1)"
    using sup by (simp add: checkFloatSupport_def getExtension_def g1_def)
  define s0 where "s0 = \<lparr>canvas = cv, devicePixelRatio = window_dpr, gl = g1,
                             settings = assign_options default_settings opts,
                             bufs = None, sim_w = None, sim_h = None\<rparr>"
  from assms g cf have "initGL g1 = Inr g1 \<and> resize s0 = Inr s"
    by (auto simp: FluidSim_def ebind_def initGL_def s0_def split: option.splits sum.splits)
  then have r: "resize s0 = Inr s" ..
  have "can_render (gl s0)" using sup by (simp add: s0_def g1_def can_render_def)
  moreover have "sim_w s0 = None" by (simp add: s0_def)
  ultimately show ?thesis using resize_wf[of s0] r by auto
qed

lemma step_wf:
  assumes "wf s"
  shows "\<exists>s'. step s dt = Inr s' \<and> wf s' \<and> sim_w s' = sim_w s \<and> sim_h s' = sim_h s
           \<and> settings s' = settings s \<and> canvas s' = canvas s"
proof -
  from assms obtain b wd ht where s: "bufs s = Some b" "sim_w s = Some wd" "sim_h s = Some ht"
    "0 < wd" "0 < ht" "can_render (gl s)" "buffers_ok (gl s) wd ht b"
    by (auto simp: wf_def split: option.splits)
  define ps where "ps = step_passes (settings s) (fbo_w (read_of (velocity b))) (fbo_h (read_of (velocity b))) dt"
  obtain g1 b1 where e: "exec_passes ps (gl s, b) = (g1, b1)" by (cases "exec_passes ps (gl s, b)")
  have st: "step s dt = Inr (s\<lparr>gl := g1, bufs := Some b1\<rparr>)"
    using s(1) e by (simp add: step_def Let_def ps_def)
  from exec_passes_ok[of ps "(gl s, b)" wd ht] e s(6,7)
  have "buffers_ok g1 wd ht b1" "can_render g1" by simp_all
  then have "wf (s\<lparr>gl := g1, bufs := Some b1\<rparr>)" using s by (simp add: wf_def)
  with st show ?thesis by simp
qed

lemma splat_wf:
  assumes "wf s"
  shows "\<exists>s'. splat s point01 value3 radius01 target = Inr s' \<and> wf s' \<and> sim_w s' = sim_w s
           \<and> sim_h s' = sim_h s \<and> settings s' = settings s \<and> canvas s' = canvas s"
proof -
  from assms obtain b wd ht where s: "bufs s = Some b" "sim_w s = Some wd" "sim_h s = Some ht"
    "0 < wd" "0 < ht" "can_render (gl s)" "buffers_ok (gl s) wd ht b"
    by (auto simp: wf_def split: option.splits)
  show ?thesis using s by (simp add: splat_def Let_def wf_def)
qed

lemma pressure_loop_replicate:
  "pressure_loop i n texel = replicate (nat (n - i)) (DrawPressure texel)"
proof (induction i n texel rule: pressure_loop.induct)
  case (1 i n texel)
  show ?case
  proof (cases "i < n")
    case True
    then have "nat (n - i) = Suc (nat (n - (i + 1)))" by simp
    with True 1 show ?thesis by (simp del: pressure_loop.simps add: pressure_loop.simps[of i n texel])
  next
    case False
    then show ?thesis by simp
  qed
qed

lemma step_passes_eq:
  "step_passes st wd ht dt =
     [DrawCurl (1 / real_of_int wd, 1 / real_of_int ht)]
     @ (if vorticity st > 0 then [DrawVorticity (1 / real_of_int wd, 1 / real_of_int ht) dt (vorticity st)] else [])
     @ [DrawAdvect Velocity (1 / real_of_int wd, 1 / real_of_int ht) (real_of_int wd, real_of_int ht) dt (velDissipation st),
        DrawDivergence (1 / real_of_int wd, 1 / real_of_int ht)]
     @ replicate (nat (pressureIters st)) (DrawPressure (1 / real_of_int wd, 1 / real_of_int ht))
     @ [DrawGradient (1 / real_of_int wd, 1 / real_of_int ht),
        DrawAdvect Dye (1 / real_of_int wd, 1 / real_of_int ht) (real_of_int wd, real_of_int ht) dt (dyeDissipation st)]"
  by (simp add: step_passes_def pressure_loop_replicate Let_def del: pressure_loop.simps)

lemma map_filter_append: "List.map_filter f (xs @ ys) = List.map_filter f xs @ List.map_filter f ys"
  by (simp add: List.map_filter_def)

lemma map_filter_replicate_None: "f p = None \<Longrightarrow> List.map_filter f (replicate k p) = []"
  by (induction k) simp_all

lemma reachable_wf: "reachable s \<Longrightarrow> wf s"
proof (induction rule: reachable.induct)
  case (constructed cv window_dpr opts s)
  then show ?case by (rule constructor_wf)
next
  case (resized s s')
  then have "can_render (gl s)" by (simp add: wf_def)
  with resized resize_wf[of s] show ?case by auto
next
  case (was_reset s s')
  with reset_wf[of s] show ?case by auto
next
  case (stepped s dt s')
  with step_wf[of s dt] show ?case by auto
next
  case (splatted s point01 value3 radius01 target s')
  with splat_wf[of s point01 value3 radius01 target] show ?case by auto
next
  case (layout s cw ch r)
  then show ?case by (auto simp: wf_def split: option.splits)
next
  case (configured s st)
  then show ?case by (auto simp: wf_def split: option.splits)
qed

lemma wf_sizes:
  assumes "wf s"
  shows "\<exists>wd ht. 0 < wd \<and> 0 < ht \<and> sim_w s = Some wd \<and> sim_h s = Some ht
           \<and> field_sizes s = replicate 8 (wd, ht) \<and> image_sizes s = replicate 8 (Some (wd, ht))"
proof -
  from assms obtain b wd ht where s: "bufs s = Some b" "sim_w s = Some wd" "sim_h s = Some ht"
    "0 < wd" "0 < ht" "buffers_ok (gl s) wd ht b"
    by (auto simp: wf_def split: option.splits)
  from s(6) have "field_sizes s = replicate 8 (wd, ht)"
    by (simp add: field_sizes_def s(1) buffers_ok_def fbo_ok_def read_of_def write_of_def eval_nat_numeral)
  moreover from s(6) have "image_sizes s = replicate 8 (Some (wd, ht))"
    by (auto simp: image_sizes_def s(1) buffers_ok_def fbo_ok_def read_of_def write_of_def eval_nat_numeral
        split: option.splits)
  ultimately show ?thesis using s by simp
qed

lemma constructor_succeeds:
  assumes "getGL cv = Some g" "''EXT_color_buffer_float'' \<in> set (supported_extensions g)"
    "initGL_failure g = None" "\<not> context_lost g"
  shows "\<exists>s. FluidSim cv window_dpr opts = Inr s"
proof -
  define g1 where "g1 = g\<lparr>enabled_extensions := ''EXT_color_buffer_float'' # enabled_extensions g\<rparr>"
  define s0 where "s0 = \<lparr>canvas = cv, devicePixelRatio = window_dpr, gl = g1,
                             settings = assign_options default_settings opts,
                             bufs = None, sim_w = None, sim_h = None\<rparr>"
  have "can_render (gl s0)" "sim_w s0 = None"
    using assms(4) by (simp_all add: s0_def g1_def can_render_def)
  with resize_wf[of s0] obtain s where "resize s0 = Inr s" by auto
  then have "FluidSim cv window_dpr opts = Inr s"
    using assms by (simp add: FluidSim_def checkFloatSupport_def getExtension_def initGL_def ebind_def
        g1_def s0_def)
  then show ?thesis ..
qed

lemma example_constructed: "\<exists>s. FluidSim example_canvas 1 no_options = Inr s"
  by (rule constructor_succeeds[of _ example_context]) (simp_all add: getGL_def example_canvas_def example_context_def)

lemma example_resolution:
  "case FluidSim example_canvas 1 no_options of Inl e \<Rightarrow> False
   | Inr s \<Rightarrow> sim_w s = Some 600 \<and> sim_h s = Some 450"
  by (simp add: FluidSim_def getGL_def example_canvas_def example_context_def checkFloatSupport_def
      getExtension_def initGL_def ebind_def resize_def Let_def no_options_def assign_options_def
      default_settings_def override_def clamp_def set_canvas_size_def sim_dispose_def allocate_def
      allocate_buffers_def makeDoubleFBO_def makeFBO_def createTexture_def createFramebuffer_def
      texImage2D_def framebufferTexture2D_def framebuffer_complete_def)


section \<open>Sampling, passes and splats\<close>

lemma floor_cell: "\<lfloor>real_of_int k + 1 / 2\<rfloor> = k"
  by linarith

lemma texel_index_cell:
  assumes "0 < n"
  shows "texel_index ((real_of_int k + 1 / 2) / real_of_int n) n = max 0 (min (n - 1) k)"
proof -
  have "(real_of_int k + 1 / 2) / real_of_int n * real_of_int n = real_of_int k + 1 / 2"
    using assms by simp
  then show ?thesis by (simp add: texel_index_def floor_cell del: of_int_add)
qed

lemma cell_shift:
  assumes "0 < n"
  shows "(real_of_int k + 1 / 2) * (1 / real_of_int n) = (real_of_int k + 1 / 2) / real_of_int n"
    "(real_of_int k + 1 / 2) / real_of_int n - 1 / real_of_int n = (real_of_int (k - 1) + 1 / 2) / real_of_int n"
    "(real_of_int k + 1 / 2) / real_of_int n + 1 / real_of_int n = (real_of_int (k + 1) + 1 / 2) / real_of_int n"
  using assms by (simp_all add: field_simps)

lemma sample_cell:
  assumes "fbo_ok g wd ht fmt f" "0 < wd" "0 < ht"
  shows "texture2D g (tex f) (mul2 (gl_FragCoord x y) (1 / real_of_int wd, 1 / real_of_int ht)) = texel_at g f x y"
    "texture2D g (tex f) (sub2 (mul2 (gl_FragCoord x y) (1 / real_of_int wd, 1 / real_of_int ht)) (1 / real_of_int wd, 0)) = texel_at g f (x - 1) y"
    "texture2D g (tex f) (add2 (mul2 (gl_FragCoord x y) (1 / real_of_int wd, 1 / real_of_int ht)) (1 / real_of_int wd, 0)) = texel_at g f (x + 1) y"
    "texture2D g (tex f) (sub2 (mul2 (gl_FragCoord x y) (1 / real_of_int wd, 1 / real_of_int ht)) (0, 1 / real_of_int ht)) = texel_at g f x (y - 1)"
    "texture2D g (tex f) (add2 (mul2 (gl_FragCoord x y) (1 / real_of_int wd, 1 / real_of_int ht)) (0, 1 / real_of_int ht)) = texel_at g f x (y + 1)"
proof -
  from assms(1) obtain tx where tx: "textures g (tex f) = Some tx" "tex_w tx = wd" "tex_h tx = ht"
    by (auto simp: fbo_ok_def split: option.splits)
  note cs = cell_shift[OF assms(2)] cell_shift[OF assms(3)]
  note ti = texel_index_cell[OF assms(2)] texel_index_cell[OF assms(3)]
  show "texture2D g (tex f) (mul2 (gl_FragCoord x y) (1 / real_of_int wd, 1 / real_of_int ht)) = texel_at g f x y"
    by (simp only: texture2D_def texel_at_def gl_FragCoord_def mul2.simps fst_conv snd_conv tx option.case cs ti)
  show "texture2D g (tex f) (sub2 (mul2 (gl_FragCoord x y) (1 / real_of_int wd, 1 / real_of_int ht)) (1 / real_of_int wd, 0)) = texel_at g f (x - 1) y"
    by (simp only: texture2D_def texel_at_def gl_FragCoord_def mul2.simps sub2.simps fst_conv snd_conv tx option.case diff_zero cs ti)
  show "texture2D g (tex f) (add2 (mul2 (gl_FragCoord x y) (1 / real_of_int wd, 1 / real_of_int ht)) (1 / real_of_int wd, 0)) = texel_at g f (x + 1) y"
    by (simp only: texture2D_def texel_at_def gl_FragCoord_def mul2.simps add2.simps fst_conv snd_conv tx option.case add_0_right cs ti)
  show "texture2D g (tex f) (sub2 (mul2 (gl_FragCoord x y) (1 / real_of_int wd, 1 / real_of_int ht)) (0, 1 / real_of_int ht)) = texel_at g f x (y - 1)"
    by (simp only: texture2D_def texel_at_def gl_FragCoord_def mul2.simps sub2.simps fst_conv snd_conv tx option.case diff_zero cs ti)
  show "texture2D g (tex f) (add2 (mul2 (gl_FragCoord x y) (1 / real_of_int wd, 1 / real_of_int ht)) (0, 1 / real_of_int ht)) = texel_at g f x (y + 1)"
    by (simp only: texture2D_def texel_at_def gl_FragCoord_def mul2.simps add2.simps fst_conv snd_conv tx option.case add_0_right cs ti)
qed

lemma texel_at_draw_same:
  assumes "fbo_ok g wd ht fmt f" "0 < wd" "0 < ht"
  shows "texel_at (drawArrays g f k) f x y = expand fmt (k (max 0 (min (wd - 1) x)) (max 0 (min (ht - 1) y)))"
  using assms by (auto simp: texel_at_def drawArrays_def fbo_ok_def split: option.splits)

lemma texel_at_draw_other:
  assumes "fbo_ok g wd ht fmt f" "tex f' \<noteq> tex f"
  shows "texel_at (drawArrays g f k) f' x y = texel_at g f' x y"
  using assms by (auto simp: texel_at_def drawArrays_def fbo_ok_def split: option.splits)

lemma texel_at_clamp:
  assumes "fbo_ok g wd ht fmt f" "0 < wd" "0 < ht"
  shows "texel_at g f (max 0 (min (wd - 1) x)) (max 0 (min (ht - 1) y)) = texel_at g f x y"
  using assms by (auto simp: texel_at_def fbo_ok_def split: option.splits)

lemma sub2_alt: "sub2 p q = (fst p - fst q, snd p - snd q)"
  by (cases p; cases q) simp

lemma add2_alt: "add2 p q = (fst p + fst q, snd p + snd q)"
  by (cases p; cases q) simp

lemma sub2_zero [simp]: "sub2 p (0, 0) = p"
  by (cases p) simp

lemma mix_0 [simp]: "mix p q 0 = p"
  by (cases p; cases q) simp

lemma swz_expand [simp]:
  "swz_x (expand fmt p) = swz_x p"
  "swz_xy (expand RG16F p) = swz_xy p"
  "expand RGBA16F p = p"
  by (cases fmt; cases p; simp)+

lemma swz_scale4 [simp]:
  "swz_xy (scale4 p k) = (fst (swz_xy p) * k, snd (swz_xy p) * k)"
  by (cases p) simp

lemma bilerp_cell:
  assumes "fbo_ok g wd ht fmt f" "0 < wd" "0 < ht"
  shows "bilerp (texture2D g (tex f))
           (mul2 (gl_FragCoord x y) (1 / real_of_int wd, 1 / real_of_int ht))
           (real_of_int wd, real_of_int ht) = texel_at g f x y"
proof -
  from assms(1) obtain tx where tx: "textures g (tex f) = Some tx" "tex_w tx = wd" "tex_h tx = ht"
    by (auto simp: fbo_ok_def split: option.splits)
  have xy: "sub2 (mul2 (mul2 (gl_FragCoord x y) (1 / real_of_int wd, 1 / real_of_int ht))
                   (real_of_int wd, real_of_int ht)) (1 / 2, 1 / 2) = (real_of_int x, real_of_int y)"
    using assms(2,3) by (simp add: gl_FragCoord_def)
  have c00: "texture2D g (tex f) ((real_of_int x + 1 / 2) / real_of_int wd,
                (real_of_int y + 1 / 2) / real_of_int ht) = texel_at g f x y"
    by (simp only: texture2D_def texel_at_def tx option.case fst_conv snd_conv
        texel_index_cell[OF assms(2)] texel_index_cell[OF assms(3)])
  show ?thesis
    unfolding bilerp_def Let_def xy
    by (simp add: c00)
qed

lemma buffers_okD:
  assumes "buffers_ok g wd ht b"
  shows "fbo_ok g wd ht RG16F (read_of (velocity b))" "fbo_ok g wd ht RG16F (write_of (velocity b))"
    "fbo_ok g wd ht R16F (read_of (pressure b))" "fbo_ok g wd ht R16F (write_of (pressure b))"
    "fbo_ok g wd ht R16F (divergence b)" "fbo_ok g wd ht R16F (curl b)"
    "fbo_ok g wd ht RGBA16F (read_of (dye b))" "fbo_ok g wd ht RGBA16F (write_of (dye b))"
  using assms by (simp_all add: buffers_ok_def read_of_def write_of_def)

lemma buffers_ok_distinct:
  assumes "buffers_ok g wd ht b"
  shows "distinct (map tex [read_of (velocity b), write_of (velocity b), read_of (pressure b),
           write_of (pressure b), divergence b, curl b, read_of (dye b), write_of (dye b)])"
  using assms by (simp add: buffers_ok_def fbos_def read_of_def write_of_def)

lemma in_range_clamp: "0 \<le> x \<Longrightarrow> x < n \<Longrightarrow> max 0 (min (n - 1) x) = (x::int)"
  by simp

lemma exec_passes_replicate:
  "exec_passes (replicate n p) st = ((exec_pass p) ^^ n) st"
proof (induction n arbitrary: st)
  case 0
  show ?case by (simp add: exec_passes_def)
next
  case (Suc n)
  have "exec_passes (replicate (Suc n) p) st = exec_passes (replicate n p) (exec_pass p st)"
    by (simp add: exec_passes_def)
  also have "\<dots> = ((exec_pass p) ^^ n) (exec_pass p st)" by (rule Suc)
  finally show ?case by (simp add: funpow_swap1)
qed

lemma pressure_pass:
  assumes ok: "buffers_ok g wd ht b" and pos: "0 < wd" "0 < ht"
  shows "exec_pass (DrawPressure (1 / real_of_int wd, 1 / real_of_int ht)) (g, b)
           = (drawArrays g (write_of (pressure b))
                (\<lambda>x y. FS_PRESSURE (texture2D g (tex (read_of (pressure b))))
                  (texture2D g (tex (divergence b))) (1 / real_of_int wd, 1 / real_of_int ht) (gl_FragCoord x y)),
              b\<lparr>pressure := swap (pressure b)\<rparr>)"
    and "pressure_at (fst (exec_pass (DrawPressure (1 / real_of_int wd, 1 / real_of_int ht)) (g, b)))
           (snd (exec_pass (DrawPressure (1 / real_of_int wd, 1 / real_of_int ht)) (g, b))) x y
         = (pressure_at g b (max 0 (min (wd - 1) x) - 1) (max 0 (min (ht - 1) y))
            + pressure_at g b (max 0 (min (wd - 1) x) + 1) (max 0 (min (ht - 1) y))
            + pressure_at g b (max 0 (min (wd - 1) x)) (max 0 (min (ht - 1) y) - 1)
            + pressure_at g b (max 0 (min (wd - 1) x)) (max 0 (min (ht - 1) y) + 1)
            - divergence_at g b x y) / 4"
proof -
  note f = buffers_okD[OF ok]
  show "exec_pass (DrawPressure (1 / real_of_int wd, 1 / real_of_int ht)) (g, b)
           = (drawArrays g (write_of (pressure b))
                (\<lambda>x y. FS_PRESSURE (texture2D g (tex (read_of (pressure b))))
                  (texture2D g (tex (divergence b))) (1 / real_of_int wd, 1 / real_of_int ht) (gl_FragCoord x y)),
              b\<lparr>pressure := swap (pressure b)\<rparr>)"
    by simp
  show "pressure_at (fst (exec_pass (DrawPressure (1 / real_of_int wd, 1 / real_of_int ht)) (g, b)))
           (snd (exec_pass (DrawPressure (1 / real_of_int wd, 1 / real_of_int ht)) (g, b))) x y
         = (pressure_at g b (max 0 (min (wd - 1) x) - 1) (max 0 (min (ht - 1) y))
            + pressure_at g b (max 0 (min (wd - 1) x) + 1) (max 0 (min (ht - 1) y))
            + pressure_at g b (max 0 (min (wd - 1) x)) (max 0 (min (ht - 1) y) - 1)
            + pressure_at g b (max 0 (min (wd - 1) x)) (max 0 (min (ht - 1) y) + 1)
            - divergence_at g b x y) / 4"
    by (simp add: pressure_at_def divergence_at_def texel_at_draw_same[OF f(4) pos] FS_PRESSURE_def Let_def
        sample_cell[OF f(3) pos] sample_cell[OF f(5) pos] texel_at_clamp[OF f(5) pos])
qed

lemma gradient_pass:
  assumes ok: "buffers_ok g wd ht b" and pos: "0 < wd" "0 < ht"
  shows "velocity_at (fst (exec_pass (DrawGradient (1 / real_of_int wd, 1 / real_of_int ht)) (g, b)))
           (snd (exec_pass (DrawGradient (1 / real_of_int wd, 1 / real_of_int ht)) (g, b))) x y
         = sub2 (velocity_at g b x y)
             (scale2 (1 / 2)
               (pressure_at g b (max 0 (min (wd - 1) x) + 1) (max 0 (min (ht - 1) y))
                  - pressure_at g b (max 0 (min (wd - 1) x) - 1) (max 0 (min (ht - 1) y)),
                pressure_at g b (max 0 (min (wd - 1) x)) (max 0 (min (ht - 1) y) + 1)
                  - pressure_at g b (max 0 (min (wd - 1) x)) (max 0 (min (ht - 1) y) - 1)))"
proof -
  note f = buffers_okD[OF ok]
  show ?thesis
    by (simp add: velocity_at_def pressure_at_def texel_at_draw_same[OF f(2) pos] FS_GRADIENT_def Let_def
        sample_cell[OF f(1) pos] sample_cell[OF f(3) pos] texel_at_clamp[OF f(1) pos])
qed

lemma tex_neq_pressure_write:
  assumes "buffers_ok g wd ht b"
  shows "tex (read_of (velocity b)) \<noteq> tex (write_of (pressure b))"
    "tex (write_of (velocity b)) \<noteq> tex (write_of (pressure b))"
    "tex (read_of (pressure b)) \<noteq> tex (write_of (pressure b))"
    "tex (divergence b) \<noteq> tex (write_of (pressure b))"
    "tex (curl b) \<noteq> tex (write_of (pressure b))"
    "tex (read_of (dye b)) \<noteq> tex (write_of (pressure b))"
    "tex (write_of (dye b)) \<noteq> tex (write_of (pressure b))"
  using buffers_ok_distinct[OF assms] by auto

lemma tex_neq_velocity_write:
  assumes "buffers_ok g wd ht b"
  shows "tex (read_of (velocity b)) \<noteq> tex (write_of (velocity b))"
    "tex (read_of (pressure b)) \<noteq> tex (write_of (velocity b))"
    "tex (write_of (pressure b)) \<noteq> tex (write_of (velocity b))"
    "tex (divergence b) \<noteq> tex (write_of (velocity b))"
    "tex (curl b) \<noteq> tex (write_of (velocity b))"
    "tex (read_of (dye b)) \<noteq> tex (write_of (velocity b))"
    "tex (write_of (dye b)) \<noteq> tex (write_of (velocity b))"
  using buffers_ok_distinct[OF assms] by auto

lemma tex_neq_dye_write:
  assumes "buffers_ok g wd ht b"
  shows "tex (read_of (velocity b)) \<noteq> tex (write_of (dye b))"
    "tex (write_of (velocity b)) \<noteq> tex (write_of (dye b))"
    "tex (read_of (pressure b)) \<noteq> tex (write_of (dye b))"
    "tex (write_of (pressure b)) \<noteq> tex (write_of (dye b))"
    "tex (divergence b) \<noteq> tex (write_of (dye b))"
    "tex (curl b) \<noteq> tex (write_of (dye b))"
    "tex (read_of (dye b)) \<noteq> tex (write_of (dye b))"
  using buffers_ok_distinct[OF assms] by auto

lemma splat_kernel:
  assumes "fbo_ok g wd ht fmt f" "0 < wd" "0 < ht"
  shows "FS_SPLAT (texture2D g (tex f)) p u r (1 / real_of_int wd, 1 / real_of_int ht) (gl_FragCoord x y)
         = add4 (texel_at g f x y)
             (fst u * splat_weight p r (cell_uv wd ht x y),
              fst (snd u) * splat_weight p r (cell_uv wd ht x y),
              snd (snd u) * splat_weight p r (cell_uv wd ht x y), 1)"
  by (simp add: FS_SPLAT_def Let_def sample_cell(1)[OF assms] cell_uv_def)

lemma splat_dye:
  assumes "bufs s = Some b" "buffers_ok (gl s) wd ht b" "0 < wd" "0 < ht"
    "target \<noteq> JString ''velocity''"
  shows "\<exists>g1. splat s p v r target = Inr (s\<lparr>gl := g1, bufs := Some (b\<lparr>dye := swap (dye b)\<rparr>)\<rparr>)
           \<and> buffers_ok g1 wd ht (b\<lparr>dye := swap (dye b)\<rparr>)
           \<and> (\<forall>x y. dye_at g1 (b\<lparr>dye := swap (dye b)\<rparr>) x y
                  = add4 (dye_at (gl s) b x y)
                      (fst (splat_value v) * splat_weight p r (cell_uv wd ht (max 0 (min (wd - 1) x)) (max 0 (min (ht - 1) y))),
                       fst (snd (splat_value v)) * splat_weight p r (cell_uv wd ht (max 0 (min (wd - 1) x)) (max 0 (min (ht - 1) y))),
                       snd (snd (splat_value v)) * splat_weight p r (cell_uv wd ht (max 0 (min (wd - 1) x)) (max 0 (min (ht - 1) y))),
                       1))
           \<and> (\<forall>x y. texel_at g1 (read_of (velocity b)) x y = texel_at (gl s) (read_of (velocity b)) x y)
           \<and> (\<forall>x y. texel_at g1 (write_of (velocity b)) x y = texel_at (gl s) (write_of (velocity b)) x y)
           \<and> (\<forall>x y. texel_at g1 (read_of (pressure b)) x y = texel_at (gl s) (read_of (pressure b)) x y)
           \<and> (\<forall>x y. texel_at g1 (read_of (dye b)) x y = texel_at (gl s) (read_of (dye b)) x y)"
proof -
  note f = buffers_okD[OF assms(2)]
  note n = tex_neq_dye_write[OF assms(2)]
  note pos = assms(3,4)
  have wh: "fbo_w (read_of (dye b)) = wd" "fbo_h (read_of (dye b)) = ht"
    using f(7) by (simp_all add: fbo_ok_def)
  define g1 where "g1 = drawArrays (gl s) (write_of (dye b))
                     (\<lambda>x y. FS_SPLAT (texture2D (gl s) (tex (read_of (dye b)))) p (splat_value v) r
                               (1 / real_of_int wd, 1 / real_of_int ht) (gl_FragCoord x y))"
  have "splat s p v r target = Inr (s\<lparr>gl := g1, bufs := Some (b\<lparr>dye := swap (dye b)\<rparr>)\<rparr>)"
    using assms(1,5) by (simp add: splat_def Let_def wh g1_def splat_value_def)
  moreover have "buffers_ok g1 wd ht (b\<lparr>dye := swap (dye b)\<rparr>)"
    using assms(2) by (simp add: g1_def)
  moreover have "dye_at g1 (b\<lparr>dye := swap (dye b)\<rparr>) x y
                  = add4 (dye_at (gl s) b x y)
                      (fst (splat_value v) * splat_weight p r (cell_uv wd ht (max 0 (min (wd - 1) x)) (max 0 (min (ht - 1) y))),
                       fst (snd (splat_value v)) * splat_weight p r (cell_uv wd ht (max 0 (min (wd - 1) x)) (max 0 (min (ht - 1) y))),
                       snd (snd (splat_value v)) * splat_weight p r (cell_uv wd ht (max 0 (min (wd - 1) x)) (max 0 (min (ht - 1) y))),
                       1)" for x y
    by (simp add: dye_at_def g1_def texel_at_draw_same[OF f(8) pos] splat_kernel[OF f(7) pos]
        texel_at_clamp[OF f(7) pos])
  moreover have "texel_at g1 (read_of (velocity b)) x y = texel_at (gl s) (read_of (velocity b)) x y"
    "texel_at g1 (write_of (velocity b)) x y = texel_at (gl s) (write_of (velocity b)) x y"
    "texel_at g1 (read_of (pressure b)) x y = texel_at (gl s) (read_of (pressure b)) x y"
    "texel_at g1 (read_of (dye b)) x y = texel_at (gl s) (read_of (dye b)) x y" for x y
    by (simp_all add: g1_def texel_at_draw_other[OF f(8)] n)
  ultimately show ?thesis by blast
qed

lemma splat_velocity:
  assumes "bufs s = Some b" "buffers_ok (gl s) wd ht b" "0 < wd" "0 < ht"
  shows "\<exists>g1. splat s p v r (JString ''velocity'') = Inr (s\<lparr>gl := g1, bufs := Some (b\<lparr>velocity := swap (velocity b)\<rparr>)\<rparr>)
           \<and> buffers_ok g1 wd ht (b\<lparr>velocity := swap (velocity b)\<rparr>)
           \<and> (\<forall>x y. velocity_at g1 (b\<lparr>velocity := swap (velocity b)\<rparr>) x y
                  = add2 (velocity_at (gl s) b x y)
                      (fst (splat_value v) * splat_weight p r (cell_uv wd ht (max 0 (min (wd - 1) x)) (max 0 (min (ht - 1) y))),
                       fst (snd (splat_value v)) * splat_weight p r (cell_uv wd ht (max 0 (min (wd - 1) x)) (max 0 (min (ht - 1) y)))))
           \<and> (\<forall>x y. texel_at g1 (read_of (dye b)) x y = texel_at (gl s) (read_of (dye b)) x y)
           \<and> (\<forall>x y. texel_at g1 (write_of (dye b)) x y = texel_at (gl s) (write_of (dye b)) x y)"
proof -
  note f = buffers_okD[OF assms(2)]
  have n: "tex (read_of (dye b)) \<noteq> tex (write_of (velocity b))"
     "tex (write_of (dye b)) \<noteq> tex (write_of (velocity b))"
    using buffers_ok_distinct[OF assms(2)] by auto
  note pos = assms(3,4)
  have wh: "fbo_w (read_of (velocity b)) = wd" "fbo_h (read_of (velocity b)) = ht"
    using f(1) by (simp_all add: fbo_ok_def)
  define g1 where "g1 = drawArrays (gl s) (write_of (velocity b))
                     (\<lambda>x y. FS_SPLAT (texture2D (gl s) (tex (read_of (velocity b)))) p (splat_value v) r
                               (1 / real_of_int wd, 1 / real_of_int ht) (gl_FragCoord x y))"
  have "splat s p v r (JString ''velocity'') = Inr (s\<lparr>gl := g1, bufs := Some (b\<lparr>velocity := swap (velocity b)\<rparr>)\<rparr>)"
    using assms(1) by (simp add: splat_def Let_def wh g1_def splat_value_def)
  moreover have "buffers_ok g1 wd ht (b\<lparr>velocity := swap (velocity b)\<rparr>)"
    using assms(2) by (simp add: g1_def)
  moreover have "velocity_at g1 (b\<lparr>velocity := swap (velocity b)\<rparr>) x y
                  = add2 (velocity_at (gl s) b x y)
                      (fst (splat_value v) * splat_weight p r (cell_uv wd ht (max 0 (min (wd - 1) x)) (max 0 (min (ht - 1) y))),
                       fst (snd (splat_value v)) * splat_weight p r (cell_uv wd ht (max 0 (min (wd - 1) x)) (max 0 (min (ht - 1) y))))" for x y
  proof -
    obtain t1 t2 t3 t4 where t: "texel_at (gl s) (read_of (velocity b)) x y = (t1, t2, t3, t4)"
      by (cases "texel_at (gl s) (read_of (velocity b)) x y") auto
    show ?thesis
      by (simp add: velocity_at_def g1_def texel_at_draw_same[OF f(2) pos] splat_kernel[OF f(1) pos]
        texel_at_clamp[OF f(1) pos] t)
  qed
  moreover have "texel_at g1 (read_of (dye b)) x y = texel_at (gl s) (read_of (dye b)) x y"
    "texel_at g1 (write_of (dye b)) x y = texel_at (gl s) (write_of (dye b)) x y" for x y
    by (simp_all add: g1_def texel_at_draw_other[OF f(2)] n)
  ultimately show ?thesis by blast
qed


lemma swz_xy_conv: "swz_xy t = (swz_x t, swz_y t)"
  by (cases t) simp

lemma swz_more [simp]:
  "swz_x (scale4 t k) = swz_x t * k"
  "swz_y (scale4 t k) = swz_y t * k"
  "swz_y (expand RG16F t) = swz_y t"
  by (cases t; simp)+

lemma tex_neq_curl:
  assumes "buffers_ok g wd ht b"
  shows "tex (read_of (velocity b)) \<noteq> tex (curl b)"
    "tex (write_of (velocity b)) \<noteq> tex (curl b)"
    "tex (read_of (pressure b)) \<noteq> tex (curl b)"
    "tex (write_of (pressure b)) \<noteq> tex (curl b)"
    "tex (divergence b) \<noteq> tex (curl b)"
    "tex (read_of (dye b)) \<noteq> tex (curl b)"
    "tex (write_of (dye b)) \<noteq> tex (curl b)"
  using buffers_ok_distinct[OF assms] by auto

lemma tex_neq_divergence:
  assumes "buffers_ok g wd ht b"
  shows "tex (read_of (velocity b)) \<noteq> tex (divergence b)"
    "tex (write_of (velocity b)) \<noteq> tex (divergence b)"
    "tex (read_of (pressure b)) \<noteq> tex (divergence b)"
    "tex (write_of (pressure b)) \<noteq> tex (divergence b)"
    "tex (curl b) \<noteq> tex (divergence b)"
    "tex (read_of (dye b)) \<noteq> tex (divergence b)"
    "tex (write_of (dye b)) \<noteq> tex (divergence b)"
  using buffers_ok_distinct[OF assms] by auto

lemma still_curl:
  assumes "still wd ht P D st" "0 < wd" "0 < ht"
  shows "still wd ht P D (exec_pass (DrawCurl (1 / real_of_int wd, 1 / real_of_int ht)) st)"
    and "curl_at (fst (exec_pass (DrawCurl (1 / real_of_int wd, 1 / real_of_int ht)) st))
           (snd (exec_pass (DrawCurl (1 / real_of_int wd, 1 / real_of_int ht)) st)) x y = 0"
proof -
  obtain g b where st: "st = (g, b)" by (cases st)
  from assms(1) have ok: "buffers_ok g wd ht b"
    and Z: "\<And>x y. swz_x (texel_at g (read_of (velocity b)) x y) = 0"
           "\<And>x y. swz_y (texel_at g (read_of (velocity b)) x y) = 0"
    and Pr: "\<And>x y. pressure_at g b x y = P x y" and Dy: "\<And>x y. dye_at g b x y = D x y"
    by (simp_all add: still_def st velocity_at_def swz_xy_conv)
  note f = buffers_okD[OF ok] and n = tex_neq_curl[OF ok] and pos = assms(2,3)
  show "still wd ht P D (exec_pass (DrawCurl (1 / real_of_int wd, 1 / real_of_int ht)) st)"
    using ok Z Pr Dy
    by (simp add: still_def st velocity_at_def pressure_at_def dye_at_def swz_xy_conv
        texel_at_draw_other[OF f(6)] n)
  show "curl_at (fst (exec_pass (DrawCurl (1 / real_of_int wd, 1 / real_of_int ht)) st))
           (snd (exec_pass (DrawCurl (1 / real_of_int wd, 1 / real_of_int ht)) st)) x y = 0"
    by (simp add: st curl_at_def texel_at_draw_same[OF f(6) pos] FS_CURL_def Let_def
        sample_cell[OF f(1) pos] Z)
qed

lemma still_vorticity:
  assumes "still wd ht P D st" "0 < wd" "0 < ht" "\<And>x y. curl_at (fst st) (snd st) x y = 0"
  shows "still wd ht P D (exec_pass (DrawVorticity (1 / real_of_int wd, 1 / real_of_int ht) dt eps) st)"
proof -
  obtain g b where st: "st = (g, b)" by (cases st)
  from assms(1) have ok: "buffers_ok g wd ht b"
    and Z: "\<And>x y. swz_x (texel_at g (read_of (velocity b)) x y) = 0"
           "\<And>x y. swz_y (texel_at g (read_of (velocity b)) x y) = 0"
    and Pr: "\<And>x y. pressure_at g b x y = P x y" and Dy: "\<And>x y. dye_at g b x y = D x y"
    by (simp_all add: still_def st velocity_at_def swz_xy_conv)
  from assms(4) have C: "\<And>x y. swz_x (texel_at g (curl b) x y) = 0"
    by (simp add: st curl_at_def)
  note f = buffers_okD[OF ok] and n = tex_neq_velocity_write[OF ok] and pos = assms(2,3)
  show ?thesis
    using ok Pr Dy
    by (simp add: still_def st velocity_at_def pressure_at_def dye_at_def swz_xy_conv
        texel_at_draw_other[OF f(2)] n texel_at_draw_same[OF f(2) pos] FS_VORTICITY_def Let_def
        sample_cell[OF f(1) pos] sample_cell[OF f(6) pos] Z C)
qed

lemma still_advect_velocity:
  assumes "still wd ht P D st" "0 < wd" "0 < ht"
  shows "still wd ht P D (exec_pass (DrawAdvect Velocity (1 / real_of_int wd, 1 / real_of_int ht)
           (real_of_int wd, real_of_int ht) dt diss) st)"
proof -
  obtain g b where st: "st = (g, b)" by (cases st)
  from assms(1) have ok: "buffers_ok g wd ht b"
    and Z: "\<And>x y. swz_x (texel_at g (read_of (velocity b)) x y) = 0"
           "\<And>x y. swz_y (texel_at g (read_of (velocity b)) x y) = 0"
    and Pr: "\<And>x y. pressure_at g b x y = P x y" and Dy: "\<And>x y. dye_at g b x y = D x y"
    by (simp_all add: still_def st velocity_at_def swz_xy_conv)
  note f = buffers_okD[OF ok] and n = tex_neq_velocity_write[OF ok] and pos = assms(2,3)
  show ?thesis
    using ok Pr Dy
    by (simp add: still_def st velocity_at_def pressure_at_def dye_at_def swz_xy_conv
        texel_at_draw_other[OF f(2)] n texel_at_draw_same[OF f(2) pos] FS_ADVECT_def Let_def
        sample_cell[OF f(1) pos] bilerp_cell[OF f(1) pos] Z)
qed

lemma still_divergence:
  assumes "still wd ht P D st" "0 < wd" "0 < ht"
  shows "still wd ht P D (exec_pass (DrawDivergence (1 / real_of_int wd, 1 / real_of_int ht)) st)"
    and "divergence_at (fst (exec_pass (DrawDivergence (1 / real_of_int wd, 1 / real_of_int ht)) st))
           (snd (exec_pass (DrawDivergence (1 / real_of_int wd, 1 / real_of_int ht)) st)) x y = 0"
proof -
  obtain g b where st: "st = (g, b)" by (cases st)
  from assms(1) have ok: "buffers_ok g wd ht b"
    and Z: "\<And>x y. swz_x (texel_at g (read_of (velocity b)) x y) = 0"
           "\<And>x y. swz_y (texel_at g (read_of (velocity b)) x y) = 0"
    and Pr: "\<And>x y. pressure_at g b x y = P x y" and Dy: "\<And>x y. dye_at g b x y = D x y"
    by (simp_all add: still_def st velocity_at_def swz_xy_conv)
  note f = buffers_okD[OF ok] and n = tex_neq_divergence[OF ok] and pos = assms(2,3)
  show "still wd ht P D (exec_pass (DrawDivergence (1 / real_of_int wd, 1 / real_of_int ht)) st)"
    using ok Z Pr Dy
    by (simp add: still_def st velocity_at_def pressure_at_def dye_at_def swz_xy_conv
        texel_at_draw_other[OF f(5)] n)
  show "divergence_at (fst (exec_pass (DrawDivergence (1 / real_of_int wd, 1 / real_of_int ht)) st))
           (snd (exec_pass (DrawDivergence (1 / real_of_int wd, 1 / real_of_int ht)) st)) x y = 0"
    by (simp add: st divergence_at_def texel_at_draw_same[OF f(5) pos] FS_DIVERGENCE_def Let_def
        sample_cell[OF f(1) pos] Z swz_xy_conv)
qed

lemma still_pressure:
  assumes "still wd ht P D st" "0 < wd" "0 < ht" "\<And>x y. divergence_at (fst st) (snd st) x y = 0"
  shows "still wd ht (jacobi0 wd ht P) D (exec_pass (DrawPressure (1 / real_of_int wd, 1 / real_of_int ht)) st)"
    and "divergence_at (fst (exec_pass (DrawPressure (1 / real_of_int wd, 1 / real_of_int ht)) st))
           (snd (exec_pass (DrawPressure (1 / real_of_int wd, 1 / real_of_int ht)) st)) x y = 0"
proof -
  obtain g b where st: "st = (g, b)" by (cases st)
  from assms(1) have ok: "buffers_ok g wd ht b"
    and Z: "\<And>x y. velocity_at g b x y = (0, 0)"
    and Pr: "\<And>x y. pressure_at g b x y = P x y" and Dy: "\<And>x y. dye_at g b x y = D x y"
    by (simp_all add: still_def st)
  from assms(4) have Dv: "\<And>x y. divergence_at g b x y = 0" by (simp add: st)
  note f = buffers_okD[OF ok] and n = tex_neq_pressure_write[OF ok] and pos = assms(2,3)
  have p: "pressure_at (fst (exec_pass (DrawPressure (1 / real_of_int wd, 1 / real_of_int ht)) (g, b)))
             (snd (exec_pass (DrawPressure (1 / real_of_int wd, 1 / real_of_int ht)) (g, b))) x y
           = jacobi0 wd ht P x y" for x y
    unfolding pressure_pass(2)[OF ok pos] by (simp add: Pr Dv jacobi0_def)
  have ok2: "buffers_ok (fst (exec_pass (DrawPressure (1 / real_of_int wd, 1 / real_of_int ht)) (g, b))) wd ht
     (snd (exec_pass (DrawPressure (1 / real_of_int wd, 1 / real_of_int ht)) (g, b)))"
    using ok by (simp only: exec_pass_ok)
  have rest: "velocity_at (fst (exec_pass (DrawPressure (1 / real_of_int wd, 1 / real_of_int ht)) (g, b)))
             (snd (exec_pass (DrawPressure (1 / real_of_int wd, 1 / real_of_int ht)) (g, b))) x y = (0, 0)"
    "dye_at (fst (exec_pass (DrawPressure (1 / real_of_int wd, 1 / real_of_int ht)) (g, b)))
             (snd (exec_pass (DrawPressure (1 / real_of_int wd, 1 / real_of_int ht)) (g, b))) x y = D x y" for x y
    using Z[of x y] Dy[of x y]
    by (simp_all add: velocity_at_def dye_at_def texel_at_draw_other[OF f(4)] n)
  show "still wd ht (jacobi0 wd ht P) D (exec_pass (DrawPressure (1 / real_of_int wd, 1 / real_of_int ht)) st)"
    unfolding still_def st using ok2 p rest by blast
  show "divergence_at (fst (exec_pass (DrawPressure (1 / real_of_int wd, 1 / real_of_int ht)) st))
           (snd (exec_pass (DrawPressure (1 / real_of_int wd, 1 / real_of_int ht)) st)) x y = 0"
    using Dv[of x y] by (simp add: st divergence_at_def texel_at_draw_other[OF f(4)] n)
qed

lemma still_gradient:
  assumes "still wd ht P D st" "0 < wd" "0 < ht"
  shows "buffers_ok (fst (exec_pass (DrawGradient (1 / real_of_int wd, 1 / real_of_int ht)) st)) wd ht
           (snd (exec_pass (DrawGradient (1 / real_of_int wd, 1 / real_of_int ht)) st))"
    and "velocity_at (fst (exec_pass (DrawGradient (1 / real_of_int wd, 1 / real_of_int ht)) st))
           (snd (exec_pass (DrawGradient (1 / real_of_int wd, 1 / real_of_int ht)) st)) x y
         = (- (1 / 2) * (P (max 0 (min (wd - 1) x) + 1) (max 0 (min (ht - 1) y))
                          - P (max 0 (min (wd - 1) x) - 1) (max 0 (min (ht - 1) y))),
            - (1 / 2) * (P (max 0 (min (wd - 1) x)) (max 0 (min (ht - 1) y) + 1)
                          - P (max 0 (min (wd - 1) x)) (max 0 (min (ht - 1) y) - 1)))"
    and "dye_at (fst (exec_pass (DrawGradient (1 / real_of_int wd, 1 / real_of_int ht)) st))
           (snd (exec_pass (DrawGradient (1 / real_of_int wd, 1 / real_of_int ht)) st)) x y = D x y"
    and "pressure_at (fst (exec_pass (DrawGradient (1 / real_of_int wd, 1 / real_of_int ht)) st))
           (snd (exec_pass (DrawGradient (1 / real_of_int wd, 1 / real_of_int ht)) st)) x y = P x y"
proof -
  obtain g b where st: "st = (g, b)" by (cases st)
  from assms(1) have ok: "buffers_ok g wd ht b"
    and Z: "\<And>x y. velocity_at g b x y = (0, 0)"
    and Pr: "\<And>x y. pressure_at g b x y = P x y" and Dy: "\<And>x y. dye_at g b x y = D x y"
    by (simp_all add: still_def st)
  note f = buffers_okD[OF ok] and n = tex_neq_velocity_write[OF ok] and pos = assms(2,3)
  show "buffers_ok (fst (exec_pass (DrawGradient (1 / real_of_int wd, 1 / real_of_int ht)) st)) wd ht
           (snd (exec_pass (DrawGradient (1 / real_of_int wd, 1 / real_of_int ht)) st))"
    unfolding st using ok by (simp only: exec_pass_ok)
  show "velocity_at (fst (exec_pass (DrawGradient (1 / real_of_int wd, 1 / real_of_int ht)) st))
           (snd (exec_pass (DrawGradient (1 / real_of_int wd, 1 / real_of_int ht)) st)) x y
         = (- (1 / 2) * (P (max 0 (min (wd - 1) x) + 1) (max 0 (min (ht - 1) y))
                          - P (max 0 (min (wd - 1) x) - 1) (max 0 (min (ht - 1) y))),
            - (1 / 2) * (P (max 0 (min (wd - 1) x)) (max 0 (min (ht - 1) y) + 1)
                          - P (max 0 (min (wd - 1) x)) (max 0 (min (ht - 1) y) - 1)))"
    unfolding st gradient_pass[OF ok pos] by (simp add: Z Pr)
  show "dye_at (fst (exec_pass (DrawGradient (1 / real_of_int wd, 1 / real_of_int ht)) st))
           (snd (exec_pass (DrawGradient (1 / real_of_int wd, 1 / real_of_int ht)) st)) x y = D x y"
    using Dy[of x y] by (simp add: st dye_at_def texel_at_draw_other[OF f(2)] n)
  show "pressure_at (fst (exec_pass (DrawGradient (1 / real_of_int wd, 1 / real_of_int ht)) st))
           (snd (exec_pass (DrawGradient (1 / real_of_int wd, 1 / real_of_int ht)) st)) x y = P x y"
    using Pr[of x y] by (simp add: st pressure_at_def texel_at_draw_other[OF f(2)] n)
qed

lemma advect_dye:
  assumes ok: "buffers_ok g wd ht b" and pos: "0 < wd" "0 < ht"
  shows "dye_at (fst (exec_pass (DrawAdvect Dye (1 / real_of_int wd, 1 / real_of_int ht)
                    (real_of_int wd, real_of_int ht) dt diss) (g, b)))
           (snd (exec_pass (DrawAdvect Dye (1 / real_of_int wd, 1 / real_of_int ht)
                    (real_of_int wd, real_of_int ht) dt diss) (g, b))) x y
         = scale4 (bilerp (texture2D g (tex (read_of (dye b))))
                     (sub2 (cell_uv wd ht (max 0 (min (wd - 1) x)) (max 0 (min (ht - 1) y)))
                        (mul2 (scale2 dt (velocity_at g b x y)) (real_of_int ht / real_of_int wd, 1)))
                     (real_of_int wd, real_of_int ht)) diss"
proof -
  note f = buffers_okD[OF ok]
  show ?thesis
    by (simp add: dye_at_def velocity_at_def texel_at_draw_same[OF f(8) pos] FS_ADVECT_def Let_def
        sample_cell(1)[OF f(1) pos] texel_at_clamp[OF f(1) pos] cell_uv_def)
qed

lemma exec_passes_append: "exec_passes (ps @ qs) st = exec_passes qs (exec_passes ps st)"
  by (simp add: exec_passes_def)

lemma exec_passes_single: "exec_passes [p] st = exec_pass p st" "exec_passes [] st = st"
  by (simp_all add: exec_passes_def)

lemma exec_passes_cons: "exec_passes (p # ps) st = exec_passes ps (exec_pass p st)"
  by (simp add: exec_passes_def)

lemma texture2D_texel_at:
  assumes "fbo_ok g wd ht fmt f"
  shows "texture2D g (tex f) uv = texel_at g f \<lfloor>fst uv * real_of_int wd\<rfloor> \<lfloor>snd uv * real_of_int ht\<rfloor>"
  using assms by (auto simp: texture2D_def texel_at_def texel_index_def fbo_ok_def split: option.splits)

lemma bilerp_cell_fun:
  assumes "0 < wd" "0 < ht"
  shows "bilerp (\<lambda>uv. D \<lfloor>fst uv * real_of_int wd\<rfloor> \<lfloor>snd uv * real_of_int ht\<rfloor>)
           (cell_uv wd ht x y) (real_of_int wd, real_of_int ht) = D x y"
proof -
  have xy: "sub2 (mul2 (cell_uv wd ht x y) (real_of_int wd, real_of_int ht)) (1 / 2, 1 / 2)
              = (real_of_int x, real_of_int y)"
    using assms by (simp add: cell_uv_def gl_FragCoord_def)
  have fl: "\<lfloor>(real_of_int x + 1 / 2) / real_of_int wd * real_of_int wd\<rfloor> = x"
    "\<lfloor>(real_of_int y + 1 / 2) / real_of_int ht * real_of_int ht\<rfloor> = y"
    using assms floor_cell by simp_all
  show ?thesis
    unfolding bilerp_def Let_def xy
    using fl by simp
qed

lemma still_pressure_iter:
  assumes "still wd ht P D st" "0 < wd" "0 < ht" "\<And>x y. divergence_at (fst st) (snd st) x y = 0"
  shows "still wd ht (((jacobi0 wd ht) ^^ n) P) D
           (((exec_pass (DrawPressure (1 / real_of_int wd, 1 / real_of_int ht))) ^^ n) st)
         \<and> (\<forall>x y. divergence_at
               (fst (((exec_pass (DrawPressure (1 / real_of_int wd, 1 / real_of_int ht))) ^^ n) st))
               (snd (((exec_pass (DrawPressure (1 / real_of_int wd, 1 / real_of_int ht))) ^^ n) st)) x y = 0)"
proof (induction n)
  case 0
  show ?case using assms(1,4) by simp
next
  case (Suc n)
  let ?st = "((exec_pass (DrawPressure (1 / real_of_int wd, 1 / real_of_int ht))) ^^ n) st"
  from Suc have a: "still wd ht (((jacobi0 wd ht) ^^ n) P) D ?st"
    and b: "\<And>x y. divergence_at (fst ?st) (snd ?st) x y = 0" by simp_all
  from still_pressure[OF a assms(2,3) b] show ?case by simp
qed

text \<open>
  A step from a state whose velocity field is zero: the velocity that transports the dye is
  minus half the central-difference gradient of the pressure field after the Jacobi
  sweeps, and the dye is sampled bilinearly at the back-traced coordinate.
\<close>

lemma step_still:
  assumes b: "bufs s = Some b" and st: "still wd ht P D (gl s, b)" and pos: "0 < wd" "0 < ht"
  shows "\<exists>g7 b7. step s dt = Inr (s\<lparr>gl := g7, bufs := Some b7\<rparr>)
     \<and> (\<forall>x y. dye_at g7 b7 x y =
          scale4 (bilerp (\<lambda>uv. D \<lfloor>fst uv * real_of_int wd\<rfloor> \<lfloor>snd uv * real_of_int ht\<rfloor>)
                    (sub2 (cell_uv wd ht (max 0 (min (wd - 1) x)) (max 0 (min (ht - 1) y)))
                       (mul2 (scale2 dt
                          (- (1 / 2) * (((jacobi0 wd ht) ^^ nat (pressureIters (settings s))) P
                                           (max 0 (min (wd - 1) x) + 1) (max 0 (min (ht - 1) y))
                                        - ((jacobi0 wd ht) ^^ nat (pressureIters (settings s))) P
                                           (max 0 (min (wd - 1) x) - 1) (max 0 (min (ht - 1) y))),
                           - (1 / 2) * (((jacobi0 wd ht) ^^ nat (pressureIters (settings s))) P
                                           (max 0 (min (wd - 1) x)) (max 0 (min (ht - 1) y) + 1)
                                        - ((jacobi0 wd ht) ^^ nat (pressureIters (settings s))) P
                                           (max 0 (min (wd - 1) x)) (max 0 (min (ht - 1) y) - 1))))
                          (real_of_int ht / real_of_int wd, 1)))
                    (real_of_int wd, real_of_int ht))
            (dyeDissipation (settings s)))
     \<and> (\<forall>x y. pressure_at g7 b7 x y = ((jacobi0 wd ht) ^^ nat (pressureIters (settings s))) P x y)"
proof -
  let ?T = "(1 / real_of_int wd, 1 / real_of_int ht)"
  let ?R = "(real_of_int wd, real_of_int ht)"
  let ?n = "nat (pressureIters (settings s))"
  let ?Pn = "((jacobi0 wd ht) ^^ ?n) P"
  define st1 where "st1 = exec_pass (DrawCurl ?T) (gl s, b)"
  define st2 where "st2 = (if vorticity (settings s) > 0
      then exec_pass (DrawVorticity ?T dt (vorticity (settings s))) st1 else st1)"
  define st3 where "st3 = exec_pass (DrawAdvect Velocity ?T ?R dt (velDissipation (settings s))) st2"
  define st4 where "st4 = exec_pass (DrawDivergence ?T) st3"
  define st5 where "st5 = ((exec_pass (DrawPressure ?T)) ^^ ?n) st4"
  define st6 where "st6 = exec_pass (DrawGradient ?T) st5"
  define st7 where "st7 = exec_pass (DrawAdvect Dye ?T ?R dt (dyeDissipation (settings s))) st6"
  from st have ok: "buffers_ok (gl s) wd ht b" by (simp add: still_def)
  have wh: "fbo_w (read_of (velocity b)) = wd" "fbo_h (read_of (velocity b)) = ht"
    using buffers_okD(1)[OF ok] by (simp_all add: fbo_ok_def)
  have run: "exec_passes (step_passes (settings s) wd ht dt) (gl s, b) = st7"
    by (simp add: step_passes_eq exec_passes_append exec_passes_cons exec_passes_single
        exec_passes_replicate st1_def st2_def st3_def st4_def st5_def st6_def st7_def)
  have s1: "still wd ht P D st1" and c1: "\<And>x y. curl_at (fst st1) (snd st1) x y = 0"
    unfolding st1_def using still_curl[OF st pos] by simp_all
  have s2: "still wd ht P D st2"
    unfolding st2_def using still_vorticity[OF s1 pos c1] s1 by simp
  have s3: "still wd ht P D st3"
    unfolding st3_def by (rule still_advect_velocity[OF s2 pos])
  have s4: "still wd ht P D st4" and d4: "\<And>x y. divergence_at (fst st4) (snd st4) x y = 0"
    unfolding st4_def using still_divergence[OF s3 pos] by simp_all
  have s5: "still wd ht ?Pn D st5"
    unfolding st5_def using still_pressure_iter[OF s4 pos d4] by simp
  obtain g6 b6 where st6: "st6 = (g6, b6)" by (cases st6)
  have ok6: "buffers_ok g6 wd ht b6"
    and v6: "\<And>x y. velocity_at g6 b6 x y
         = (- (1 / 2) * (?Pn (max 0 (min (wd - 1) x) + 1) (max 0 (min (ht - 1) y))
                          - ?Pn (max 0 (min (wd - 1) x) - 1) (max 0 (min (ht - 1) y))),
            - (1 / 2) * (?Pn (max 0 (min (wd - 1) x)) (max 0 (min (ht - 1) y) + 1)
                          - ?Pn (max 0 (min (wd - 1) x)) (max 0 (min (ht - 1) y) - 1)))"
    and d6: "\<And>x y. dye_at g6 b6 x y = D x y"
    and p6: "\<And>x y. pressure_at g6 b6 x y = ?Pn x y"
    using still_gradient[OF s5 pos] st6 unfolding st6_def by simp_all
  obtain g7 b7 where st7: "st7 = (g7, b7)" by (cases st7)
  have tx: "texture2D g6 (tex (read_of (dye b6)))
              = (\<lambda>uv. D \<lfloor>fst uv * real_of_int wd\<rfloor> \<lfloor>snd uv * real_of_int ht\<rfloor>)"
    using d6 by (simp add: texture2D_texel_at[OF buffers_okD(7)[OF ok6]] dye_at_def fun_eq_iff)
  have d7: "dye_at g7 b7 x y =
          scale4 (bilerp (\<lambda>uv. D \<lfloor>fst uv * real_of_int wd\<rfloor> \<lfloor>snd uv * real_of_int ht\<rfloor>)
                    (sub2 (cell_uv wd ht (max 0 (min (wd - 1) x)) (max 0 (min (ht - 1) y)))
                       (mul2 (scale2 dt (velocity_at g6 b6 x y)) (real_of_int ht / real_of_int wd, 1)))
                    ?R)
            (dyeDissipation (settings s))" for x y
    using advect_dye[OF ok6 pos, of dt "dyeDissipation (settings s)" x y] st7
    unfolding st7_def st6 tx by simp
  have p7: "pressure_at g7 b7 x y = ?Pn x y" for x y
  proof -
    have "tex (read_of (pressure b6)) \<noteq> tex (write_of (dye b6))"
      using tex_neq_dye_write[OF ok6] by simp
    then show ?thesis
      using st7 p6[of x y] unfolding st7_def st6
      by (auto simp: pressure_at_def texel_at_draw_other[OF buffers_okD(8)[OF ok6]])
  qed
  have "step s dt = Inr (s\<lparr>gl := g7, bufs := Some b7\<rparr>)"
    by (simp add: step_def b Let_def wh run st7)
  with d7 p7 show ?thesis unfolding v6 by blast
qed

lemma resize_unfold:
  "resize s =
     (if drawingBufferWidth (gl s) = fst (target_size s) \<and> drawingBufferHeight (gl s) = snd (target_size s)
         \<and> sim_w s = Some (fst (target_size s)) \<and> sim_h s = Some (snd (target_size s))
      then Inr s
      else ebind (allocate (sim_dispose (set_canvas_size s (fst (backing_size s)) (snd (backing_size s))))
                    (fst (target_size s)) (snd (target_size s)))
             (\<lambda>s3. Inr (s3\<lparr>sim_w := Some (fst (target_size s)), sim_h := Some (snd (target_size s))\<rparr>)))"
  by (simp add: resize_def target_size_def backing_size_def Let_def)

lemma target_size_pos: "0 < fst (target_size s)" "0 < snd (target_size s)"
  by (simp_all add: target_size_def Let_def)

lemma allocate_buffers_zero:
  assumes "can_render g" "0 < wd" "0 < ht" "allocate_buffers g wd ht = Inr (b, g1)"
  shows "velocity_at g1 b x y = (0, 0)" "pressure_at g1 b x y = 0" "dye_at g1 b x y = (0, 0, 0, 0)"
  using assms(4) unfolding allocate_buffers_eq[OF assms(1-3)]
  by (auto simp: velocity_at_def pressure_at_def dye_at_def texel_at_def read_of_def new_fbo_def zero_image_def)

lemma resize_reallocates:
  assumes "can_render (gl s)" "sim_w s \<noteq> Some (fst (target_size s))"
  shows "\<exists>s' b. resize s = Inr s' \<and> bufs s' = Some b \<and> settings s' = settings s
           \<and> sim_w s' = Some (fst (target_size s)) \<and> sim_h s' = Some (snd (target_size s))
           \<and> still (fst (target_size s)) (snd (target_size s)) (\<lambda>x y. 0) (\<lambda>x y. (0, 0, 0, 0)) (gl s', b)"
proof -
  let ?s2 = "sim_dispose (set_canvas_size s (fst (backing_size s)) (snd (backing_size s)))"
  let ?W = "fst (target_size s)" and ?H = "snd (target_size s)"
  have fe: "can_render (gl ?s2)" using assms(1) by simp
  obtain b g where bg: "allocate_buffers (gl ?s2) ?W ?H = Inr (b, g)"
    using allocate_buffers_eq[OF fe target_size_pos] by simp
  have ok: "buffers_ok g ?W ?H b" by (rule buffers_ok_allocate[OF fe target_size_pos bg])
  note z = allocate_buffers_zero[OF fe target_size_pos bg]
  have "resize s = Inr (?s2\<lparr>gl := g, bufs := Some b, sim_w := Some ?W, sim_h := Some ?H\<rparr>)"
    using assms(2) by (simp add: resize_unfold allocate_def bg ebind_def)
  moreover have "still ?W ?H (\<lambda>x y. 0) (\<lambda>x y. (0, 0, 0, 0)) (g, b)"
    using ok z by (simp add: still_def)
  moreover have "settings ?s2 = settings s"
    by (simp add: sim_dispose_def set_canvas_size_def split: option.splits)
  ultimately show ?thesis by simp
qed

lemma constructor_fresh:
  assumes "FluidSim cv window_dpr opts = Inr s"
  shows "\<exists>b wd ht. bufs s = Some b \<and> sim_w s = Some wd \<and> sim_h s = Some ht \<and> 0 < wd \<and> 0 < ht
           \<and> settings s = assign_options default_settings opts
           \<and> still wd ht (\<lambda>x y. 0) (\<lambda>x y. (0, 0, 0, 0)) (gl s, b)"
proof -
  from assms obtain g where g: "getGL cv = Some g"
    by (auto simp: FluidSim_def split: option.splits)
  from assms g have sup: "\<not> context_lost g \<and> ''EXT_color_buffer_float'' \<in> set (supported_extensions g)"
    by (auto simp: FluidSim_def checkFloatSupport_def getExtension_def split: if_splits)
  define g1 where "g1 = g\<lparr>enabled_extensions := ''EXT_color_buffer_float'' # enabled_extensions g\<rparr>"
  have cf: "checkFloatSupport g = (True, g1)"
    using sup by (simp add: checkFloatSupport_def getExtension_def g1_def)
  define s0 where "s0 = \<lparr>canvas = cv, devicePixelRatio = window_dpr, gl = g1,
                             settings = assign_options default_settings opts,
                             bufs = None, sim_w = None, sim_h = None\<rparr>"
  from assms g cf have "initGL g1 = Inr g1 \<and> resize s0 = Inr s"
    by (auto simp: FluidSim_def ebind_def initGL_def s0_def split: option.splits sum.splits)
  then have r: "resize s0 = Inr s" ..
  have "can_render (gl s0)" "sim_w s0 \<noteq> Some (fst (target_size s0))"
    using sup by (simp_all add: s0_def g1_def can_render_def)
  from resize_reallocates[OF this] r target_size_pos[of s0] show ?thesis
    by (auto simp: s0_def)
qed

lemma jacobi0_const: "((jacobi0 wd ht) ^^ n) (\<lambda>x y. c) = (\<lambda>x y. c)"
  by (induction n) (simp_all add: jacobi0_def)

lemma still_from_cells:
  assumes ok: "buffers_ok g wd ht b" and pos: "0 < wd" "0 < ht"
    and Z: "\<forall>i j. 0 \<le> i \<and> i < wd \<and> 0 \<le> j \<and> j < ht \<longrightarrow> velocity_at g b i j = (0, 0)"
    and U: "\<forall>i j. 0 \<le> i \<and> i < wd \<and> 0 \<le> j \<and> j < ht \<longrightarrow> pressure_at g b i j = c"
  shows "still wd ht (\<lambda>x y. c) (dye_at g b) (g, b)"
proof -
  note f = buffers_okD[OF ok]
  have r: "0 \<le> max 0 (min (wd - 1) i) \<and> max 0 (min (wd - 1) i) < wd
         \<and> 0 \<le> max 0 (min (ht - 1) j) \<and> max 0 (min (ht - 1) j) < ht" for i j
    using pos by (auto simp: min_def max_def)
  have "velocity_at g b i j = (0, 0)" for i j
    using Z r[of i j] texel_at_clamp[OF f(1) pos, of i j] unfolding velocity_at_def by metis
  moreover have "pressure_at g b i j = c" for i j
    using U r[of i j] texel_at_clamp[OF f(3) pos, of i j] unfolding pressure_at_def by metis
  ultimately show ?thesis using ok by (simp add: still_def)
qed

lemma small_resolution:
  "case FluidSim small_canvas 1 one_sweep_options of Inl e \<Rightarrow> False
   | Inr s \<Rightarrow> sim_w s = Some 16 \<and> sim_h s = Some 16"
  by (simp add: FluidSim_def getGL_def small_canvas_def example_context_def checkFloatSupport_def
      getExtension_def initGL_def ebind_def resize_def Let_def no_options_def one_sweep_options_def
      assign_options_def
      default_settings_def override_def clamp_def set_canvas_size_def sim_dispose_def allocate_def
      allocate_buffers_def makeDoubleFBO_def makeFBO_def createTexture_def createFramebuffer_def
      texImage2D_def framebufferTexture2D_def framebuffer_complete_def)

lemma small_sim:
  "\<exists>s b. FluidSim small_canvas 1 one_sweep_options = Inr s \<and> bufs s = Some b \<and> wf s
         \<and> sim_w s = Some 16 \<and> sim_h s = Some 16
         \<and> settings s = assign_options default_settings one_sweep_options
         \<and> still 16 16 (\<lambda>x y. 0) (\<lambda>x y. (0, 0, 0, 0)) (gl s, b)"
proof -
  have "\<exists>s. FluidSim small_canvas 1 one_sweep_options = Inr s"
    by (rule constructor_succeeds[of _ example_context])
      (simp_all add: getGL_def small_canvas_def example_context_def)
  then obtain s where s: "FluidSim small_canvas 1 one_sweep_options = Inr s" ..
  from small_resolution s have d: "sim_w s = Some 16" "sim_h s = Some 16" by simp_all
  have w: "wf s" using s by (rule constructor_wf)
  from constructor_fresh[OF s] d obtain b where "bufs s = Some b"
    "settings s = assign_options default_settings one_sweep_options"
    "still 16 16 (\<lambda>x y. 0) (\<lambda>x y. (0, 0, 0, 0)) (gl s, b)" by auto
  with s d w show ?thesis by blast
qed

lemma example_fresh:
  "\<exists>s b. FluidSim example_canvas 1 no_options = Inr s \<and> bufs s = Some b \<and> wf s
         \<and> sim_w s = Some 600 \<and> sim_h s = Some 450 \<and> buffers_ok (gl s) 600 450 b
         \<and> settings s = default_settings
         \<and> still 600 450 (\<lambda>x y. 0) (\<lambda>x y. (0, 0, 0, 0)) (gl s, b)"
proof -
  from example_constructed obtain s where s: "FluidSim example_canvas 1 no_options = Inr s" ..
  from example_resolution s have d: "sim_w s = Some 600" "sim_h s = Some 450" by simp_all
  have w: "wf s" using s by (rule constructor_wf)
  have "assign_options default_settings no_options = default_settings"
    by (simp add: assign_options_def no_options_def override_def)
  with constructor_fresh[OF s] d obtain b where "bufs s = Some b"
    "settings s = default_settings"
    "still 600 450 (\<lambda>x y. 0) (\<lambda>x y. (0, 0, 0, 0)) (gl s, b)" by auto
  moreover from this have "buffers_ok (gl s) 600 450 b" by (simp add: still_def)
  ultimately show ?thesis using s d w by blast
qed

lemma splat_value_doubled:
  "splat_value (doubled v) = (2 * fst (splat_value v), 2 * fst (snd (splat_value v)), 2 * snd (snd (splat_value v)))"
  by (cases v; cases "snd (snd v)") (simp_all add: splat_value_def doubled_def override_def)

lemma with_ramps_still:
  assumes "bufs s = Some b" "buffers_ok (gl s) 16 16 b"
    "\<And>x y. velocity_at (gl s) b x y = (0, 0)"
  shows "still 16 16 (\<lambda>x y. real_of_int (max 0 (min 15 x)))
           (\<lambda>x y. (real_of_int (max 0 (min 15 x)), 0, 0, 0)) (gl (with_ramps s), b)"
proof -
  note f = buffers_okD[OF assms(2)]
  have n: "tex (read_of (velocity b)) \<noteq> tex (read_of (pressure b))"
    "tex (read_of (velocity b)) \<noteq> tex (read_of (dye b))"
    "tex (read_of (pressure b)) \<noteq> tex (read_of (dye b))"
    using buffers_ok_distinct[OF assms(2)] by auto
  let ?g1 = "drawArrays (gl s) (read_of (pressure b)) ramp"
  have g: "gl (with_ramps s) = drawArrays ?g1 (read_of (dye b)) ramp"
    by (simp add: with_ramps_def assms(1))
  have f1: "fbo_ok ?g1 16 16 RGBA16F (read_of (dye b))" using f(7) by simp
  have pos: "(0::int) < 16" by simp
  have "velocity_at (gl (with_ramps s)) b x y = (0, 0)" for x y
    using assms(3)[of x y]
    by (simp add: g velocity_at_def texel_at_draw_other[OF f1 n(2)] texel_at_draw_other[OF f(3) n(1)])
  moreover have "pressure_at (gl (with_ramps s)) b x y = real_of_int (max 0 (min 15 x))" for x y
    by (simp add: g pressure_at_def texel_at_draw_other[OF f1 n(3)] texel_at_draw_same[OF f(3) pos pos]
        ramp_def)
  moreover have "dye_at (gl (with_ramps s)) b x y = (real_of_int (max 0 (min 15 x)), 0, 0, 0)" for x y
    by (simp add: g dye_at_def texel_at_draw_same[OF f1 pos pos] ramp_def)
  moreover have "buffers_ok (gl (with_ramps s)) 16 16 b" using assms(2) by (simp add: g)
  ultimately show ?thesis by (simp add: still_def)
qed


section \<open>The passes within a step\<close>

text \<open>
  What each pass leaves alone, the divergence pass and the velocity advection at
  \<^verbatim>\<open>dt = 0\<close> on any state, and the two \<open>16 \<times> 16\<close> examples followed through a step.
\<close>

lemma swz_a_add4: "swz_a (add4 p (q1, q2, q3, q4)) = swz_a p + q4"
  by (cases p) simp

lemma scale2_zero [simp]: "scale2 0 v = (0, 0)"
  by (cases v) simp

lemma mul2_zero [simp]: "mul2 (0, 0) q = (0, 0)"
  by (cases q) simp

lemma pass_keeps_pressure:
  assumes ok: "buffers_ok g wd ht b" and np: "\<forall>texel. p \<noteq> DrawPressure texel"
  shows "pressure (snd (exec_pass p (g, b))) = pressure b"
    and "pressure_at (fst (exec_pass p (g, b))) (snd (exec_pass p (g, b))) x y = pressure_at g b x y"
proof -
  note f = buffers_okD[OF ok]
  note n = tex_neq_velocity_write[OF ok] tex_neq_dye_write[OF ok] tex_neq_curl[OF ok] tex_neq_divergence[OF ok]
  note d = texel_at_draw_other[OF f(2)] texel_at_draw_other[OF f(8)] texel_at_draw_other[OF f(5)]
    texel_at_draw_other[OF f(6)]
  show "pressure (snd (exec_pass p (g, b))) = pressure b"
  proof (cases p)
    case (DrawAdvect k texel res dt diss)
    then show ?thesis by (cases k) simp_all
  qed (use np in simp_all)
  show "pressure_at (fst (exec_pass p (g, b))) (snd (exec_pass p (g, b))) x y = pressure_at g b x y"
  proof (cases p)
    case (DrawAdvect k texel res dt diss)
    then show ?thesis by (cases k) (simp_all add: pressure_at_def d n)
  qed (use np in \<open>simp_all add: pressure_at_def d n\<close>)
qed

lemma pass_keeps_divergence:
  assumes ok: "buffers_ok g wd ht b" and np: "\<forall>texel. p \<noteq> DrawDivergence texel"
  shows "divergence (snd (exec_pass p (g, b))) = divergence b"
    and "divergence_at (fst (exec_pass p (g, b))) (snd (exec_pass p (g, b))) x y = divergence_at g b x y"
proof -
  note f = buffers_okD[OF ok]
  note n = tex_neq_velocity_write[OF ok] tex_neq_dye_write[OF ok] tex_neq_curl[OF ok] tex_neq_pressure_write[OF ok]
  note d = texel_at_draw_other[OF f(2)] texel_at_draw_other[OF f(8)] texel_at_draw_other[OF f(4)]
    texel_at_draw_other[OF f(6)]
  show "divergence (snd (exec_pass p (g, b))) = divergence b"
  proof (cases p)
    case (DrawAdvect k texel res dt diss)
    then show ?thesis by (cases k) simp_all
  qed (use np in simp_all)
  show "divergence_at (fst (exec_pass p (g, b))) (snd (exec_pass p (g, b))) x y = divergence_at g b x y"
  proof (cases p)
    case (DrawAdvect k texel res dt diss)
    then show ?thesis by (cases k) (simp_all add: divergence_at_def d n)
  qed (use np in \<open>simp_all add: divergence_at_def d n\<close>)
qed

lemma pass_keeps_velocity:
  assumes ok: "buffers_ok g wd ht b"
    and p: "p = DrawCurl texel \<or> p = DrawDivergence texel \<or> p = DrawPressure texel
            \<or> p = DrawAdvect Dye texel res dt diss"
  shows "velocity (snd (exec_pass p (g, b))) = velocity b"
    and "velocity_at (fst (exec_pass p (g, b))) (snd (exec_pass p (g, b))) x y = velocity_at g b x y"
    and "texel_at (fst (exec_pass p (g, b))) (write_of (velocity b)) x y = texel_at g (write_of (velocity b)) x y"
proof -
  note f = buffers_okD[OF ok]
  note n = tex_neq_pressure_write[OF ok] tex_neq_dye_write[OF ok] tex_neq_curl[OF ok] tex_neq_divergence[OF ok]
  note d = texel_at_draw_other[OF f(4)] texel_at_draw_other[OF f(8)] texel_at_draw_other[OF f(5)]
    texel_at_draw_other[OF f(6)]
  show "velocity (snd (exec_pass p (g, b))) = velocity b"
    using p by auto
  show "velocity_at (fst (exec_pass p (g, b))) (snd (exec_pass p (g, b))) x y = velocity_at g b x y"
    using p by (auto simp: velocity_at_def d n)
  show "texel_at (fst (exec_pass p (g, b))) (write_of (velocity b)) x y = texel_at g (write_of (velocity b)) x y"
    using p by (auto simp: d n)
qed

lemma passes_keep_pressure:
  assumes "buffers_ok (fst st) wd ht (snd st)" "\<forall>p\<in>set ps. \<forall>texel. p \<noteq> DrawPressure texel"
  shows "pressure (snd (exec_passes ps st)) = pressure (snd st)
     \<and> (\<forall>x y. pressure_at (fst (exec_passes ps st)) (snd (exec_passes ps st)) x y
                = pressure_at (fst st) (snd st) x y)"
  using assms
proof (induction ps arbitrary: st)
  case Nil
  show ?case by (simp add: exec_passes_def)
next
  case (Cons p ps)
  obtain g b where st: "st = (g, b)" by (cases st)
  from Cons.prems have ok: "buffers_ok g wd ht b" and np: "\<forall>texel. p \<noteq> DrawPressure texel"
    and rest: "\<forall>p\<in>set ps. \<forall>texel. p \<noteq> DrawPressure texel"
    by (simp_all add: st)
  have ok1: "buffers_ok (fst (exec_pass p st)) wd ht (snd (exec_pass p st))"
    using ok by (simp only: st exec_pass_ok)
  from Cons.IH[OF ok1 rest] pass_keeps_pressure[OF ok np]
  show ?case by (simp add: exec_passes_cons st)
qed

lemma divergence_pass:
  assumes ok: "buffers_ok g wd ht b" and pos: "0 < wd" "0 < ht"
  shows "divergence_at (fst (exec_pass (DrawDivergence (1 / real_of_int wd, 1 / real_of_int ht)) (g, b)))
           (snd (exec_pass (DrawDivergence (1 / real_of_int wd, 1 / real_of_int ht)) (g, b))) x y
         = (1 / 2) * ((fst (velocity_at g b (max 0 (min (wd - 1) x) + 1) (max 0 (min (ht - 1) y)))
                       - fst (velocity_at g b (max 0 (min (wd - 1) x) - 1) (max 0 (min (ht - 1) y))))
                    + (snd (velocity_at g b (max 0 (min (wd - 1) x)) (max 0 (min (ht - 1) y) + 1))
                       - snd (velocity_at g b (max 0 (min (wd - 1) x)) (max 0 (min (ht - 1) y) - 1))))"
proof -
  note f = buffers_okD[OF ok]
  show ?thesis
    by (simp add: divergence_at_def velocity_at_def texel_at_draw_same[OF f(5) pos] FS_DIVERGENCE_def Let_def
        sample_cell[OF f(1) pos])
qed

lemma advect_velocity_rest:
  assumes ok: "buffers_ok g wd ht b" and pos: "0 < wd" "0 < ht"
  shows "velocity_at (fst (exec_pass (DrawAdvect Velocity (1 / real_of_int wd, 1 / real_of_int ht)
                    (real_of_int wd, real_of_int ht) 0 diss) (g, b)))
           (snd (exec_pass (DrawAdvect Velocity (1 / real_of_int wd, 1 / real_of_int ht)
                    (real_of_int wd, real_of_int ht) 0 diss) (g, b))) x y
         = (fst (velocity_at g b x y) * diss, snd (velocity_at g b x y) * diss)"
proof -
  note f = buffers_okD[OF ok]
  show ?thesis
    by (simp add: velocity_at_def texel_at_draw_same[OF f(2) pos] FS_ADVECT_def Let_def
        bilerp_cell[OF f(1) pos] texel_at_clamp[OF f(1) pos])
qed

lemma with_flow_fields:
  assumes "bufs s = Some b" "buffers_ok (gl s) 16 16 b"
  shows "buffers_ok (gl (with_flow s)) 16 16 b"
    and "velocity_at (gl (with_flow s)) b x y
           = (real_of_int (max 0 (min 15 x) + 2 * max 0 (min 15 y)), real_of_int (max 0 (min 15 y)))"
    and "pressure_at (gl (with_flow s)) b x y = real_of_int (max 0 (min 15 x) + 2 * max 0 (min 15 y))"
proof -
  note f = buffers_okD[OF assms(2)]
  have n: "tex (read_of (pressure b)) \<noteq> tex (read_of (velocity b))"
    using buffers_ok_distinct[OF assms(2)] by auto
  let ?g1 = "drawArrays (gl s) (read_of (pressure b)) slope"
  have g: "gl (with_flow s) = drawArrays ?g1 (read_of (velocity b)) slope"
    by (simp add: with_flow_def assms(1))
  have f1: "fbo_ok ?g1 16 16 RG16F (read_of (velocity b))" using f(1) by simp
  have pos: "(0::int) < 16" by simp
  show "buffers_ok (gl (with_flow s)) 16 16 b" using assms(2) by (simp add: g)
  show "velocity_at (gl (with_flow s)) b x y
           = (real_of_int (max 0 (min 15 x) + 2 * max 0 (min 15 y)), real_of_int (max 0 (min 15 y)))"
    by (simp add: g velocity_at_def texel_at_draw_same[OF f1 pos pos] slope_def)
  show "pressure_at (gl (with_flow s)) b x y = real_of_int (max 0 (min 15 x) + 2 * max 0 (min 15 y))"
    by (simp add: g pressure_at_def texel_at_draw_other[OF f1 n] texel_at_draw_same[OF f(3) pos pos] slope_def)
qed

lemma prelude_rest:
  assumes ok: "buffers_ok g wd ht b" and pos: "0 < wd" "0 < ht"
  shows "\<exists>g0 b0.
      exec_passes [DrawCurl (1 / real_of_int wd, 1 / real_of_int ht),
                   DrawAdvect Velocity (1 / real_of_int wd, 1 / real_of_int ht) (real_of_int wd, real_of_int ht) 0 diss,
                   DrawDivergence (1 / real_of_int wd, 1 / real_of_int ht)] (g, b) = (g0, b0)
    \<and> buffers_ok g0 wd ht b0
    \<and> (\<forall>x y. velocity_at g0 b0 x y = (fst (velocity_at g b x y) * diss, snd (velocity_at g b x y) * diss))
    \<and> (\<forall>x y. pressure_at g0 b0 x y = pressure_at g b x y)
    \<and> (\<forall>x y. divergence_at g0 b0 x y
          = (1 / 2) * ((fst (velocity_at g b (max 0 (min (wd - 1) x) + 1) (max 0 (min (ht - 1) y))) * diss
                        - fst (velocity_at g b (max 0 (min (wd - 1) x) - 1) (max 0 (min (ht - 1) y))) * diss)
                     + (snd (velocity_at g b (max 0 (min (wd - 1) x)) (max 0 (min (ht - 1) y) + 1)) * diss
                        - snd (velocity_at g b (max 0 (min (wd - 1) x)) (max 0 (min (ht - 1) y) - 1)) * diss)))"
proof -
  let ?T = "(1 / real_of_int wd, 1 / real_of_int ht)"
  let ?R = "(real_of_int wd, real_of_int ht)"
  let ?C = "DrawCurl ?T" and ?A = "DrawAdvect Velocity ?T ?R 0 diss" and ?D = "DrawDivergence ?T"
  obtain g1 b1 where st1: "exec_pass ?C (g, b) = (g1, b1)" by (cases "exec_pass ?C (g, b)")
  obtain g2 b2 where st2: "exec_pass ?A (g1, b1) = (g2, b2)" by (cases "exec_pass ?A (g1, b1)")
  obtain g3 b3 where st3: "exec_pass ?D (g2, b2) = (g3, b3)" by (cases "exec_pass ?D (g2, b2)")
  have g1: "g1 = fst (exec_pass ?C (g, b))" and b1: "b1 = snd (exec_pass ?C (g, b))" by (simp_all only: st1 fst_conv snd_conv)
  have g2: "g2 = fst (exec_pass ?A (g1, b1))" and b2: "b2 = snd (exec_pass ?A (g1, b1))" by (simp_all only: st2 fst_conv snd_conv)
  have g3: "g3 = fst (exec_pass ?D (g2, b2))" and b3: "b3 = snd (exec_pass ?D (g2, b2))" by (simp_all only: st3 fst_conv snd_conv)
  have ok1: "buffers_ok g1 wd ht b1" unfolding g1 b1 using ok by (simp only: exec_pass_ok)
  have ok2: "buffers_ok g2 wd ht b2" unfolding g2 b2 using ok1 by (simp only: exec_pass_ok)
  have ok3: "buffers_ok g3 wd ht b3" unfolding g3 b3 using ok2 by (simp only: exec_pass_ok)
  have kC: "?C = DrawCurl ?T \<or> ?C = DrawDivergence ?T \<or> ?C = DrawPressure ?T
            \<or> ?C = DrawAdvect Dye ?T ?R 0 0" by simp
  have kD: "?D = DrawCurl ?T \<or> ?D = DrawDivergence ?T \<or> ?D = DrawPressure ?T
            \<or> ?D = DrawAdvect Dye ?T ?R 0 0" by simp
  have v1: "velocity_at g1 b1 x y = velocity_at g b x y" for x y
    unfolding g1 b1 by (rule pass_keeps_velocity(2)[OF ok kC])
  have p1: "pressure_at g1 b1 x y = pressure_at g b x y" for x y
    unfolding g1 b1 by (rule pass_keeps_pressure(2)[OF ok]) simp
  have v2: "velocity_at g2 b2 x y = (fst (velocity_at g b x y) * diss, snd (velocity_at g b x y) * diss)" for x y
    unfolding g2 b2 advect_velocity_rest[OF ok1 pos] v1 ..
  have p2: "pressure_at g2 b2 x y = pressure_at g b x y" for x y
    unfolding g2 b2 using pass_keeps_pressure(2)[OF ok1, of ?A x y] p1 by simp
  have v3: "velocity_at g3 b3 x y = (fst (velocity_at g b x y) * diss, snd (velocity_at g b x y) * diss)" for x y
    unfolding g3 b3 using pass_keeps_velocity(2)[OF ok2 kD, of x y] v2 by simp
  have p3: "pressure_at g3 b3 x y = pressure_at g b x y" for x y
    unfolding g3 b3 using pass_keeps_pressure(2)[OF ok2, of ?D x y] p2 by simp
  have d3: "divergence_at g3 b3 x y
          = (1 / 2) * ((fst (velocity_at g b (max 0 (min (wd - 1) x) + 1) (max 0 (min (ht - 1) y))) * diss
                        - fst (velocity_at g b (max 0 (min (wd - 1) x) - 1) (max 0 (min (ht - 1) y))) * diss)
                     + (snd (velocity_at g b (max 0 (min (wd - 1) x)) (max 0 (min (ht - 1) y) + 1)) * diss
                        - snd (velocity_at g b (max 0 (min (wd - 1) x)) (max 0 (min (ht - 1) y) - 1)) * diss))" for x y
    unfolding g3 b3 divergence_pass[OF ok2 pos] v2 by simp
  have run: "exec_passes [?C, ?A, ?D] (g, b) = (g3, b3)"
    by (simp only: exec_passes_cons exec_passes_single st1 st2 st3)
  from run ok3 v3 p3 d3 show ?thesis by blast
qed

lemma flow_prelude:
  "\<exists>s0 b g0 b0. FluidSim small_canvas 1 one_sweep_options = Inr s0
     \<and> bufs (with_flow s0) = Some b \<and> wf (with_flow s0)
     \<and> sim_w (with_flow s0) = Some 16 \<and> sim_h (with_flow s0) = Some 16
     \<and> pressureIters (settings (with_flow s0)) = 1 \<and> vorticity (settings (with_flow s0)) = 0
     \<and> velDissipation (settings (with_flow s0)) = 998 / 1000
     \<and> dyeDissipation (settings (with_flow s0)) = 995 / 1000
     \<and> (\<forall>x y. velocity_at (gl (with_flow s0)) b x y
           = (real_of_int (max 0 (min 15 x) + 2 * max 0 (min 15 y)), real_of_int (max 0 (min 15 y))))
     \<and> (\<forall>x y. pressure_at (gl (with_flow s0)) b x y = real_of_int (max 0 (min 15 x) + 2 * max 0 (min 15 y)))
     \<and> exec_passes [DrawCurl (1 / 16, 1 / 16), DrawAdvect Velocity (1 / 16, 1 / 16) (16, 16) 0 (998 / 1000),
                     DrawDivergence (1 / 16, 1 / 16)] (gl (with_flow s0), b) = (g0, b0)
     \<and> buffers_ok g0 16 16 b0
     \<and> (\<forall>x y. velocity_at g0 b0 x y
           = (real_of_int (max 0 (min 15 x) + 2 * max 0 (min 15 y)) * (998 / 1000),
              real_of_int (max 0 (min 15 y)) * (998 / 1000)))
     \<and> (\<forall>x y. pressure_at g0 b0 x y = real_of_int (max 0 (min 15 x) + 2 * max 0 (min 15 y)))
     \<and> (\<forall>x y. 1 \<le> x \<and> x \<le> 14 \<and> 1 \<le> y \<and> y \<le> 14 \<longrightarrow> divergence_at g0 b0 x y = 499 / 250)"
proof -
  from small_sim obtain s0 b where s0: "FluidSim small_canvas 1 one_sweep_options = Inr s0"
    "bufs s0 = Some b" "wf s0" "sim_w s0 = Some 16" "sim_h s0 = Some 16"
    "settings s0 = assign_options default_settings one_sweep_options"
    "still 16 16 (\<lambda>x y. 0) (\<lambda>x y. (0, 0, 0, 0)) (gl s0, b)" by blast
  from s0(7) have ok0: "buffers_ok (gl s0) 16 16 b" by (simp add: still_def)
  let ?s = "with_flow s0"
  note fl = with_flow_fields[OF s0(2) ok0]
  have fields: "bufs ?s = Some b" "sim_w ?s = Some 16" "sim_h ?s = Some 16"
    "settings ?s = assign_options default_settings one_sweep_options"
    "can_render (gl ?s)"
    using s0 by (simp_all add: with_flow_def wf_def)
  have w: "wf ?s" using fields fl(1) by (simp add: wf_def)
  have set: "pressureIters (settings ?s) = 1" "vorticity (settings ?s) = 0"
    "velDissipation (settings ?s) = 998 / 1000" "dyeDissipation (settings ?s) = 995 / 1000"
    by (simp_all add: fields(4) assign_options_def default_settings_def one_sweep_options_def
        no_options_def override_def)
  have pos16: "(0::int) < 16" by simp
  from prelude_rest[OF fl(1) pos16 pos16, of "998 / 1000"] obtain g0 b0 where
    run: "exec_passes [DrawCurl (1 / 16, 1 / 16), DrawAdvect Velocity (1 / 16, 1 / 16) (16, 16) 0 (998 / 1000),
                     DrawDivergence (1 / 16, 1 / 16)] (gl ?s, b) = (g0, b0)"
    and ok: "buffers_ok g0 16 16 b0"
    and v: "\<And>x y. velocity_at g0 b0 x y
              = (fst (velocity_at (gl ?s) b x y) * (998 / 1000), snd (velocity_at (gl ?s) b x y) * (998 / 1000))"
    and p: "\<And>x y. pressure_at g0 b0 x y = pressure_at (gl ?s) b x y"
    and d: "\<And>x y. divergence_at g0 b0 x y
          = (1 / 2) * ((fst (velocity_at (gl ?s) b (max 0 (min (16 - 1) x) + 1) (max 0 (min (16 - 1) y))) * (998 / 1000)
                        - fst (velocity_at (gl ?s) b (max 0 (min (16 - 1) x) - 1) (max 0 (min (16 - 1) y))) * (998 / 1000))
                     + (snd (velocity_at (gl ?s) b (max 0 (min (16 - 1) x)) (max 0 (min (16 - 1) y) + 1)) * (998 / 1000)
                        - snd (velocity_at (gl ?s) b (max 0 (min (16 - 1) x)) (max 0 (min (16 - 1) y) - 1)) * (998 / 1000)))"
    by auto
  have dv: "divergence_at g0 b0 x y = 499 / 250" if "1 \<le> x \<and> x \<le> 14 \<and> 1 \<le> y \<and> y \<le> 14" for x y
  proof -
    from that have c: "max 0 (min (16 - 1) x) = x" "max 0 (min (16 - 1) y) = y"
      "max 0 (min 15 (x + 1)) = x + 1" "max 0 (min 15 (x - 1)) = x - 1"
      "max 0 (min 15 (y + 1)) = y + 1" "max 0 (min 15 (y - 1)) = y - 1"
      "max 0 (min 15 x) = x" "max 0 (min 15 y) = y"
      by simp_all
    show ?thesis unfolding d c fl(2) by (simp add: c field_simps)
  qed
  have v': "velocity_at g0 b0 x y
           = (real_of_int (max 0 (min 15 x) + 2 * max 0 (min 15 y)) * (998 / 1000),
              real_of_int (max 0 (min 15 y)) * (998 / 1000))" for x y
    unfolding v fl(2) by simp
  have p': "pressure_at g0 b0 x y = real_of_int (max 0 (min 15 x) + 2 * max 0 (min 15 y))" for x y
    unfolding p fl(3) ..
  from s0(1) fields(1-3) w set fl(2,3) run ok v' p' dv show ?thesis by blast
qed

lemma adjustQuality_wf:
  assumes "wf s"
  shows "\<exists>s'. adjustQuality s ms = Inr s' \<and> wf s'"
proof -
  have c: "can_render (gl (s\<lparr>settings := st\<rparr>))" "wf (s\<lparr>settings := st\<rparr>)" for st
    using assms by (auto simp: wf_def split: option.splits)
  have r: "\<exists>s'. resize (s\<lparr>settings := st\<rparr>) = Inr s' \<and> wf s'" for st
    using resize_wf[OF c(1), of st] c(2)[of st] by blast
  show ?thesis
    unfolding adjustQuality_def Let_def using r assms by auto
qed

lemma ramp_step_dye:
  "\<exists>s0 b. FluidSim small_canvas 1 one_sweep_options = Inr s0
     \<and> bufs (with_ramps s0) = Some b \<and> wf (with_ramps s0)
     \<and> sim_w (with_ramps s0) = Some 16 \<and> sim_h (with_ramps s0) = Some 16
     \<and> vorticity (settings (with_ramps s0)) = 0
     \<and> (\<forall>dt. \<exists>g7 b7. step (with_ramps s0) dt = Inr ((with_ramps s0)\<lparr>gl := g7, bufs := Some b7\<rparr>)
           \<and> dye_at g7 b7 5 5
               = scale4 (bilerp (\<lambda>uv. (real_of_int (max 0 (min 15 \<lfloor>fst uv * 16\<rfloor>)), 0, 0, 0))
                           (11 / 32 + dt, 11 / 32) (16, 16)) (995 / 1000))"
proof -
  from small_sim obtain s0 b where s0: "FluidSim small_canvas 1 one_sweep_options = Inr s0"
    "bufs s0 = Some b" "wf s0" "sim_w s0 = Some 16" "sim_h s0 = Some 16"
    "settings s0 = assign_options default_settings one_sweep_options"
    "still 16 16 (\<lambda>x y. 0) (\<lambda>x y. (0, 0, 0, 0)) (gl s0, b)" by blast
  from s0(7) have ok: "buffers_ok (gl s0) 16 16 b" and z: "\<And>x y. velocity_at (gl s0) b x y = (0, 0)"
    by (simp_all add: still_def)
  let ?s = "with_ramps s0"
  let ?P = "\<lambda>x y. real_of_int (max 0 (min 15 (x::int)))"
  let ?D = "\<lambda>x y. (real_of_int (max 0 (min 15 (x::int))), 0::real, 0::real, 0::real)"
  have st: "still 16 16 ?P ?D (gl ?s, b)" by (rule with_ramps_still[OF s0(2) ok z])
  have fields: "bufs ?s = Some b" "sim_w ?s = Some 16" "sim_h ?s = Some 16"
    "settings ?s = assign_options default_settings one_sweep_options"
    "can_render (gl ?s)"
    using s0 by (simp_all add: with_ramps_def wf_def)
  have w: "wf ?s" using fields st by (simp add: wf_def still_def)
  have set: "pressureIters (settings ?s) = 1" "dyeDissipation (settings ?s) = 995 / 1000"
    "vorticity (settings ?s) = 0"
    by (simp_all add: fields(4) assign_options_def default_settings_def one_sweep_options_def
        no_options_def override_def)
  have it: "((jacobi0 16 16) ^^ nat 1) ?P = jacobi0 16 16 ?P" by simp
  have cl: "max 0 (min (16 - 1) (5::int)) = 5" by simp
  have j: "jacobi0 16 16 ?P (5 + 1) 5 = 6" "jacobi0 16 16 ?P (5 - 1) 5 = 4"
    "jacobi0 16 16 ?P 5 (5 + 1) = 5" "jacobi0 16 16 ?P 5 (5 - 1) = 5"
    by (simp_all add: jacobi0_def)
  have pos16: "(0::int) < 16" by simp
  have "\<exists>g7 b7. step ?s dt = Inr (?s\<lparr>gl := g7, bufs := Some b7\<rparr>)
           \<and> dye_at g7 b7 5 5
               = scale4 (bilerp (\<lambda>uv. (real_of_int (max 0 (min 15 \<lfloor>fst uv * 16\<rfloor>)), 0, 0, 0))
                           (11 / 32 + dt, 11 / 32) (16, 16)) (995 / 1000)" for dt
  proof -
    have co: "sub2 (cell_uv 16 16 5 5)
              (mul2 (scale2 dt (- (1 / 2) * (6 - 4), - (1 / 2) * (5 - 5)))
                 (real_of_int 16 / real_of_int 16, 1)) = (11 / 32 + dt, 11 / 32)"
      by (simp add: cell_uv_def gl_FragCoord_def)
    from step_still[OF fields(1) st pos16 pos16, of dt] obtain g7 b7 where
      r: "step ?s dt = Inr (?s\<lparr>gl := g7, bufs := Some b7\<rparr>)"
      and d0: "\<And>x y. dye_at g7 b7 x y =
          scale4 (bilerp (\<lambda>uv. ?D \<lfloor>fst uv * real_of_int 16\<rfloor> \<lfloor>snd uv * real_of_int 16\<rfloor>)
                    (sub2 (cell_uv 16 16 (max 0 (min (16 - 1) x)) (max 0 (min (16 - 1) y)))
                       (mul2 (scale2 dt
                          (- (1 / 2) * (((jacobi0 16 16) ^^ nat (pressureIters (settings ?s))) ?P
                                           (max 0 (min (16 - 1) x) + 1) (max 0 (min (16 - 1) y))
                                        - ((jacobi0 16 16) ^^ nat (pressureIters (settings ?s))) ?P
                                           (max 0 (min (16 - 1) x) - 1) (max 0 (min (16 - 1) y))),
                           - (1 / 2) * (((jacobi0 16 16) ^^ nat (pressureIters (settings ?s))) ?P
                                           (max 0 (min (16 - 1) x)) (max 0 (min (16 - 1) y) + 1)
                                        - ((jacobi0 16 16) ^^ nat (pressureIters (settings ?s))) ?P
                                           (max 0 (min (16 - 1) x)) (max 0 (min (16 - 1) y) - 1))))
                          (real_of_int 16 / real_of_int 16, 1)))
                    (real_of_int 16, real_of_int 16))
            (dyeDissipation (settings ?s))"
      by blast
    have d: "dye_at g7 b7 5 5
               = scale4 (bilerp (\<lambda>uv. (real_of_int (max 0 (min 15 \<lfloor>fst uv * 16\<rfloor>)), 0, 0, 0))
                           (11 / 32 + dt, 11 / 32) (16, 16)) (995 / 1000)"
      unfolding d0[of 5 5] set it cl j co by simp
    from r d show ?thesis by blast
  qed
  with s0(1) fields(1-3) w set(3) show ?thesis by blast
qed


section \<open>Resizing\<close>

text \<open>
  C1. The spec: a second \<^verbatim>\<open>resize()\<close> with unchanged surface size, device pixel ratio and
  quality scalar is a no-op that keeps the identity and the content of every field buffer.
  The early return of \<^verbatim>\<open>_resize\<close> compares the drawing buffer, which has the
  full-quality size, with the simulation size, which is scaled by the quality scalar. On an
  \<open>800 \<times> 600\<close> canvas at device pixel ratio \<open>1\<close> with the default quality \<open>0.75\<close> the
  constructor's \<^verbatim>\<open>_resize\<close> leaves a drawing buffer of \<open>800 \<times> 600\<close> and a simulation of
  \<open>600 \<times> 450\<close>; the next \<^verbatim>\<open>_resize\<close>, with nothing changed, deletes all eight textures
  and allocates eight new ones.
\<close>

theorem resize_twice_reallocates:
  "case FluidSim example_canvas 1 no_options of Inl e \<Rightarrow> False
   | Inr s1 \<Rightarrow> sim_w s1 = Some 600 \<and> sim_h s1 = Some 450
       \<and> drawingBufferWidth (gl s1) = 800 \<and> drawingBufferHeight (gl s1) = 600 \<and>
       (case resize s1 of Inl e \<Rightarrow> False
        | Inr s2 \<Rightarrow> (case bufs s1 of None \<Rightarrow> False
           | Some b1 \<Rightarrow> (case bufs s2 of None \<Rightarrow> False
              | Some b2 \<Rightarrow> s2 \<noteq> s1
                  \<and> map tex (fbos b1) = [0, 2, 4, 6, 8, 10, 12, 14]
                  \<and> map tex (fbos b2) = [16, 18, 20, 22, 24, 26, 28, 30]
                  \<and> map (textures (gl s2)) (map tex (fbos b1)) = replicate 8 None)))"
  by (simp add: FluidSim_def getGL_def example_canvas_def example_context_def checkFloatSupport_def
      getExtension_def initGL_def ebind_def resize_def Let_def no_options_def assign_options_def
      default_settings_def override_def clamp_def set_canvas_size_def sim_dispose_def allocate_def
      allocate_buffers_def makeDoubleFBO_def makeFBO_def createTexture_def createFramebuffer_def
      texImage2D_def framebufferTexture2D_def framebuffer_complete_def dispose_buffers_def
      dispose_def deleteTexture_def deleteFramebuffer_def fbos_def eval_nat_numeral)


section \<open>The time step\<close>

text \<open>
  C2, as amended. \<^verbatim>\<open>step(dt)\<close> does not clamp: on a simulation between two calls it
  executes its draw calls with exactly the \<^verbatim>\<open>dt\<close> it was given, in the vorticity pass
  (when enabled) and in the two advection passes. The clamp to \<open>[0, 0.033]\<close> is applied by
  the frame driver \<^verbatim>\<open>tick\<close>, the only caller of \<^verbatim>\<open>step\<close> in the repository: a tick of a
  running application resizes, steps with \<open>d = min 0.033 (max 0 ((now - lastT) / 1000))\<close>,
  which lies in that interval, and adjusts the quality; and it succeeds.
\<close>

theorem step_runs_with_the_dt_it_is_given:
  assumes "wf s" "bufs s = Some b" "sim_w s = Some wd" "sim_h s = Some ht"
    and "sim a = Some s" "running a"
  shows "(\<exists>g' b'. exec_passes (step_passes (settings s) wd ht dt) (gl s, b) = (g', b')
            \<and> step s dt = Inr (s\<lparr>gl := g', bufs := Some b'\<rparr>))
       \<and> step_passes (settings s) wd ht dt =
           [DrawCurl (1 / real_of_int wd, 1 / real_of_int ht)]
           @ (if vorticity (settings s) > 0
              then [DrawVorticity (1 / real_of_int wd, 1 / real_of_int ht) dt (vorticity (settings s))] else [])
           @ [DrawAdvect Velocity (1 / real_of_int wd, 1 / real_of_int ht) (real_of_int wd, real_of_int ht) dt
                (velDissipation (settings s)),
              DrawDivergence (1 / real_of_int wd, 1 / real_of_int ht)]
           @ replicate (nat (pressureIters (settings s))) (DrawPressure (1 / real_of_int wd, 1 / real_of_int ht))
           @ [DrawGradient (1 / real_of_int wd, 1 / real_of_int ht),
              DrawAdvect Dye (1 / real_of_int wd, 1 / real_of_int ht) (real_of_int wd, real_of_int ht) dt
                (dyeDissipation (settings s))]
       \<and> List.map_filter pass_dt (step_passes (settings s) wd ht dt)
           = (if vorticity (settings s) > 0 then [dt, dt, dt] else [dt, dt])
       \<and> (\<exists>d s1 s2 s3.
              d = min (33 / 1000) (max 0 ((now - lastT a) / 1000)) \<and> 0 \<le> d \<and> d \<le> 33 / 1000
            \<and> resize s = Inr s1 \<and> step s1 d = Inr s2
            \<and> adjustQuality s2 (9 / 10 * emaFrame a + 1 / 10 * (d * 1000)) = Inr s3
            \<and> tick a now = Inr (a\<lparr>sim := Some s3, lastT := now,
                                   emaFrame := 9 / 10 * emaFrame a + 1 / 10 * (d * 1000)\<rparr>))"
proof -
  from assms(1-4) have ok: "buffers_ok (gl s) wd ht b" and cr: "can_render (gl s)"
    by (simp_all add: wf_def)
  have wh: "fbo_w (read_of (velocity b)) = wd" "fbo_h (read_of (velocity b)) = ht"
    using buffers_okD(1)[OF ok] by (simp_all add: fbo_ok_def)
  obtain g' b' where run: "exec_passes (step_passes (settings s) wd ht dt) (gl s, b) = (g', b')"
    by (cases "exec_passes (step_passes (settings s) wd ht dt) (gl s, b)")
  have st: "step s dt = Inr (s\<lparr>gl := g', bufs := Some b'\<rparr>)"
    by (simp add: step_def assms(2) Let_def wh run)
  have dts: "List.map_filter pass_dt (step_passes (settings s) wd ht dt)
           = (if vorticity (settings s) > 0 then [dt, dt, dt] else [dt, dt])"
    by (simp add: step_passes_eq map_filter_append map_filter_replicate_None)
  let ?d = "min (33 / 1000) (max 0 ((now - lastT a) / 1000))"
  let ?ema = "9 / 10 * emaFrame a + 1 / 10 * (?d * 1000)"
  from resize_wf[OF cr, of] assms(1) obtain s1 where s1: "resize s = Inr s1" "wf s1" by blast
  from step_wf[OF s1(2), of ?d] obtain s2 where s2: "step s1 ?d = Inr s2" "wf s2" by blast
  from adjustQuality_wf[OF s2(2), of ?ema] obtain s3 where s3: "adjustQuality s2 ?ema = Inr s3" by blast
  have tk: "tick a now = Inr (a\<lparr>sim := Some s3, lastT := now, emaFrame := ?ema\<rparr>)"
    using assms(5,6) s1(1) s2(1) s3 by (simp add: tick_def tick_dt_def Let_def ebind_def)
  have bd: "0 \<le> ?d" "?d \<le> 33 / 1000" by simp_all
  have "\<exists>d s1 s2 s3.
              d = ?d \<and> 0 \<le> d \<and> d \<le> 33 / 1000
            \<and> resize s = Inr s1 \<and> step s1 d = Inr s2
            \<and> adjustQuality s2 (9 / 10 * emaFrame a + 1 / 10 * (d * 1000)) = Inr s3
            \<and> tick a now = Inr (a\<lparr>sim := Some s3, lastT := now,
                                   emaFrame := 9 / 10 * emaFrame a + 1 / 10 * (d * 1000)\<rparr>)"
    using bd s1(1) s2(1) s3 tk by blast
  with run st dts step_passes_eq[of "settings s" wd ht dt] show ?thesis by blast
qed

theorem step_runs_with_the_dt_it_is_given_witness:
  "\<exists>s b g' b' s1 s2 s3.
      FluidSim example_canvas 1 no_options = Inr s
    \<and> wf s \<and> bufs s = Some b \<and> sim_w s = Some 600 \<and> sim_h s = Some 450
    \<and> sim \<lparr>sim = Some s, running = True, lastT = 0, emaFrame = 16\<rparr> = Some s
    \<and> running \<lparr>sim = Some s, running = True, lastT = 0, emaFrame = 16\<rparr>
    \<and> exec_passes (step_passes (settings s) 600 450 (1 / 2)) (gl s, b) = (g', b')
    \<and> step s (1 / 2) = Inr (s\<lparr>gl := g', bufs := Some b'\<rparr>)
    \<and> List.map_filter pass_dt (step_passes (settings s) 600 450 (1 / 2)) = [1 / 2, 1 / 2, 1 / 2]
    \<and> min (33 / 1000) (max 0 ((1000 - 0) / 1000)) = (33 / 1000 :: real)
    \<and> resize s = Inr s1 \<and> step s1 (33 / 1000) = Inr s2
    \<and> adjustQuality s2 (9 / 10 * 16 + 1 / 10 * (33 / 1000 * 1000)) = Inr s3
    \<and> tick \<lparr>sim = Some s, running = True, lastT = 0, emaFrame = 16\<rparr> 1000
        = Inr \<lparr>sim = Some s3, running = True, lastT = 1000, emaFrame = 177 / 10\<rparr>"
proof -
  from example_fresh obtain s b where s: "FluidSim example_canvas 1 no_options = Inr s"
    "bufs s = Some b" "wf s" "sim_w s = Some 600" "sim_h s = Some 450" "settings s = default_settings"
    by blast
  let ?a = "\<lparr>sim = Some s, running = True, lastT = 0, emaFrame = 16\<rparr>"
  have a: "sim ?a = Some s" "running ?a" by simp_all
  have v: "vorticity (settings s) > 0" by (simp add: s(6) default_settings_def)
  from step_runs_with_the_dt_it_is_given[OF s(3,2,4,5) a, of "1 / 2" 1000]
  obtain g' b' d s1 s2 s3 where
    t: "exec_passes (step_passes (settings s) 600 450 (1 / 2)) (gl s, b) = (g', b')"
      "step s (1 / 2) = Inr (s\<lparr>gl := g', bufs := Some b'\<rparr>)"
      "List.map_filter pass_dt (step_passes (settings s) 600 450 (1 / 2))
           = (if vorticity (settings s) > 0 then [1 / 2, 1 / 2, 1 / 2] else [1 / 2, 1 / 2])"
      "d = min (33 / 1000) (max 0 ((1000 - lastT ?a) / 1000))"
      "resize s = Inr s1" "step s1 d = Inr s2"
      "adjustQuality s2 (9 / 10 * emaFrame ?a + 1 / 10 * (d * 1000)) = Inr s3"
      "tick ?a 1000 = Inr (?a\<lparr>sim := Some s3, lastT := 1000,
                                   emaFrame := 9 / 10 * emaFrame ?a + 1 / 10 * (d * 1000)\<rparr>)"
    by blast
  have d: "d = 33 / 1000" using t(4) by simp
  have all: "FluidSim example_canvas 1 no_options = Inr s
    \<and> wf s \<and> bufs s = Some b \<and> sim_w s = Some 600 \<and> sim_h s = Some 450
    \<and> sim ?a = Some s \<and> running ?a
    \<and> exec_passes (step_passes (settings s) 600 450 (1 / 2)) (gl s, b) = (g', b')
    \<and> step s (1 / 2) = Inr (s\<lparr>gl := g', bufs := Some b'\<rparr>)
    \<and> List.map_filter pass_dt (step_passes (settings s) 600 450 (1 / 2)) = [1 / 2, 1 / 2, 1 / 2]
    \<and> min (33 / 1000) (max 0 ((1000 - 0) / 1000)) = (33 / 1000 :: real)
    \<and> resize s = Inr s1 \<and> step s1 (33 / 1000) = Inr s2
    \<and> adjustQuality s2 (9 / 10 * 16 + 1 / 10 * (33 / 1000 * 1000)) = Inr s3
    \<and> tick ?a 1000 = Inr \<lparr>sim = Some s3, running = True, lastT = 1000, emaFrame = 177 / 10\<rparr>"
    using s(1-5) a t(1,2,5) t(3)[unfolded if_P[OF v]] t(6-8)[unfolded d] by simp
  show ?thesis
    by (rule exI[of _ s], rule exI[of _ b], rule exI[of _ g'], rule exI[of _ b'],
        rule exI[of _ s1], rule exI[of _ s2], rule exI[of _ s3]) (rule all)
qed

text \<open>
  C2 as the spec states it fails: called with \<^verbatim>\<open>dt = 1\<close>, \<^verbatim>\<open>step\<close> runs its
  time-dependent passes with \<open>1\<close>, which is not in \<open>[0, 0.033]\<close>, and what it leaves is not
  what \<^verbatim>\<open>step(0.033)\<close> leaves. On the \<open>16 \<times> 16\<close> example with the pressure and dye
  ramps, cell \<open>(5, 5)\<close> gets the velocity \<open>(-1, 0)\<close>; with \<^verbatim>\<open>dt = 1\<close> the back-traced
  coordinate leaves the grid and the dye there becomes \<open>15 \<times> 0.995\<close>, with
  \<^verbatim>\<open>dt = 0.033\<close> it becomes \<open>5.528 \<times> 0.995\<close>.
\<close>

theorem step_does_not_clamp_dt:
  "\<not> (1::real) \<le> 33 / 1000 \<and> min (33 / 1000) (max 0 (1::real)) = 33 / 1000
   \<and> List.map_filter pass_dt (step_passes default_settings 16 16 1) = [1, 1, 1]
   \<and> (case FluidSim small_canvas 1 one_sweep_options of Inl e \<Rightarrow> False
      | Inr s0 \<Rightarrow> (case bufs (with_ramps s0) of None \<Rightarrow> False
         | Some b \<Rightarrow> wf (with_ramps s0)
             \<and> List.map_filter pass_dt (step_passes (settings (with_ramps s0)) 16 16 1) = [1, 1]
             \<and> (case step (with_ramps s0) 1 of Inl e \<Rightarrow> False
                | Inr s1 \<Rightarrow> (case bufs s1 of None \<Rightarrow> False
                   | Some b1 \<Rightarrow> (case step (with_ramps s0) (33 / 1000) of Inl e \<Rightarrow> False
                      | Inr s2 \<Rightarrow> (case bufs s2 of None \<Rightarrow> False
                         | Some b2 \<Rightarrow> dye_at (gl s1) b1 5 5 = (597 / 40, 0, 0, 0)
                             \<and> dye_at (gl s2) b2 5 5 = (137509 / 25000, 0, 0, 0)
                             \<and> s1 \<noteq> s2))))))"
proof -
  have a: "List.map_filter pass_dt (step_passes default_settings 16 16 1) = [1, 1, 1]"
    by (simp add: step_passes_eq map_filter_append map_filter_replicate_None default_settings_def)
  from ramp_step_dye obtain s0 b where s0: "FluidSim small_canvas 1 one_sweep_options = Inr s0"
    and bf: "bufs (with_ramps s0) = Some b" and w: "wf (with_ramps s0)"
    and vo: "vorticity (settings (with_ramps s0)) = 0"
    and st: "\<And>dt. \<exists>g7 b7. step (with_ramps s0) dt = Inr ((with_ramps s0)\<lparr>gl := g7, bufs := Some b7\<rparr>)
           \<and> dye_at g7 b7 5 5
               = scale4 (bilerp (\<lambda>uv. (real_of_int (max 0 (min 15 \<lfloor>fst uv * 16\<rfloor>)), 0, 0, 0))
                           (11 / 32 + dt, 11 / 32) (16, 16)) (995 / 1000)"
    by blast
  have dts: "List.map_filter pass_dt (step_passes (settings (with_ramps s0)) 16 16 1) = [1, 1]"
    by (simp add: step_passes_eq map_filter_append map_filter_replicate_None vo)
  have b1: "bilerp (\<lambda>uv. (real_of_int (max 0 (min 15 \<lfloor>fst uv * 16\<rfloor>)), 0::real, 0::real, 0::real))
              (11 / 32 + 1, 11 / 32) (16, 16) = (15, 0, 0, 0)"
    by (simp add: bilerp_def Let_def)
  have b2: "bilerp (\<lambda>uv. (real_of_int (max 0 (min 15 \<lfloor>fst uv * 16\<rfloor>)), 0::real, 0::real, 0::real))
              (11 / 32 + 33 / 1000, 11 / 32) (16, 16) = (691 / 125, 0, 0, 0)"
    by (simp add: bilerp_def Let_def)
  from st[of 1] obtain g1 c1 where
    r1: "step (with_ramps s0) 1 = Inr ((with_ramps s0)\<lparr>gl := g1, bufs := Some c1\<rparr>)"
    and d1: "dye_at g1 c1 5 5 = (597 / 40, 0, 0, 0)"
    unfolding b1 by auto
  from st[of "33 / 1000"] obtain g2 c2 where
    r2: "step (with_ramps s0) (33 / 1000) = Inr ((with_ramps s0)\<lparr>gl := g2, bufs := Some c2\<rparr>)"
    and d2: "dye_at g2 c2 5 5 = (137509 / 25000, 0, 0, 0)"
    unfolding b2 by auto
  have ne: "(with_ramps s0)\<lparr>gl := g1, bufs := Some c1\<rparr> \<noteq> (with_ramps s0)\<lparr>gl := g2, bufs := Some c2\<rparr>"
  proof
    assume e: "(with_ramps s0)\<lparr>gl := g1, bufs := Some c1\<rparr> = (with_ramps s0)\<lparr>gl := g2, bufs := Some c2\<rparr>"
    then have "gl ((with_ramps s0)\<lparr>gl := g1, bufs := Some c1\<rparr>) = gl ((with_ramps s0)\<lparr>gl := g2, bufs := Some c2\<rparr>)"
      "bufs ((with_ramps s0)\<lparr>gl := g1, bufs := Some c1\<rparr>) = bufs ((with_ramps s0)\<lparr>gl := g2, bufs := Some c2\<rparr>)"
      by simp_all
    then have "g1 = g2" "c1 = c2" by simp_all
    with d1 d2 show False by simp
  qed
  show ?thesis
    using a s0 bf w dts r1 r2 d1 d2 ne by simp
qed




section \<open>Pressure projection\<close>

text \<open>
  C3. The default \<^verbatim>\<open>pressureIters\<close> is \<open>18\<close>. On a simulation between two calls
  \<^verbatim>\<open>step(dt)\<close> succeeds, and it is: the passes before the projection (curl, vorticity when
  enabled, velocity advection, divergence), which leave the pressure as it was; then exactly
  \<^verbatim>\<open>pressureIters\<close> pressure passes, executed one after the other; then the gradient pass
  and the dye advection, which leave the pressure as the last pressure pass left it. The
  pressure pass that follows \<open>i\<close> others reads the state \<open>(gi, bi)\<close> they left and writes
  into \<^verbatim>\<open>pressure.write\<close>, at every cell \<open>(x, y)\<close> of the grid,
  \<open>(p(x-1,y) + p(x+1,y) + p(x,y-1) + p(x,y+1) - div(x,y)) / 4\<close> with \<open>p\<close> read from
  \<^verbatim>\<open>pressure.read\<close> (neighbours outside the grid clamp to the edge) and \<open>div\<close> from the
  divergence texture, and then swaps: the texture just written is the next
  \<^verbatim>\<open>pressure.read\<close>, the texture just read is the next \<^verbatim>\<open>pressure.write\<close> and is left
  as it was, as is the divergence.
\<close>

theorem pressure_projection_is_jacobi:
  assumes "wf s" "bufs s = Some b" "sim_w s = Some wd" "sim_h s = Some ht"
    and "0 \<le> x" "x < wd" "0 \<le> y" "y < ht"
    and "i < nat (pressureIters (settings s))"
  shows "pressureIters default_settings = 18
     \<and> (\<exists>s' b' g0 b0 gi bi gj bj gN bN.
          step s dt = Inr s' \<and> bufs s' = Some b'
        \<and> exec_passes
            ([DrawCurl (1 / real_of_int wd, 1 / real_of_int ht)]
             @ (if vorticity (settings s) > 0
                then [DrawVorticity (1 / real_of_int wd, 1 / real_of_int ht) dt (vorticity (settings s))] else [])
             @ [DrawAdvect Velocity (1 / real_of_int wd, 1 / real_of_int ht) (real_of_int wd, real_of_int ht) dt
                  (velDissipation (settings s)),
                DrawDivergence (1 / real_of_int wd, 1 / real_of_int ht)]) (gl s, b) = (g0, b0)
        \<and> ((exec_pass (DrawPressure (1 / real_of_int wd, 1 / real_of_int ht))) ^^ i) (g0, b0) = (gi, bi)
        \<and> exec_pass (DrawPressure (1 / real_of_int wd, 1 / real_of_int ht)) (gi, bi) = (gj, bj)
        \<and> ((exec_pass (DrawPressure (1 / real_of_int wd, 1 / real_of_int ht)))
              ^^ nat (pressureIters (settings s))) (g0, b0) = (gN, bN)
        \<and> exec_passes
            [DrawGradient (1 / real_of_int wd, 1 / real_of_int ht),
             DrawAdvect Dye (1 / real_of_int wd, 1 / real_of_int ht) (real_of_int wd, real_of_int ht) dt
               (dyeDissipation (settings s))] (gN, bN) = (gl s', b')
        \<and> pressure_at g0 b0 x y = pressure_at (gl s) b x y
        \<and> read_of (pressure bj) = write_of (pressure bi) \<and> write_of (pressure bj) = read_of (pressure bi)
        \<and> pressure_at gj bj x y
            = (pressure_at gi bi (x - 1) y + pressure_at gi bi (x + 1) y
               + pressure_at gi bi x (y - 1) + pressure_at gi bi x (y + 1) - divergence_at gi bi x y) / 4
        \<and> texel_at gj (write_of (pressure bj)) x y = texel_at gi (read_of (pressure bi)) x y
        \<and> divergence bj = divergence bi \<and> divergence_at gj bj x y = divergence_at gi bi x y
        \<and> pressure_at (gl s') b' x y = pressure_at gN bN x y)"
proof -
  let ?T = "(1 / real_of_int wd, 1 / real_of_int ht)"
  let ?R = "(real_of_int wd, real_of_int ht)"
  let ?n = "nat (pressureIters (settings s))"
  let ?P = "DrawPressure ?T"
  let ?pre = "[DrawCurl ?T]
     @ (if vorticity (settings s) > 0 then [DrawVorticity ?T dt (vorticity (settings s))] else [])
     @ [DrawAdvect Velocity ?T ?R dt (velDissipation (settings s)), DrawDivergence ?T]"
  let ?post = "[DrawGradient ?T, DrawAdvect Dye ?T ?R dt (dyeDissipation (settings s))]"
  from assms(1-4) have ok: "buffers_ok (gl s) wd ht b" and pos: "0 < wd" "0 < ht"
    by (simp_all add: wf_def)
  have wh: "fbo_w (read_of (velocity b)) = wd" "fbo_h (read_of (velocity b)) = ht"
    using buffers_okD(1)[OF ok] by (simp_all add: fbo_ok_def)
  have cl: "max 0 (min (wd - 1) x) = x" "max 0 (min (ht - 1) y) = y"
    using assms(5-8) by simp_all
  obtain g0 b0 where st0: "exec_passes ?pre (gl s, b) = (g0, b0)"
    by (cases "exec_passes ?pre (gl s, b)")
  obtain gi bi where sti: "((exec_pass ?P) ^^ i) (g0, b0) = (gi, bi)"
    by (cases "((exec_pass ?P) ^^ i) (g0, b0)")
  obtain gj bj where stj: "exec_pass ?P (gi, bi) = (gj, bj)"
    by (cases "exec_pass ?P (gi, bi)")
  obtain gN bN where stN: "((exec_pass ?P) ^^ ?n) (g0, b0) = (gN, bN)"
    by (cases "((exec_pass ?P) ^^ ?n) (g0, b0)")
  obtain g' b' where st': "exec_passes ?post (gN, bN) = (g', b')"
    by (cases "exec_passes ?post (gN, bN)")
  have sp: "step_passes (settings s) wd ht dt = ?pre @ replicate ?n ?P @ ?post"
    by (simp add: step_passes_eq)
  have "exec_passes (?pre @ replicate ?n ?P @ ?post) (gl s, b)
          = exec_passes ?post (exec_passes (replicate ?n ?P) (exec_passes ?pre (gl s, b)))"
    by (simp only: exec_passes_append[of ?pre] exec_passes_append[of "replicate ?n ?P"])
  also have "\<dots> = (g', b')"
    by (simp only: st0 exec_passes_replicate stN st')
  finally have run: "exec_passes (step_passes (settings s) wd ht dt) (gl s, b) = (g', b')"
    unfolding sp .
  have step: "step s dt = Inr (s\<lparr>gl := g', bufs := Some b'\<rparr>)"
    by (simp add: step_def assms(2) Let_def wh run)
  have ok0: "buffers_ok g0 wd ht b0"
    using exec_passes_ok[of ?pre "(gl s, b)" wd ht] ok st0 by simp
  have oki: "buffers_ok gi wd ht bi"
    using exec_passes_ok[of "replicate i ?P" "(g0, b0)" wd ht] ok0 sti by (simp add: exec_passes_replicate)
  have okN: "buffers_ok gN wd ht bN"
    using exec_passes_ok[of "replicate ?n ?P" "(g0, b0)" wd ht] ok0 stN by (simp add: exec_passes_replicate)
  note f = buffers_okD[OF oki]
  note n = tex_neq_pressure_write[OF oki]
  have gj: "gj = fst (exec_pass ?P (gi, bi))" and bj: "bj = snd (exec_pass ?P (gi, bi))"
    using stj by simp_all
  have p0: "pressure_at g0 b0 x y = pressure_at (gl s) b x y"
    using passes_keep_pressure[of "(gl s, b)" wd ht ?pre] ok st0 by simp
  have pN: "pressure_at g' b' x y = pressure_at gN bN x y"
    using passes_keep_pressure[of "(gN, bN)" wd ht ?post] okN st' by simp
  have pj: "pressure_at gj bj x y
         = (pressure_at gi bi (x - 1) y + pressure_at gi bi (x + 1) y
            + pressure_at gi bi x (y - 1) + pressure_at gi bi x (y + 1) - divergence_at gi bi x y) / 4"
    unfolding gj bj pressure_pass(2)[OF oki pos] cl by simp
  have sw: "read_of (pressure bj) = write_of (pressure bi) \<and> write_of (pressure bj) = read_of (pressure bi)
      \<and> divergence bj = divergence bi"
    unfolding bj by simp
  have old: "texel_at gj (write_of (pressure bj)) x y = texel_at gi (read_of (pressure bi)) x y"
    unfolding gj bj by (simp add: texel_at_draw_other[OF f(4) n(3)])
  have dv: "divergence_at gj bj x y = divergence_at gi bi x y"
    unfolding gj bj by (simp add: divergence_at_def texel_at_draw_other[OF f(4) n(4)])
  have d18: "pressureIters default_settings = 18" by (simp add: default_settings_def)
  let ?s' = "s\<lparr>gl := g', bufs := Some b'\<rparr>"
  have all: "step s dt = Inr ?s' \<and> bufs ?s' = Some b'
        \<and> exec_passes ?pre (gl s, b) = (g0, b0)
        \<and> ((exec_pass ?P) ^^ i) (g0, b0) = (gi, bi)
        \<and> exec_pass ?P (gi, bi) = (gj, bj)
        \<and> ((exec_pass ?P) ^^ ?n) (g0, b0) = (gN, bN)
        \<and> exec_passes ?post (gN, bN) = (gl ?s', b')
        \<and> pressure_at g0 b0 x y = pressure_at (gl s) b x y
        \<and> read_of (pressure bj) = write_of (pressure bi) \<and> write_of (pressure bj) = read_of (pressure bi)
        \<and> pressure_at gj bj x y
            = (pressure_at gi bi (x - 1) y + pressure_at gi bi (x + 1) y
               + pressure_at gi bi x (y - 1) + pressure_at gi bi x (y + 1) - divergence_at gi bi x y) / 4
        \<and> texel_at gj (write_of (pressure bj)) x y = texel_at gi (read_of (pressure bi)) x y
        \<and> divergence bj = divergence bi \<and> divergence_at gj bj x y = divergence_at gi bi x y
        \<and> pressure_at (gl ?s') b' x y = pressure_at gN bN x y"
    using step st0 sti stj stN st' p0 sw pj old dv pN by simp
  have "\<exists>s' b' g0 b0 gi bi gj bj gN bN.
          step s dt = Inr s' \<and> bufs s' = Some b'
        \<and> exec_passes ?pre (gl s, b) = (g0, b0)
        \<and> ((exec_pass ?P) ^^ i) (g0, b0) = (gi, bi)
        \<and> exec_pass ?P (gi, bi) = (gj, bj)
        \<and> ((exec_pass ?P) ^^ ?n) (g0, b0) = (gN, bN)
        \<and> exec_passes ?post (gN, bN) = (gl s', b')
        \<and> pressure_at g0 b0 x y = pressure_at (gl s) b x y
        \<and> read_of (pressure bj) = write_of (pressure bi) \<and> write_of (pressure bj) = read_of (pressure bi)
        \<and> pressure_at gj bj x y
            = (pressure_at gi bi (x - 1) y + pressure_at gi bi (x + 1) y
               + pressure_at gi bi x (y - 1) + pressure_at gi bi x (y + 1) - divergence_at gi bi x y) / 4
        \<and> texel_at gj (write_of (pressure bj)) x y = texel_at gi (read_of (pressure bi)) x y
        \<and> divergence bj = divergence bi \<and> divergence_at gj bj x y = divergence_at gi bi x y
        \<and> pressure_at (gl s') b' x y = pressure_at gN bN x y"
    by (rule exI[of _ ?s'], rule exI[of _ b'], rule exI[of _ g0], rule exI[of _ b0],
        rule exI[of _ gi], rule exI[of _ bi], rule exI[of _ gj], rule exI[of _ bj],
        rule exI[of _ gN], rule exI[of _ bN]) (rule all)
  with d18 show ?thesis by (rule conjI)
qed

text \<open>
  On the \<open>16 \<times> 16\<close> example in motion, stepped with \<^verbatim>\<open>dt = 0\<close> and one pressure
  iteration: at cell \<open>(5, 5)\<close> the neighbours hold \<open>14\<close>, \<open>16\<close>, \<open>13\<close> and \<open>17\<close>, the
  divergence is \<open>1.996\<close>, and the step leaves the pressure \<open>14.501\<close>.
\<close>

theorem pressure_projection_is_jacobi_witness:
  "\<exists>s0 b s' b' g0 b0 g1 b1.
      FluidSim small_canvas 1 one_sweep_options = Inr s0
    \<and> wf (with_flow s0) \<and> bufs (with_flow s0) = Some b
    \<and> sim_w (with_flow s0) = Some 16 \<and> sim_h (with_flow s0) = Some 16
    \<and> (0::nat) < nat (pressureIters (settings (with_flow s0)))
    \<and> step (with_flow s0) 0 = Inr s' \<and> bufs s' = Some b'
    \<and> exec_passes [DrawCurl (1 / 16, 1 / 16), DrawAdvect Velocity (1 / 16, 1 / 16) (16, 16) 0 (998 / 1000),
                    DrawDivergence (1 / 16, 1 / 16)] (gl (with_flow s0), b) = (g0, b0)
    \<and> exec_pass (DrawPressure (1 / 16, 1 / 16)) (g0, b0) = (g1, b1)
    \<and> pressure_at g0 b0 4 5 = 14 \<and> pressure_at g0 b0 6 5 = 16
    \<and> pressure_at g0 b0 5 4 = 13 \<and> pressure_at g0 b0 5 6 = 17
    \<and> divergence_at g0 b0 5 5 = 499 / 250
    \<and> read_of (pressure b1) = write_of (pressure b0)
    \<and> pressure_at g1 b1 5 5 = (14 + 16 + 13 + 17 - 499 / 250) / 4
    \<and> pressure_at (gl s') b' 5 5 = 14501 / 1000"
proof -
  from flow_prelude obtain s0 b g0 b0 where s0: "FluidSim small_canvas 1 one_sweep_options = Inr s0"
    and bf: "bufs (with_flow s0) = Some b" and w: "wf (with_flow s0)"
    and sw: "sim_w (with_flow s0) = Some 16" and sh: "sim_h (with_flow s0) = Some 16"
    and set: "pressureIters (settings (with_flow s0)) = 1" "vorticity (settings (with_flow s0)) = 0"
      "velDissipation (settings (with_flow s0)) = 998 / 1000"
      "dyeDissipation (settings (with_flow s0)) = 995 / 1000"
    and run: "exec_passes [DrawCurl (1 / 16, 1 / 16), DrawAdvect Velocity (1 / 16, 1 / 16) (16, 16) 0 (998 / 1000),
                     DrawDivergence (1 / 16, 1 / 16)] (gl (with_flow s0), b) = (g0, b0)"
    and p: "\<forall>x y. pressure_at g0 b0 x y = real_of_int (max 0 (min 15 x) + 2 * max 0 (min 15 y))"
    and d: "\<forall>x y. 1 \<le> x \<and> x \<le> 14 \<and> 1 \<le> y \<and> y \<le> 14 \<longrightarrow> divergence_at g0 b0 x y = 499 / 250"
    by blast
  let ?s = "with_flow s0"
  let ?T = "(1 / real_of_int 16, 1 / real_of_int 16)"
  let ?R = "(real_of_int 16, real_of_int 16)"
  let ?P = "DrawPressure ?T"
  obtain g1 b1 where st1: "exec_pass (DrawPressure (1 / 16, 1 / 16)) (g0, b0) = (g1, b1)"
    by (cases "exec_pass (DrawPressure (1 / 16, 1 / 16)) (g0, b0)")
  have h: "(0::nat) < nat (pressureIters (settings ?s))" by (simp add: set)
  have r: "(0::int) \<le> 5" "(5::int) < 16" by simp_all
  from pressure_projection_is_jacobi[OF w bf sw sh r r h, of 0]
  obtain s' b' g0' b0' gi bi gj bj gN bN where
    t1: "step ?s 0 = Inr s'" "bufs s' = Some b'"
    and t2: "exec_passes
            ([DrawCurl ?T]
             @ (if vorticity (settings ?s) > 0 then [DrawVorticity ?T 0 (vorticity (settings ?s))] else [])
             @ [DrawAdvect Velocity ?T ?R 0 (velDissipation (settings ?s)), DrawDivergence ?T]) (gl ?s, b)
            = (g0', b0')"
    and t3: "((exec_pass ?P) ^^ 0) (g0', b0') = (gi, bi)"
    and t4: "exec_pass ?P (gi, bi) = (gj, bj)"
    and t5: "((exec_pass ?P) ^^ nat (pressureIters (settings ?s))) (g0', b0') = (gN, bN)"
    and t6: "read_of (pressure bj) = write_of (pressure bi)"
    and t7: "pressure_at gj bj 5 5
            = (pressure_at gi bi (5 - 1) 5 + pressure_at gi bi (5 + 1) 5
               + pressure_at gi bi 5 (5 - 1) + pressure_at gi bi 5 (5 + 1) - divergence_at gi bi 5 5) / 4"
    and t8: "pressure_at (gl s') b' 5 5 = pressure_at gN bN 5 5"
    by blast
  have e0: "g0' = g0 \<and> b0' = b0" using t2 run by (simp add: set)
  have ei: "gi = g0 \<and> bi = b0" using t3 e0 by simp
  have ej: "gj = g1 \<and> bj = b1" using t4 st1 ei by (simp del: exec_pass.simps)
  have eN: "gN = g1 \<and> bN = b1" using t5 st1 e0 by (simp add: set del: exec_pass.simps)
  have v: "pressure_at g0 b0 4 5 = 14" "pressure_at g0 b0 6 5 = 16"
    "pressure_at g0 b0 5 4 = 13" "pressure_at g0 b0 5 6 = 17" "divergence_at g0 b0 5 5 = 499 / 250"
    using p d by simp_all
  have pj: "pressure_at g1 b1 5 5 = (14 + 16 + 13 + 17 - 499 / 250) / 4"
    using t7 v by (simp add: ej ei)
  have pN: "pressure_at (gl s') b' 5 5 = 14501 / 1000"
    using t8 pj by (simp add: eN)
  have t6': "read_of (pressure b1) = write_of (pressure b0)" using t6 by (simp add: ej ei)
  have all: "FluidSim small_canvas 1 one_sweep_options = Inr s0
    \<and> wf ?s \<and> bufs ?s = Some b \<and> sim_w ?s = Some 16 \<and> sim_h ?s = Some 16
    \<and> (0::nat) < nat (pressureIters (settings ?s))
    \<and> step ?s 0 = Inr s' \<and> bufs s' = Some b'
    \<and> exec_passes [DrawCurl (1 / 16, 1 / 16), DrawAdvect Velocity (1 / 16, 1 / 16) (16, 16) 0 (998 / 1000),
                    DrawDivergence (1 / 16, 1 / 16)] (gl ?s, b) = (g0, b0)
    \<and> exec_pass (DrawPressure (1 / 16, 1 / 16)) (g0, b0) = (g1, b1)
    \<and> pressure_at g0 b0 4 5 = 14 \<and> pressure_at g0 b0 6 5 = 16
    \<and> pressure_at g0 b0 5 4 = 13 \<and> pressure_at g0 b0 5 6 = 17
    \<and> divergence_at g0 b0 5 5 = 499 / 250
    \<and> read_of (pressure b1) = write_of (pressure b0)
    \<and> pressure_at g1 b1 5 5 = (14 + 16 + 13 + 17 - 499 / 250) / 4
    \<and> pressure_at (gl s') b' 5 5 = 14501 / 1000"
    using s0 w bf sw sh h t1 run st1 v t6' pj pN by (simp only: simp_thms)
  show ?thesis
    by (rule exI[of _ s0], rule exI[of _ b], rule exI[of _ s'], rule exI[of _ b'],
        rule exI[of _ g0], rule exI[of _ b0], rule exI[of _ g1], rule exI[of _ b1]) (rule all)
qed




section \<open>Gradient subtraction\<close>

text \<open>
  C6. On a simulation between two calls \<^verbatim>\<open>step(dt)\<close> succeeds. When the passes up to the
  last pressure pass have left the state \<open>(g5, b5)\<close>, the gradient pass writes into
  \<^verbatim>\<open>velocity.write\<close>, at every cell \<open>(x, y)\<close> of the grid,
  \<open>vel(x,y) - 0.5 \<sqdot> (p(x+1,y) - p(x-1,y), p(x,y+1) - p(x,y-1))\<close>, with \<open>vel\<close> read from
  \<^verbatim>\<open>velocity.read\<close> and \<open>p\<close> from \<^verbatim>\<open>pressure.read\<close> (neighbours outside the grid clamp
  to the edge), and then swaps the velocity pair; the pressure is left as it was. The dye
  advection that follows leaves the velocity pair as it is, so this is the velocity after
  the step.
\<close>

theorem gradient_subtraction:
  assumes "wf s" "bufs s = Some b" "sim_w s = Some wd" "sim_h s = Some ht"
    and "0 \<le> x" "x < wd" "0 \<le> y" "y < ht"
  shows "\<exists>s' b' g5 b5 g6 b6.
          step s dt = Inr s' \<and> bufs s' = Some b'
        \<and> exec_passes
            ([DrawCurl (1 / real_of_int wd, 1 / real_of_int ht)]
             @ (if vorticity (settings s) > 0
                then [DrawVorticity (1 / real_of_int wd, 1 / real_of_int ht) dt (vorticity (settings s))] else [])
             @ [DrawAdvect Velocity (1 / real_of_int wd, 1 / real_of_int ht) (real_of_int wd, real_of_int ht) dt
                  (velDissipation (settings s)),
                DrawDivergence (1 / real_of_int wd, 1 / real_of_int ht)]
             @ replicate (nat (pressureIters (settings s))) (DrawPressure (1 / real_of_int wd, 1 / real_of_int ht)))
            (gl s, b) = (g5, b5)
        \<and> exec_pass (DrawGradient (1 / real_of_int wd, 1 / real_of_int ht)) (g5, b5) = (g6, b6)
        \<and> exec_pass (DrawAdvect Dye (1 / real_of_int wd, 1 / real_of_int ht) (real_of_int wd, real_of_int ht) dt
               (dyeDissipation (settings s))) (g6, b6) = (gl s', b')
        \<and> read_of (velocity b6) = write_of (velocity b5) \<and> write_of (velocity b6) = read_of (velocity b5)
        \<and> velocity_at g6 b6 x y
            = sub2 (velocity_at g5 b5 x y)
                (scale2 (1 / 2) (pressure_at g5 b5 (x + 1) y - pressure_at g5 b5 (x - 1) y,
                                 pressure_at g5 b5 x (y + 1) - pressure_at g5 b5 x (y - 1)))
        \<and> texel_at g6 (write_of (velocity b6)) x y = texel_at g5 (read_of (velocity b5)) x y
        \<and> pressure b6 = pressure b5 \<and> pressure_at g6 b6 x y = pressure_at g5 b5 x y
        \<and> velocity b' = velocity b6 \<and> velocity_at (gl s') b' x y = velocity_at g6 b6 x y
        \<and> texel_at (gl s') (write_of (velocity b')) x y = texel_at g6 (write_of (velocity b6)) x y"
proof -
  let ?T = "(1 / real_of_int wd, 1 / real_of_int ht)"
  let ?R = "(real_of_int wd, real_of_int ht)"
  let ?n = "nat (pressureIters (settings s))"
  let ?G = "DrawGradient ?T"
  let ?A = "DrawAdvect Dye ?T ?R dt (dyeDissipation (settings s))"
  let ?pre = "[DrawCurl ?T]
     @ (if vorticity (settings s) > 0 then [DrawVorticity ?T dt (vorticity (settings s))] else [])
     @ [DrawAdvect Velocity ?T ?R dt (velDissipation (settings s)), DrawDivergence ?T]
     @ replicate ?n (DrawPressure ?T)"
  from assms(1-4) have ok: "buffers_ok (gl s) wd ht b" and pos: "0 < wd" "0 < ht"
    by (simp_all add: wf_def)
  have wh: "fbo_w (read_of (velocity b)) = wd" "fbo_h (read_of (velocity b)) = ht"
    using buffers_okD(1)[OF ok] by (simp_all add: fbo_ok_def)
  have cl: "max 0 (min (wd - 1) x) = x" "max 0 (min (ht - 1) y) = y"
    using assms(5-8) by simp_all
  obtain g5 b5 where st5: "exec_passes ?pre (gl s, b) = (g5, b5)"
    by (cases "exec_passes ?pre (gl s, b)")
  obtain g6 b6 where st6: "exec_pass ?G (g5, b5) = (g6, b6)"
    by (cases "exec_pass ?G (g5, b5)")
  obtain g' b' where st': "exec_pass ?A (g6, b6) = (g', b')"
    by (cases "exec_pass ?A (g6, b6)")
  have sp: "step_passes (settings s) wd ht dt = ?pre @ [?G, ?A]"
    by (simp add: step_passes_eq)
  have "exec_passes (?pre @ [?G, ?A]) (gl s, b) = exec_pass ?A (exec_pass ?G (exec_passes ?pre (gl s, b)))"
    by (simp only: exec_passes_append[of ?pre] exec_passes_cons[of ?G] exec_passes_single)
  also have "\<dots> = (g', b')"
    by (simp only: st5 st6 st')
  finally have run: "exec_passes (step_passes (settings s) wd ht dt) (gl s, b) = (g', b')"
    unfolding sp .
  have step: "step s dt = Inr (s\<lparr>gl := g', bufs := Some b'\<rparr>)"
    by (simp add: step_def assms(2) Let_def wh run)
  have ok5: "buffers_ok g5 wd ht b5"
    using exec_passes_ok[of ?pre "(gl s, b)" wd ht] ok st5 by simp
  note f = buffers_okD[OF ok5]
  note n = tex_neq_velocity_write[OF ok5]
  have g6: "g6 = fst (exec_pass ?G (g5, b5))" and b6: "b6 = snd (exec_pass ?G (g5, b5))"
    using st6 by simp_all
  have ok6: "buffers_ok g6 wd ht b6"
    unfolding g6 b6 using ok5 by (simp only: exec_pass_ok)
  have g': "g' = fst (exec_pass ?A (g6, b6))" and b': "b' = snd (exec_pass ?A (g6, b6))"
    using st' by simp_all
  have v6: "velocity_at g6 b6 x y
         = sub2 (velocity_at g5 b5 x y)
             (scale2 (1 / 2) (pressure_at g5 b5 (x + 1) y - pressure_at g5 b5 (x - 1) y,
                              pressure_at g5 b5 x (y + 1) - pressure_at g5 b5 x (y - 1)))"
    unfolding g6 b6 gradient_pass[OF ok5 pos] cl by simp
  have sw: "read_of (velocity b6) = write_of (velocity b5) \<and> write_of (velocity b6) = read_of (velocity b5)
      \<and> pressure b6 = pressure b5"
    unfolding b6 by simp
  have old: "texel_at g6 (write_of (velocity b6)) x y = texel_at g5 (read_of (velocity b5)) x y"
    unfolding g6 b6 by (simp add: texel_at_draw_other[OF f(2) n(1)])
  have p6: "pressure_at g6 b6 x y = pressure_at g5 b5 x y"
    unfolding g6 b6 by (simp add: pressure_at_def texel_at_draw_other[OF f(2) n(2)])
  have k: "?A = DrawCurl ?T \<or> ?A = DrawDivergence ?T \<or> ?A = DrawPressure ?T
            \<or> ?A = DrawAdvect Dye ?T ?R dt (dyeDissipation (settings s))" by simp
  have v': "velocity b' = velocity b6" "velocity_at g' b' x y = velocity_at g6 b6 x y"
    "texel_at g' (write_of (velocity b')) x y = texel_at g6 (write_of (velocity b6)) x y"
    unfolding g' b' using pass_keeps_velocity[OF ok6 k] by simp_all
  let ?s' = "s\<lparr>gl := g', bufs := Some b'\<rparr>"
  have all: "step s dt = Inr ?s' \<and> bufs ?s' = Some b'
        \<and> exec_passes ?pre (gl s, b) = (g5, b5)
        \<and> exec_pass ?G (g5, b5) = (g6, b6)
        \<and> exec_pass ?A (g6, b6) = (gl ?s', b')
        \<and> read_of (velocity b6) = write_of (velocity b5) \<and> write_of (velocity b6) = read_of (velocity b5)
        \<and> velocity_at g6 b6 x y
            = sub2 (velocity_at g5 b5 x y)
                (scale2 (1 / 2) (pressure_at g5 b5 (x + 1) y - pressure_at g5 b5 (x - 1) y,
                                 pressure_at g5 b5 x (y + 1) - pressure_at g5 b5 x (y - 1)))
        \<and> texel_at g6 (write_of (velocity b6)) x y = texel_at g5 (read_of (velocity b5)) x y
        \<and> pressure b6 = pressure b5 \<and> pressure_at g6 b6 x y = pressure_at g5 b5 x y
        \<and> velocity b' = velocity b6 \<and> velocity_at (gl ?s') b' x y = velocity_at g6 b6 x y
        \<and> texel_at (gl ?s') (write_of (velocity b')) x y = texel_at g6 (write_of (velocity b6)) x y"
    using step st5 st6 st' sw v6 old p6 v' by simp
  show ?thesis
    by (rule exI[of _ ?s'], rule exI[of _ b'], rule exI[of _ g5], rule exI[of _ b5],
        rule exI[of _ g6], rule exI[of _ b6]) (rule all)
qed

text \<open>
  On the \<open>16 \<times> 16\<close> example in motion, stepped with \<^verbatim>\<open>dt = 0\<close> and one pressure
  iteration: before the gradient pass cell \<open>(5, 5)\<close> has the velocity \<open>(14.97, 4.99)\<close> and
  its neighbours the pressures \<open>15.501\<close>, \<open>13.501\<close>, \<open>16.501\<close> and \<open>12.501\<close>; the step
  leaves the velocity \<open>(13.97, 2.99)\<close>.
\<close>

theorem gradient_subtraction_witness:
  "\<exists>s0 b s' b' g5 b5 g6 b6.
      FluidSim small_canvas 1 one_sweep_options = Inr s0
    \<and> wf (with_flow s0) \<and> bufs (with_flow s0) = Some b
    \<and> sim_w (with_flow s0) = Some 16 \<and> sim_h (with_flow s0) = Some 16
    \<and> step (with_flow s0) 0 = Inr s' \<and> bufs s' = Some b'
    \<and> exec_passes [DrawCurl (1 / 16, 1 / 16), DrawAdvect Velocity (1 / 16, 1 / 16) (16, 16) 0 (998 / 1000),
                    DrawDivergence (1 / 16, 1 / 16), DrawPressure (1 / 16, 1 / 16)] (gl (with_flow s0), b) = (g5, b5)
    \<and> exec_pass (DrawGradient (1 / 16, 1 / 16)) (g5, b5) = (g6, b6)
    \<and> velocity_at g5 b5 5 5 = (1497 / 100, 499 / 100)
    \<and> pressure_at g5 b5 6 5 = 15501 / 1000 \<and> pressure_at g5 b5 4 5 = 13501 / 1000
    \<and> pressure_at g5 b5 5 6 = 16501 / 1000 \<and> pressure_at g5 b5 5 4 = 12501 / 1000
    \<and> read_of (velocity b6) = write_of (velocity b5)
    \<and> velocity_at g6 b6 5 5
         = sub2 (1497 / 100, 499 / 100)
             (scale2 (1 / 2) (15501 / 1000 - 13501 / 1000, 16501 / 1000 - 12501 / 1000))
    \<and> velocity_at (gl s') b' 5 5 = (1397 / 100, 299 / 100)"
proof -
  from flow_prelude obtain s0 b g0 b0 where s0: "FluidSim small_canvas 1 one_sweep_options = Inr s0"
    and bf: "bufs (with_flow s0) = Some b" and w: "wf (with_flow s0)"
    and sw: "sim_w (with_flow s0) = Some 16" and sh: "sim_h (with_flow s0) = Some 16"
    and set: "pressureIters (settings (with_flow s0)) = 1" "vorticity (settings (with_flow s0)) = 0"
      "velDissipation (settings (with_flow s0)) = 998 / 1000"
      "dyeDissipation (settings (with_flow s0)) = 995 / 1000"
    and run: "exec_passes [DrawCurl (1 / 16, 1 / 16), DrawAdvect Velocity (1 / 16, 1 / 16) (16, 16) 0 (998 / 1000),
                     DrawDivergence (1 / 16, 1 / 16)] (gl (with_flow s0), b) = (g0, b0)"
    and ok0: "buffers_ok g0 16 16 b0"
    and v0: "\<forall>x y. velocity_at g0 b0 x y
           = (real_of_int (max 0 (min 15 x) + 2 * max 0 (min 15 y)) * (998 / 1000),
              real_of_int (max 0 (min 15 y)) * (998 / 1000))"
    and p0: "\<forall>x y. pressure_at g0 b0 x y = real_of_int (max 0 (min 15 x) + 2 * max 0 (min 15 y))"
    and d0: "\<forall>x y. 1 \<le> x \<and> x \<le> 14 \<and> 1 \<le> y \<and> y \<le> 14 \<longrightarrow> divergence_at g0 b0 x y = 499 / 250"
    by blast
  let ?s = "with_flow s0"
  let ?T = "(1 / real_of_int 16, 1 / real_of_int 16)"
  let ?R = "(real_of_int 16, real_of_int 16)"
  let ?P = "DrawPressure ?T"
  have pos16: "(0::int) < 16" by simp
  obtain g5 b5 where st5: "exec_pass ?P (g0, b0) = (g5, b5)"
    by (cases "exec_pass ?P (g0, b0)")
  have g5: "g5 = fst (exec_pass ?P (g0, b0))" and b5: "b5 = snd (exec_pass ?P (g0, b0))"
    by (simp_all only: st5 fst_conv snd_conv)
  have kP: "?P = DrawCurl ?T \<or> ?P = DrawDivergence ?T \<or> ?P = DrawPressure ?T
            \<or> ?P = DrawAdvect Dye ?T ?R 0 0" by simp
  have v5: "velocity_at g5 b5 x y = velocity_at g0 b0 x y" for x y
    unfolding g5 b5 by (rule pass_keeps_velocity(2)[OF ok0 kP])
  have p5: "pressure_at g5 b5 x y
         = (pressure_at g0 b0 (max 0 (min (16 - 1) x) - 1) (max 0 (min (16 - 1) y))
            + pressure_at g0 b0 (max 0 (min (16 - 1) x) + 1) (max 0 (min (16 - 1) y))
            + pressure_at g0 b0 (max 0 (min (16 - 1) x)) (max 0 (min (16 - 1) y) - 1)
            + pressure_at g0 b0 (max 0 (min (16 - 1) x)) (max 0 (min (16 - 1) y) + 1)
            - divergence_at g0 b0 x y) / 4" for x y
    unfolding g5 b5 by (rule pressure_pass(2)[OF ok0 pos16 pos16])
  have dv: "divergence_at g0 b0 6 5 = 499 / 250" "divergence_at g0 b0 4 5 = 499 / 250"
    "divergence_at g0 b0 5 6 = 499 / 250" "divergence_at g0 b0 5 4 = 499 / 250"
    using d0 by simp_all
  have vals: "velocity_at g5 b5 5 5 = (1497 / 100, 499 / 100)"
    "pressure_at g5 b5 6 5 = 15501 / 1000" "pressure_at g5 b5 4 5 = 13501 / 1000"
    "pressure_at g5 b5 5 6 = 16501 / 1000" "pressure_at g5 b5 5 4 = 12501 / 1000"
    using v0 p0 by (simp_all add: v5 p5 dv)
  have run5: "exec_passes [DrawCurl (1 / 16, 1 / 16), DrawAdvect Velocity (1 / 16, 1 / 16) (16, 16) 0 (998 / 1000),
                    DrawDivergence (1 / 16, 1 / 16), DrawPressure (1 / 16, 1 / 16)] (gl ?s, b) = (g5, b5)"
  proof -
    have "exec_passes ([DrawCurl (1 / 16, 1 / 16), DrawAdvect Velocity (1 / 16, 1 / 16) (16, 16) 0 (998 / 1000),
                    DrawDivergence (1 / 16, 1 / 16)] @ [DrawPressure (1 / 16, 1 / 16)]) (gl ?s, b)
          = exec_pass (DrawPressure (1 / 16, 1 / 16)) (g0, b0)"
      by (simp only: exec_passes_append run exec_passes_single)
    with st5 show ?thesis by (simp del: exec_pass.simps)
  qed
  obtain g6 b6 where st6: "exec_pass (DrawGradient (1 / 16, 1 / 16)) (g5, b5) = (g6, b6)"
    by (cases "exec_pass (DrawGradient (1 / 16, 1 / 16)) (g5, b5)")
  have r: "(0::int) \<le> 5" "(5::int) < 16" by simp_all
  from gradient_subtraction[OF w bf sw sh r r, of 0]
  obtain s' b' g5' b5' g6' b6' where
    t1: "step ?s 0 = Inr s'" "bufs s' = Some b'"
    and t2: "exec_passes
            ([DrawCurl ?T]
             @ (if vorticity (settings ?s) > 0 then [DrawVorticity ?T 0 (vorticity (settings ?s))] else [])
             @ [DrawAdvect Velocity ?T ?R 0 (velDissipation (settings ?s)), DrawDivergence ?T]
             @ replicate (nat (pressureIters (settings ?s))) (DrawPressure ?T)) (gl ?s, b)
            = (g5', b5')"
    and t3: "exec_pass (DrawGradient ?T) (g5', b5') = (g6', b6')"
    and t4: "read_of (velocity b6') = write_of (velocity b5')"
    and t5: "velocity_at g6' b6' 5 5
            = sub2 (velocity_at g5' b5' 5 5)
                (scale2 (1 / 2) (pressure_at g5' b5' (5 + 1) 5 - pressure_at g5' b5' (5 - 1) 5,
                                 pressure_at g5' b5' 5 (5 + 1) - pressure_at g5' b5' 5 (5 - 1)))"
    and t6: "velocity_at (gl s') b' 5 5 = velocity_at g6' b6' 5 5"
    by blast
  have e5: "g5' = g5 \<and> b5' = b5" using t2 run5 by (simp add: set)
  have e6: "g6' = g6 \<and> b6' = b6" using t3 st6 e5 by (simp del: exec_pass.simps)
  have v6: "velocity_at g6 b6 5 5
         = sub2 (1497 / 100, 499 / 100)
             (scale2 (1 / 2) (15501 / 1000 - 13501 / 1000, 16501 / 1000 - 12501 / 1000))"
    using t5 vals by (simp add: e5 e6)
  have v': "velocity_at (gl s') b' 5 5 = (1397 / 100, 299 / 100)"
    using t6 v6 by (simp add: e6)
  have t4': "read_of (velocity b6) = write_of (velocity b5)" using t4 by (simp add: e5 e6)
  have all: "FluidSim small_canvas 1 one_sweep_options = Inr s0
    \<and> wf ?s \<and> bufs ?s = Some b \<and> sim_w ?s = Some 16 \<and> sim_h ?s = Some 16
    \<and> step ?s 0 = Inr s' \<and> bufs s' = Some b'
    \<and> exec_passes [DrawCurl (1 / 16, 1 / 16), DrawAdvect Velocity (1 / 16, 1 / 16) (16, 16) 0 (998 / 1000),
                    DrawDivergence (1 / 16, 1 / 16), DrawPressure (1 / 16, 1 / 16)] (gl ?s, b) = (g5, b5)
    \<and> exec_pass (DrawGradient (1 / 16, 1 / 16)) (g5, b5) = (g6, b6)
    \<and> velocity_at g5 b5 5 5 = (1497 / 100, 499 / 100)
    \<and> pressure_at g5 b5 6 5 = 15501 / 1000 \<and> pressure_at g5 b5 4 5 = 13501 / 1000
    \<and> pressure_at g5 b5 5 6 = 16501 / 1000 \<and> pressure_at g5 b5 5 4 = 12501 / 1000
    \<and> read_of (velocity b6) = write_of (velocity b5)
    \<and> velocity_at g6 b6 5 5
         = sub2 (1497 / 100, 499 / 100)
             (scale2 (1 / 2) (15501 / 1000 - 13501 / 1000, 16501 / 1000 - 12501 / 1000))
    \<and> velocity_at (gl s') b' 5 5 = (1397 / 100, 299 / 100)"
    using s0 w bf sw sh t1 run5 st6 vals t4' v6 v' by (simp only: simp_thms)
  show ?thesis
    by (rule exI[of _ s0], rule exI[of _ b], rule exI[of _ s'], rule exI[of _ b'],
        rule exI[of _ g5], rule exI[of _ b5], rule exI[of _ g6], rule exI[of _ b6]) (rule all)
qed




section \<open>Dye under zero velocity\<close>

text \<open>
  C4, as amended. If the velocity is zero at every cell and the pressure field is uniform
  (the same value \<open>c\<close> at every cell, as after construction or \<^verbatim>\<open>reset\<close>), then for every
  \<^verbatim>\<open>dt\<close> the step succeeds and maps the dye cell-wise to
  \<open>dye_before \<times> dyeDissipation\<close>.
\<close>

theorem zero_velocity_step_scales_dye:
  assumes "wf s" "bufs s = Some b" "sim_w s = Some wd" "sim_h s = Some ht"
    and "\<forall>i j. 0 \<le> i \<and> i < wd \<and> 0 \<le> j \<and> j < ht \<longrightarrow> velocity_at (gl s) b i j = (0, 0)"
    and "\<forall>i j. 0 \<le> i \<and> i < wd \<and> 0 \<le> j \<and> j < ht \<longrightarrow> pressure_at (gl s) b i j = c"
    and "0 \<le> x" "x < wd" "0 \<le> y" "y < ht"
  shows "\<exists>s' b'. step s dt = Inr s' \<and> bufs s' = Some b'
           \<and> dye_at (gl s') b' x y = scale4 (dye_at (gl s) b x y) (dyeDissipation (settings s))"
proof -
  from assms(1-4) have ok: "buffers_ok (gl s) wd ht b" and pos: "0 < wd" "0 < ht"
    by (simp_all add: wf_def)
  have st: "still wd ht (\<lambda>x y. c) (dye_at (gl s) b) (gl s, b)"
    by (rule still_from_cells[OF ok pos assms(5,6)])
  have cl: "max 0 (min (wd - 1) x) = x" "max 0 (min (ht - 1) y) = y"
    using assms(7-10) by simp_all
  from step_still[OF assms(2) st pos, of dt] obtain g7 b7 where
    r: "step s dt = Inr (s\<lparr>gl := g7, bufs := Some b7\<rparr>)"
    and d: "dye_at g7 b7 x y = scale4 (dye_at (gl s) b x y) (dyeDissipation (settings s))"
    unfolding jacobi0_const by (auto simp: cl bilerp_cell_fun[OF pos])
  then show ?thesis by auto
qed

theorem zero_velocity_step_scales_dye_witness:
  "\<exists>s0 s b s' b'. FluidSim example_canvas 1 no_options = Inr s0
     \<and> splat s0 (1 / 2, 1 / 2) (1, 1 / 2, Some (1 / 4)) (15 / 1000) (JString ''dye'') = Inr s
     \<and> wf s \<and> bufs s = Some b \<and> sim_w s = Some 600 \<and> sim_h s = Some 450
     \<and> velocity_at (gl s) b 300 225 = (0, 0) \<and> pressure_at (gl s) b 300 225 = 0
     \<and> step s (16 / 1000) = Inr s' \<and> bufs s' = Some b'
     \<and> dye_at (gl s') b' 300 225 = scale4 (dye_at (gl s) b 300 225) (dyeDissipation (settings s))"
proof -
  from example_fresh obtain s0 b0 where s0: "FluidSim example_canvas 1 no_options = Inr s0"
    "bufs s0 = Some b0" "wf s0" "sim_w s0 = Some 600" "sim_h s0 = Some 450"
    "buffers_ok (gl s0) 600 450 b0"
    "still 600 450 (\<lambda>x y. 0) (\<lambda>x y. (0, 0, 0, 0)) (gl s0, b0)" by blast
  have nv: "JString ''dye'' \<noteq> JString ''velocity''" by simp
  from splat_dye[OF s0(2,6) _ _ nv, of "(1 / 2, 1 / 2)" "(1, 1 / 2, Some (1 / 4))" "15 / 1000"]
  obtain g1 where
    r: "splat s0 (1 / 2, 1 / 2) (1, 1 / 2, Some (1 / 4)) (15 / 1000) (JString ''dye'')
          = Inr (s0\<lparr>gl := g1, bufs := Some (b0\<lparr>dye := swap (dye b0)\<rparr>)\<rparr>)"
    and ok1: "buffers_ok g1 600 450 (b0\<lparr>dye := swap (dye b0)\<rparr>)"
    and v: "\<And>x y. texel_at g1 (read_of (velocity b0)) x y = texel_at (gl s0) (read_of (velocity b0)) x y"
    and p: "\<And>x y. texel_at g1 (read_of (pressure b0)) x y = texel_at (gl s0) (read_of (pressure b0)) x y"
    by force
  let ?s = "s0\<lparr>gl := g1, bufs := Some (b0\<lparr>dye := swap (dye b0)\<rparr>)\<rparr>"
  let ?b = "b0\<lparr>dye := swap (dye b0)\<rparr>"
  from s0(7) have z: "\<And>x y. velocity_at (gl s0) b0 x y = (0, 0)" "\<And>x y. pressure_at (gl s0) b0 x y = 0"
    by (simp_all add: still_def)
  have vz: "\<forall>i j. 0 \<le> i \<and> i < 600 \<and> 0 \<le> j \<and> j < 450 \<longrightarrow> velocity_at (gl ?s) ?b i j = (0, 0)"
    using z(1) v by (simp add: velocity_at_def)
  have pz: "\<forall>i j. 0 \<le> i \<and> i < 600 \<and> 0 \<le> j \<and> j < 450 \<longrightarrow> pressure_at (gl ?s) ?b i j = 0"
    using z(2) p by (simp add: pressure_at_def)
  have w: "wf ?s"
    using splat_wf[OF s0(3), of "(1 / 2, 1 / 2)" "(1, 1 / 2, Some (1 / 4))" "15 / 1000" "JString ''dye''"] r
    by auto
  have f: "bufs ?s = Some ?b" "sim_w ?s = Some 600" "sim_h ?s = Some 450" using s0 by simp_all
  from zero_velocity_step_scales_dye[OF w f vz pz, of 300 225 "16 / 1000"]
  obtain s' b' where "step ?s (16 / 1000) = Inr s'" "bufs s' = Some b'"
    "dye_at (gl s') b' 300 225 = scale4 (dye_at (gl ?s) ?b 300 225) (dyeDissipation (settings ?s))"
    by auto
  with s0(1) r w f vz pz show ?thesis by force
qed

text \<open>
  C4 as the spec states it fails. The pressure field is not cleared between steps, and
  the gradient pass subtracts its gradient from the velocity before the dye is advected.
  On a \<open>16 \<times> 16\<close> grid with one pressure iteration, zero velocity, pressure \<open>p(x,y) = x\<close>
  and dye \<open>(x, 0, 0, 0)\<close>, the step with \<^verbatim>\<open>dt = 1/32\<close> gives cell \<open>(5, 5)\<close> the velocity
  \<open>(-1, 0)\<close>, samples the dye half a cell to the right, and leaves \<open>5.5 \<times> 0.995\<close> there,
  not \<open>5 \<times> 0.995\<close>.
\<close>

theorem residual_pressure_moves_dye:
  "case FluidSim small_canvas 1 one_sweep_options of Inl e \<Rightarrow> False
   | Inr s0 \<Rightarrow> (case bufs (with_ramps s0) of None \<Rightarrow> False
      | Some b \<Rightarrow> wf (with_ramps s0)
          \<and> sim_w (with_ramps s0) = Some 16 \<and> sim_h (with_ramps s0) = Some 16
          \<and> (\<forall>i j. velocity_at (gl (with_ramps s0)) b i j = (0, 0))
          \<and> pressure_at (gl (with_ramps s0)) b 4 5 = 4 \<and> pressure_at (gl (with_ramps s0)) b 6 5 = 6
          \<and> dye_at (gl (with_ramps s0)) b 5 5 = (5, 0, 0, 0)
          \<and> dyeDissipation (settings (with_ramps s0)) = 995 / 1000
          \<and> (case step (with_ramps s0) (1 / 32) of Inl e \<Rightarrow> False
             | Inr s' \<Rightarrow> (case bufs s' of None \<Rightarrow> False
                | Some b' \<Rightarrow> dye_at (gl s') b' 5 5 = (2189 / 400, 0, 0, 0)
                    \<and> scale4 (dye_at (gl (with_ramps s0)) b 5 5)
                         (dyeDissipation (settings (with_ramps s0))) = (199 / 40, 0, 0, 0))))"
proof -
  from small_sim obtain s0 b where s0: "FluidSim small_canvas 1 one_sweep_options = Inr s0"
    "bufs s0 = Some b" "wf s0" "sim_w s0 = Some 16" "sim_h s0 = Some 16"
    "settings s0 = assign_options default_settings one_sweep_options"
    "still 16 16 (\<lambda>x y. 0) (\<lambda>x y. (0, 0, 0, 0)) (gl s0, b)" by blast
  from s0(7) have ok: "buffers_ok (gl s0) 16 16 b" and z: "\<And>x y. velocity_at (gl s0) b x y = (0, 0)"
    by (simp_all add: still_def)
  let ?s = "with_ramps s0"
  let ?P = "\<lambda>x y. real_of_int (max 0 (min 15 (x::int)))"
  let ?D = "\<lambda>x y. (real_of_int (max 0 (min 15 (x::int))), 0::real, 0::real, 0::real)"
  have st: "still 16 16 ?P ?D (gl ?s, b)" by (rule with_ramps_still[OF s0(2) ok z])
  have fields: "bufs ?s = Some b" "sim_w ?s = Some 16" "sim_h ?s = Some 16"
    "settings ?s = assign_options default_settings one_sweep_options"
    "can_render (gl ?s)"
    using s0 by (simp_all add: with_ramps_def wf_def)
  have w: "wf ?s" using fields st by (simp add: wf_def still_def)
  have set: "pressureIters (settings ?s) = 1" "dyeDissipation (settings ?s) = 995 / 1000"
    by (simp_all add: fields(4) assign_options_def default_settings_def one_sweep_options_def
        no_options_def override_def)
  from st have obs: "\<And>i j. velocity_at (gl ?s) b i j = (0, 0)"
    "pressure_at (gl ?s) b 4 5 = 4" "pressure_at (gl ?s) b 6 5 = 6" "dye_at (gl ?s) b 5 5 = (5, 0, 0, 0)"
    by (simp_all add: still_def)
  have it: "((jacobi0 16 16) ^^ nat 1) ?P = jacobi0 16 16 ?P" by simp
  have cl: "max 0 (min (16 - 1) (5::int)) = 5" by simp
  have j: "jacobi0 16 16 ?P (5 + 1) 5 = 6" "jacobi0 16 16 ?P (5 - 1) 5 = 4"
    "jacobi0 16 16 ?P 5 (5 + 1) = 5" "jacobi0 16 16 ?P 5 (5 - 1) = 5"
    by (simp_all add: jacobi0_def)
  have co: "sub2 (cell_uv 16 16 5 5)
              (mul2 (scale2 (1 / 32) (- (1 / 2) * (6 - 4), - (1 / 2) * (5 - 5)))
                 (real_of_int 16 / real_of_int 16, 1)) = (3 / 8, 11 / 32)"
    by (simp add: cell_uv_def gl_FragCoord_def)
  have fl: "\<lfloor>(11 / 2 :: real)\<rfloor> = 5" "\<lfloor>(5 :: real)\<rfloor> = 5" by simp_all
  have bi: "bilerp (\<lambda>uv. ?D \<lfloor>fst uv * real_of_int 16\<rfloor> \<lfloor>snd uv * real_of_int 16\<rfloor>) (3 / 8, 11 / 32)
              (real_of_int 16, real_of_int 16) = (11 / 2, 0, 0, 0)"
    by (simp add: bilerp_def Let_def fl)
  have pos16: "(0::int) < 16" by simp
  from step_still[OF fields(1) st pos16 pos16, of "1 / 32"] obtain g7 b7 where
    r: "step ?s (1 / 32) = Inr (?s\<lparr>gl := g7, bufs := Some b7\<rparr>)"
    and d0: "\<And>x y. dye_at g7 b7 x y =
          scale4 (bilerp (\<lambda>uv. ?D \<lfloor>fst uv * real_of_int 16\<rfloor> \<lfloor>snd uv * real_of_int 16\<rfloor>)
                    (sub2 (cell_uv 16 16 (max 0 (min (16 - 1) x)) (max 0 (min (16 - 1) y)))
                       (mul2 (scale2 (1 / 32)
                          (- (1 / 2) * (((jacobi0 16 16) ^^ nat (pressureIters (settings ?s))) ?P
                                           (max 0 (min (16 - 1) x) + 1) (max 0 (min (16 - 1) y))
                                        - ((jacobi0 16 16) ^^ nat (pressureIters (settings ?s))) ?P
                                           (max 0 (min (16 - 1) x) - 1) (max 0 (min (16 - 1) y))),
                           - (1 / 2) * (((jacobi0 16 16) ^^ nat (pressureIters (settings ?s))) ?P
                                           (max 0 (min (16 - 1) x)) (max 0 (min (16 - 1) y) + 1)
                                        - ((jacobi0 16 16) ^^ nat (pressureIters (settings ?s))) ?P
                                           (max 0 (min (16 - 1) x)) (max 0 (min (16 - 1) y) - 1))))
                          (real_of_int 16 / real_of_int 16, 1)))
                    (real_of_int 16, real_of_int 16))
            (dyeDissipation (settings ?s))"
    by blast
  have d: "dye_at g7 b7 5 5 = (2189 / 400, 0, 0, 0)"
    unfolding d0[of 5 5] set it cl j co bi by simp
  show ?thesis
    using s0(1) fields(1-3) w obs r d set(2) by simp
qed


section \<open>Splats\<close>

text \<open>
  C10. On a constructed simulation \<^verbatim>\<open>splat\<close> never throws. When \<^verbatim>\<open>target\<close> is the string
  \<^verbatim>\<open>"velocity"\<close> it adds the weighted \<^verbatim>\<open>xy\<close> of the value to the velocity and leaves the
  dye as it was; for every other \<^verbatim>\<open>target\<close> (another string, a number, \<^verbatim>\<open>undefined\<close>) it
  adds the weighted value to the dye (and \<open>1\<close> to its alpha channel) and leaves the
  velocity pair, both its handles and its texels, as it was.
\<close>

theorem splat_target_selection:
  assumes "wf s" "bufs s = Some b" "sim_w s = Some wd" "sim_h s = Some ht"
    and "0 \<le> x" "x < wd" "0 \<le> y" "y < ht"
  shows "\<exists>s' b'. splat s p v r target = Inr s' \<and> bufs s' = Some b' \<and>
     (if target = JString ''velocity''
      then dye b' = dye b \<and> dye_at (gl s') b' x y = dye_at (gl s) b x y
         \<and> texel_at (gl s') (write_of (dye b')) x y = texel_at (gl s) (write_of (dye b)) x y
         \<and> read_of (velocity b') = write_of (velocity b) \<and> write_of (velocity b') = read_of (velocity b)
         \<and> velocity_at (gl s') b' x y
             = add2 (velocity_at (gl s) b x y)
                 (fst (splat_value v) * splat_weight p r (cell_uv wd ht x y),
                  fst (snd (splat_value v)) * splat_weight p r (cell_uv wd ht x y))
      else velocity b' = velocity b \<and> velocity_at (gl s') b' x y = velocity_at (gl s) b x y
         \<and> texel_at (gl s') (write_of (velocity b')) x y = texel_at (gl s) (write_of (velocity b)) x y
         \<and> read_of (dye b') = write_of (dye b) \<and> write_of (dye b') = read_of (dye b)
         \<and> dye_at (gl s') b' x y
             = add4 (dye_at (gl s) b x y)
                 (fst (splat_value v) * splat_weight p r (cell_uv wd ht x y),
                  fst (snd (splat_value v)) * splat_weight p r (cell_uv wd ht x y),
                  snd (snd (splat_value v)) * splat_weight p r (cell_uv wd ht x y), 1))"
proof -
  from assms(1-4) have ok: "buffers_ok (gl s) wd ht b" and pos: "0 < wd" "0 < ht"
    by (simp_all add: wf_def)
  have cl: "max 0 (min (wd - 1) x) = x" "max 0 (min (ht - 1) y) = y"
    using assms(5-8) by simp_all
  show ?thesis
  proof (cases "target = JString ''velocity''")
    case True
    from splat_velocity[OF assms(2) ok pos, of p v r] obtain g1 where
      "splat s p v r (JString ''velocity'') = Inr (s\<lparr>gl := g1, bufs := Some (b\<lparr>velocity := swap (velocity b)\<rparr>)\<rparr>)"
      "velocity_at g1 (b\<lparr>velocity := swap (velocity b)\<rparr>) x y
         = add2 (velocity_at (gl s) b x y)
                 (fst (splat_value v) * splat_weight p r (cell_uv wd ht x y),
                  fst (snd (splat_value v)) * splat_weight p r (cell_uv wd ht x y))"
      "texel_at g1 (read_of (dye b)) x y = texel_at (gl s) (read_of (dye b)) x y"
      "texel_at g1 (write_of (dye b)) x y = texel_at (gl s) (write_of (dye b)) x y"
      using cl by auto
    with True show ?thesis by (simp add: dye_at_def)
  next
    case False
    from splat_dye[OF assms(2) ok pos False, of p v r] obtain g1 where
      "splat s p v r target = Inr (s\<lparr>gl := g1, bufs := Some (b\<lparr>dye := swap (dye b)\<rparr>)\<rparr>)"
      "dye_at g1 (b\<lparr>dye := swap (dye b)\<rparr>) x y
         = add4 (dye_at (gl s) b x y)
                 (fst (splat_value v) * splat_weight p r (cell_uv wd ht x y),
                  fst (snd (splat_value v)) * splat_weight p r (cell_uv wd ht x y),
                  snd (snd (splat_value v)) * splat_weight p r (cell_uv wd ht x y), 1)"
      "texel_at g1 (read_of (velocity b)) x y = texel_at (gl s) (read_of (velocity b)) x y"
      "texel_at g1 (write_of (velocity b)) x y = texel_at (gl s) (write_of (velocity b)) x y"
      using cl by auto
    with False show ?thesis by (simp add: velocity_at_def)
  qed
qed

theorem splat_target_selection_witness:
  "\<exists>s b s' b'. FluidSim example_canvas 1 no_options = Inr s \<and> wf s \<and> bufs s = Some b
     \<and> sim_w s = Some 600 \<and> sim_h s = Some 450
     \<and> splat s (1 / 2, 1 / 2) (1, 0, Some 0) (15 / 1000) (JString ''Velocity'') = Inr s'
     \<and> bufs s' = Some b'
     \<and> velocity b' = velocity b \<and> velocity_at (gl s') b' 3 4 = velocity_at (gl s) b 3 4
     \<and> dye_at (gl s') b' 3 4
         = add4 (dye_at (gl s) b 3 4)
             (fst (splat_value (1, 0, Some 0)) * splat_weight (1 / 2, 1 / 2) (15 / 1000) (cell_uv 600 450 3 4),
              fst (snd (splat_value (1, 0, Some 0))) * splat_weight (1 / 2, 1 / 2) (15 / 1000) (cell_uv 600 450 3 4),
              snd (snd (splat_value (1, 0, Some 0))) * splat_weight (1 / 2, 1 / 2) (15 / 1000) (cell_uv 600 450 3 4), 1)"
proof -
  from example_fresh obtain s b where s: "FluidSim example_canvas 1 no_options = Inr s"
    "wf s" "bufs s = Some b" "sim_w s = Some 600" "sim_h s = Some 450" by blast
  from splat_target_selection[OF s(2-5), of 3 4 "(1 / 2, 1 / 2)" "(1, 0, Some 0)" "15 / 1000" "JString ''Velocity''"]
    s show ?thesis by auto
qed

text \<open>
  C5, as amended. Two dye splats with the same arguments leave, at every cell, the same
  colour (\<^verbatim>\<open>.rgb\<close>, which is all the presentation reads of the dye) as one splat with the
  doubled value. The alpha channel of the dye texture, to which every splat adds \<open>1\<close>, is
  higher by \<open>1\<close> after the two splats.
\<close>

theorem splat_superposition:
  assumes "wf s"
  shows "\<exists>s1 s2 s3 b2 b3.
           splat s p v r (JString ''dye'') = Inr s1 \<and> splat s1 p v r (JString ''dye'') = Inr s2
         \<and> splat s p (doubled v) r (JString ''dye'') = Inr s3
         \<and> bufs s2 = Some b2 \<and> bufs s3 = Some b3
         \<and> (\<forall>x y. swz_rgb (dye_at (gl s2) b2 x y) = swz_rgb (dye_at (gl s3) b3 x y))
         \<and> (\<forall>x y. swz_a (dye_at (gl s2) b2 x y) = swz_a (dye_at (gl s3) b3 x y) + 1)"
proof -
  from assms obtain b wd ht where b: "bufs s = Some b" and ok: "buffers_ok (gl s) wd ht b"
    and pos: "0 < wd" "0 < ht"
    by (auto simp: wf_def split: option.splits)
  have nv: "JString ''dye'' \<noteq> JString ''velocity''" by simp
  let ?a = "\<lambda>x y. splat_weight p r (cell_uv wd ht (max 0 (min (wd - 1) x)) (max 0 (min (ht - 1) y)))"
  from splat_dye[OF b ok pos nv, of p v r] obtain g1 where
    s1: "splat s p v r (JString ''dye'') = Inr (s\<lparr>gl := g1, bufs := Some (b\<lparr>dye := swap (dye b)\<rparr>)\<rparr>)"
    and ok1: "buffers_ok g1 wd ht (b\<lparr>dye := swap (dye b)\<rparr>)"
    and d1: "\<And>x y. dye_at g1 (b\<lparr>dye := swap (dye b)\<rparr>) x y
                  = add4 (dye_at (gl s) b x y)
                      (fst (splat_value v) * ?a x y, fst (snd (splat_value v)) * ?a x y,
                       snd (snd (splat_value v)) * ?a x y, 1)"
    by blast
  let ?s1 = "s\<lparr>gl := g1, bufs := Some (b\<lparr>dye := swap (dye b)\<rparr>)\<rparr>"
  let ?b1 = "b\<lparr>dye := swap (dye b)\<rparr>"
  have b1: "bufs ?s1 = Some ?b1" and ok1': "buffers_ok (gl ?s1) wd ht ?b1" using ok1 by simp_all
  from splat_dye[OF b1 ok1' pos nv, of p v r] obtain g2 where
    s2: "splat ?s1 p v r (JString ''dye'') = Inr (?s1\<lparr>gl := g2, bufs := Some (?b1\<lparr>dye := swap (dye ?b1)\<rparr>)\<rparr>)"
    and d2: "\<And>x y. dye_at g2 (?b1\<lparr>dye := swap (dye ?b1)\<rparr>) x y
                  = add4 (dye_at (gl ?s1) ?b1 x y)
                      (fst (splat_value v) * ?a x y, fst (snd (splat_value v)) * ?a x y,
                       snd (snd (splat_value v)) * ?a x y, 1)"
    by blast
  from splat_dye[OF b ok pos nv, of p "doubled v" r] obtain g3 where
    s3: "splat s p (doubled v) r (JString ''dye'') = Inr (s\<lparr>gl := g3, bufs := Some (b\<lparr>dye := swap (dye b)\<rparr>)\<rparr>)"
    and d3: "\<And>x y. dye_at g3 (b\<lparr>dye := swap (dye b)\<rparr>) x y
                  = add4 (dye_at (gl s) b x y)
                      (fst (splat_value (doubled v)) * ?a x y, fst (snd (splat_value (doubled v))) * ?a x y,
                       snd (snd (splat_value (doubled v))) * ?a x y, 1)"
    by blast
  have rgb: "swz_rgb (dye_at g2 (?b1\<lparr>dye := swap (dye ?b1)\<rparr>) x y)
               = swz_rgb (dye_at g3 (b\<lparr>dye := swap (dye b)\<rparr>) x y)"
    and alpha: "swz_a (dye_at g2 (?b1\<lparr>dye := swap (dye ?b1)\<rparr>) x y)
               = swz_a (dye_at g3 (b\<lparr>dye := swap (dye b)\<rparr>) x y) + 1" for x y
  proof -
    obtain c1 c2 c3 c4 where c: "dye_at (gl s) b x y = (c1, c2, c3, c4)"
      by (cases "dye_at (gl s) b x y") auto
    show "swz_rgb (dye_at g2 (?b1\<lparr>dye := swap (dye ?b1)\<rparr>) x y)
               = swz_rgb (dye_at g3 (b\<lparr>dye := swap (dye b)\<rparr>) x y)"
      unfolding d2 d3 by (simp add: d1 c splat_value_doubled)
    show "swz_a (dye_at g2 (?b1\<lparr>dye := swap (dye ?b1)\<rparr>) x y)
               = swz_a (dye_at g3 (b\<lparr>dye := swap (dye b)\<rparr>) x y) + 1"
      unfolding d2 d3 by (simp add: d1 c)
  qed
  let ?s2 = "?s1\<lparr>gl := g2, bufs := Some (?b1\<lparr>dye := swap (dye ?b1)\<rparr>)\<rparr>"
  let ?s3 = "s\<lparr>gl := g3, bufs := Some (b\<lparr>dye := swap (dye b)\<rparr>)\<rparr>"
  have all: "splat s p v r (JString ''dye'') = Inr ?s1 \<and> splat ?s1 p v r (JString ''dye'') = Inr ?s2
         \<and> splat s p (doubled v) r (JString ''dye'') = Inr ?s3
         \<and> bufs ?s2 = Some (?b1\<lparr>dye := swap (dye ?b1)\<rparr>) \<and> bufs ?s3 = Some ?b1
         \<and> (\<forall>x y. swz_rgb (dye_at (gl ?s2) (?b1\<lparr>dye := swap (dye ?b1)\<rparr>) x y)
                    = swz_rgb (dye_at (gl ?s3) ?b1 x y))
         \<and> (\<forall>x y. swz_a (dye_at (gl ?s2) (?b1\<lparr>dye := swap (dye ?b1)\<rparr>) x y)
                    = swz_a (dye_at (gl ?s3) ?b1 x y) + 1)"
    using s1 s2 s3 rgb alpha by simp
  show ?thesis
    by (rule exI[of _ ?s1], rule exI[of _ ?s2], rule exI[of _ ?s3],
        rule exI[of _ "?b1\<lparr>dye := swap (dye ?b1)\<rparr>"], rule exI[of _ ?b1]) (rule all)
qed

theorem splat_superposition_witness:
  "\<exists>s s1 s2 s3 b2 b3. FluidSim example_canvas 1 no_options = Inr s \<and> wf s
         \<and> splat s (1 / 2, 1 / 2) (1, 1 / 2, Some (1 / 4)) (15 / 1000) (JString ''dye'') = Inr s1
         \<and> splat s1 (1 / 2, 1 / 2) (1, 1 / 2, Some (1 / 4)) (15 / 1000) (JString ''dye'') = Inr s2
         \<and> splat s (1 / 2, 1 / 2) (doubled (1, 1 / 2, Some (1 / 4))) (15 / 1000) (JString ''dye'') = Inr s3
         \<and> bufs s2 = Some b2 \<and> bufs s3 = Some b3
         \<and> (\<forall>x y. swz_rgb (dye_at (gl s2) b2 x y) = swz_rgb (dye_at (gl s3) b3 x y))"
proof -
  from example_fresh obtain s where s: "FluidSim example_canvas 1 no_options = Inr s" "wf s" by blast
  from splat_superposition[OF s(2), of "(1 / 2, 1 / 2)" "(1, 1 / 2, Some (1 / 4))" "15 / 1000"] s
  show ?thesis by blast
qed

text \<open>
  C5 as the spec states it fails: the texels of the dye are not the same. On the
  constructed \<open>600 \<times> 450\<close> example, after two splats of \<open>(1, 0.5, 0.25)\<close> at the centre
  the alpha of cell \<open>(300, 225)\<close> is \<open>2\<close>; after one splat of the doubled value it is \<open>1\<close>.
\<close>

theorem two_splats_differ_in_alpha:
  "case FluidSim example_canvas 1 no_options of Inl e \<Rightarrow> False
   | Inr s \<Rightarrow>
      (case splat s (1 / 2, 1 / 2) (1, 1 / 2, Some (1 / 4)) (15 / 1000) (JString ''dye'') of Inl e \<Rightarrow> False
       | Inr s1 \<Rightarrow>
          (case splat s1 (1 / 2, 1 / 2) (1, 1 / 2, Some (1 / 4)) (15 / 1000) (JString ''dye'') of Inl e \<Rightarrow> False
           | Inr s2 \<Rightarrow>
              (case splat s (1 / 2, 1 / 2) (doubled (1, 1 / 2, Some (1 / 4))) (15 / 1000) (JString ''dye'') of
                 Inl e \<Rightarrow> False
               | Inr s3 \<Rightarrow>
                  (case bufs s2 of None \<Rightarrow> False
                   | Some b2 \<Rightarrow>
                      (case bufs s3 of None \<Rightarrow> False
                       | Some b3 \<Rightarrow>
                           swz_a (dye_at (gl s2) b2 300 225) = 2 \<and> swz_a (dye_at (gl s3) b3 300 225) = 1
                         \<and> dye_at (gl s2) b2 300 225 \<noteq> dye_at (gl s3) b3 300 225)))))"
proof -
  from example_fresh obtain s b where s: "FluidSim example_canvas 1 no_options = Inr s"
    "bufs s = Some b" "buffers_ok (gl s) 600 450 b"
    "still 600 450 (\<lambda>x y. 0) (\<lambda>x y. (0, 0, 0, 0)) (gl s, b)" by blast
  from s(4) have z: "dye_at (gl s) b 300 225 = (0, 0, 0, 0)" by (simp add: still_def)
  have nv: "JString ''dye'' \<noteq> JString ''velocity''" by simp
  let ?p = "(1 / 2 :: real, 1 / 2 :: real)" and ?v = "(1 :: real, 1 / 2 :: real, Some (1 / 4 :: real))"
  let ?r = "15 / 1000 :: real"
  let ?b1 = "b\<lparr>dye := swap (dye b)\<rparr>"
  from splat_dye[OF s(2,3) _ _ nv, of ?p ?v ?r] obtain g1 where
    r1: "splat s ?p ?v ?r (JString ''dye'') = Inr (s\<lparr>gl := g1, bufs := Some ?b1\<rparr>)"
    and ok1: "buffers_ok g1 600 450 ?b1"
    and d1: "swz_a (dye_at g1 ?b1 300 225) = swz_a (dye_at (gl s) b 300 225) + 1"
    by (auto simp: swz_a_add4)
  let ?s1 = "s\<lparr>gl := g1, bufs := Some ?b1\<rparr>"
  have bs1: "bufs ?s1 = Some ?b1" and ok1': "buffers_ok (gl ?s1) 600 450 ?b1" using ok1 by simp_all
  from splat_dye[OF bs1 ok1' _ _ nv, of ?p ?v ?r] obtain g2 where
    r2: "splat ?s1 ?p ?v ?r (JString ''dye'') = Inr (?s1\<lparr>gl := g2, bufs := Some (?b1\<lparr>dye := swap (dye ?b1)\<rparr>)\<rparr>)"
    and d2: "swz_a (dye_at g2 (?b1\<lparr>dye := swap (dye ?b1)\<rparr>) 300 225) = swz_a (dye_at (gl ?s1) ?b1 300 225) + 1"
    by (auto simp: swz_a_add4)
  from splat_dye[OF s(2,3) _ _ nv, of ?p "doubled ?v" ?r] obtain g3 where
    r3: "splat s ?p (doubled ?v) ?r (JString ''dye'') = Inr (s\<lparr>gl := g3, bufs := Some ?b1\<rparr>)"
    and d3: "swz_a (dye_at g3 ?b1 300 225) = swz_a (dye_at (gl s) b 300 225) + 1"
    by (auto simp: swz_a_add4)
  have a2: "swz_a (dye_at g2 (?b1\<lparr>dye := swap (dye ?b1)\<rparr>) 300 225) = 2"
    using d2 d1 z by simp
  have a3: "swz_a (dye_at g3 ?b1 300 225) = 1"
    using d3 z by simp
  have ne: "dye_at g2 (?b1\<lparr>dye := swap (dye ?b1)\<rparr>) 300 225 \<noteq> dye_at g3 ?b1 300 225"
  proof
    assume "dye_at g2 (?b1\<lparr>dye := swap (dye ?b1)\<rparr>) 300 225 = dye_at g3 ?b1 300 225"
    then have "swz_a (dye_at g2 (?b1\<lparr>dye := swap (dye ?b1)\<rparr>) 300 225) = swz_a (dye_at g3 ?b1 300 225)"
      by simp
    with a2 a3 show False by simp
  qed
  show ?thesis
    using s(1) r1 r2 r3 a2 a3 ne by simp
qed






section \<open>The shared resolution\<close>

text \<open>
  C7. In every state a simulation object can reach, the eight buffer objects of the five
  fields record one and the same size, the simulation resolution \<^verbatim>\<open>_w\<close> \<open>\<times>\<close> \<^verbatim>\<open>_h\<close>, and
  their texture images have that size; \<^verbatim>\<open>step\<close>, \<^verbatim>\<open>splat\<close> and \<^verbatim>\<open>reset\<close> succeed and
  leave these sizes as they are.
\<close>

theorem fields_share_simulation_resolution:
  assumes "reachable s"
  shows "(\<exists>wd ht. 0 < wd \<and> 0 < ht \<and> sim_w s = Some wd \<and> sim_h s = Some ht
            \<and> field_sizes s = replicate 8 (wd, ht) \<and> image_sizes s = replicate 8 (Some (wd, ht)))
         \<and> (\<exists>s'. step s dt = Inr s' \<and> field_sizes s' = field_sizes s \<and> image_sizes s' = image_sizes s)
         \<and> (\<exists>s'. splat s point01 value3 radius01 target = Inr s'
                \<and> field_sizes s' = field_sizes s \<and> image_sizes s' = image_sizes s)
         \<and> (\<exists>s'. reset s = Inr s' \<and> field_sizes s' = field_sizes s \<and> image_sizes s' = image_sizes s)"
proof -
  have w: "wf s" using assms by (rule reachable_wf)
  from wf_sizes[OF w] obtain wd ht where d: "0 < wd" "0 < ht" "sim_w s = Some wd" "sim_h s = Some ht"
    "field_sizes s = replicate 8 (wd, ht)" "image_sizes s = replicate 8 (Some (wd, ht))" by blast
  have same: "field_sizes s' = field_sizes s \<and> image_sizes s' = image_sizes s"
    if "wf s'" "sim_w s' = sim_w s" "sim_h s' = sim_h s" for s'
    using wf_sizes[OF that(1)] that(2,3) d by auto
  from step_wf[OF w, of dt] same obtain s1 where
    "step s dt = Inr s1 \<and> field_sizes s1 = field_sizes s \<and> image_sizes s1 = image_sizes s" by blast
  moreover from splat_wf[OF w, of point01 value3 radius01 target] same obtain s2 where
    "splat s point01 value3 radius01 target = Inr s2 \<and> field_sizes s2 = field_sizes s
       \<and> image_sizes s2 = image_sizes s" by blast
  moreover from reset_wf[OF w] same obtain s3 where
    "reset s = Inr s3 \<and> field_sizes s3 = field_sizes s \<and> image_sizes s3 = image_sizes s" by blast
  ultimately show ?thesis using d by blast
qed

theorem fields_share_simulation_resolution_witness:
  "\<exists>s. FluidSim example_canvas 1 no_options = Inr s \<and> reachable s
       \<and> field_sizes s = replicate 8 (600, 450) \<and> image_sizes s = replicate 8 (Some (600, 450))
       \<and> (\<exists>s'. step s (16 / 1000) = Inr s' \<and> field_sizes s' = field_sizes s \<and> image_sizes s' = image_sizes s)
       \<and> (\<exists>s'. splat s (1 / 2, 1 / 2) (1, 0, None) (15 / 1000) (JString ''dye'') = Inr s'
              \<and> field_sizes s' = field_sizes s \<and> image_sizes s' = image_sizes s)
       \<and> (\<exists>s'. reset s = Inr s' \<and> field_sizes s' = field_sizes s \<and> image_sizes s' = image_sizes s)"
proof -
  from example_constructed obtain s where s: "FluidSim example_canvas 1 no_options = Inr s" ..
  then have r: "reachable s" by (rule reachable.constructed)
  from example_resolution s have d: "sim_w s = Some 600" "sim_h s = Some 450" by simp_all
  from fields_share_simulation_resolution[OF r, of "16 / 1000" "(1 / 2, 1 / 2)" "(1, 0, None)" "15 / 1000" "JString ''dye''"]
    d s r show ?thesis by auto
qed


section \<open>Construction\<close>

text \<open>
  C8. Whenever \<^verbatim>\<open>checkFloatSupport\<close> fails (the context does not offer
  \<^verbatim>\<open>EXT_color_buffer_float\<close>, or is lost), the constructor throws an \<^verbatim>\<open>Error\<close> whose
  message names the missing capability, and returns no instance: there is no fallback path.
\<close>

theorem constructor_requires_float_support:
  assumes "getGL cv = Some g" "\<not> fst (checkFloatSupport g)"
  shows "FluidSim cv window_dpr opts =
     Inl (Error ''Required float framebuffer support missing (EXT_color_buffer_float)'')"
proof -
  obtain r g1 where c: "checkFloatSupport g = (r, g1)" by (cases "checkFloatSupport g")
  with assms(2) have "r = False" by simp
  with c assms(1) show ?thesis by (simp add: FluidSim_def)
qed

theorem constructor_requires_float_support_witness:
  "getGL no_float_canvas = Some (example_context\<lparr>supported_extensions := []\<rparr>)
   \<and> \<not> fst (checkFloatSupport (example_context\<lparr>supported_extensions := []\<rparr>))
   \<and> FluidSim no_float_canvas 1 no_options =
       Inl (Error ''Required float framebuffer support missing (EXT_color_buffer_float)'')"
proof -
  have a: "getGL no_float_canvas = Some (example_context\<lparr>supported_extensions := []\<rparr>)"
    by (simp add: getGL_def no_float_canvas_def)
  have b: "\<not> fst (checkFloatSupport (example_context\<lparr>supported_extensions := []\<rparr>))"
    by (simp add: checkFloatSupport_def getExtension_def)
  show ?thesis using a b constructor_requires_float_support[OF a b, of 1 no_options] by simp
qed

end
